theory Spec2Isabelle
  imports Main "HOL-Library.Sublist"
begin

text \<open>
  The message pipeline of messengers-autoreply: the store gateway with its
  re-authentication on an expired session, the responder that drives the external
  assistant, the two platform adapters and the HTTP entry points with their dedup cache.
  Every asynchronous function of the TypeScript source is a function from the world before
  the call to its result and the world after it; a thrown value is the left summand of the
  result. The properties proved follow the model.
\<close>

section \<open>Canonical model (src/models/index.ts)\<close>

text \<open>
  The TypeScript unions \<open>MessageSource\<close>, \<open>MessageType\<close> and \<open>ResponseMode\<close> are
  plain strings at run time (the adapters cast platform strings with \<open>as MessageSource\<close>),
  so they are strings here. An optional field (\<open>id?: string\<close>) is a \<open>string option\<close>;
  \<open>None\<close> is JavaScript's \<open>undefined\<close>. Dates are milliseconds since the epoch.
\<close>

type_synonym MessageSource = string
type_synonym MessageType = string
type_synonym ResponseMode = string

record Message =
  msg_id :: "string option"
  platformMessageId :: "string option"
  msg_source :: MessageSource
  chatId :: "string option"
  msg_type :: MessageType
  content :: string
  mediaFileId :: "string option"
  isIncoming :: bool
  timestamp :: int
  senderId :: string
  senderName :: "string option"
  responseMode :: ResponseMode

record Chat =
  chat_id :: "string option"
  platformChatId :: "string option"
  chat_source :: MessageSource
  chat_name :: string
  updated :: int
  autoMode :: bool
  openAIThreadId :: "string option"

section \<open>JavaScript values\<close>

text \<open>Truthiness of an optional string: \<open>undefined\<close> and \<open>""\<close> are falsy.\<close>

definition truthy :: "string option \<Rightarrow> bool" where
  "truthy s = (case s of None \<Rightarrow> False | Some t \<Rightarrow> t \<noteq> [])"

text \<open>\<open>a || b\<close> on an optional string with a string default.\<close>

definition or_else :: "string option \<Rightarrow> string \<Rightarrow> string" where
  "or_else s d = (case s of None \<Rightarrow> d | Some t \<Rightarrow> if t = [] then d else t)"

text \<open>\<open>String.prototype.includes\<close>.\<close>

fun str_includes :: "string \<Rightarrow> string \<Rightarrow> bool" where
  "str_includes [] sub = (sub = [])"
| "str_includes (c # cs) sub = (prefix sub (c # cs) \<or> str_includes cs sub)"

text \<open>Decimal printing of a number (\<open>String(n)\<close> and template literals).\<close>

fun string_of_nat :: "nat \<Rightarrow> string" where
  "string_of_nat n =
     (if n < 10 then [''0123456789'' ! n]
      else string_of_nat (n div 10) @ [''0123456789'' ! (n mod 10)])"

definition string_of_int :: "int \<Rightarrow> string" where
  "string_of_int i = (if i < 0 then CHR ''-'' # string_of_nat (nat (- i)) else string_of_nat (nat i))"

text \<open>
  Thrown values. A PocketBase \<open>ClientResponseError\<close> carries an HTTP status and the
  message of the response body; every other thrown value (\<open>new Error(..)\<close>, a
  \<open>TypeError\<close> on reading a property of \<open>null\<close>, a network failure) has no status.
\<close>

datatype error = ClientResponseError int "string option" | JsError string

fun status :: "error \<Rightarrow> int option" where
  "status (ClientResponseError s m) = Some s"
| "status (JsError m) = None"

fun response_message :: "error \<Rightarrow> string option" where
  "response_message (ClientResponseError s m) = m"
| "response_message (JsError m) = None"

section \<open>The world the program runs in\<close>

text \<open>
  Everything outside the process is explicit state. The record store keeps three
  collections; \<open>pb_faults\<close> scripts the failures it injects, one entry consumed by each
  collection request (\<open>None\<close>: the request reaches the collection; an exhausted script
  injects nothing). \<open>auth_script\<close> does the same for logins. The remaining fields are
  the external assistant, the media links and the two chat platforms.
\<close>

record MediaRecord =
  media_id :: string
  media_file :: string
  media_platform :: string
  media_blob :: string

text \<open>
  What a \<open>fetch\<close> gives: it throws, or it answers with the \<open>ok\<close> flag, the body and
  the content type. A transcription request throws or answers with the \<open>ok\<close> flag and
  the \<open>text\<close> field of the JSON body.
\<close>

datatype FetchResult = FetchThrows | Response bool string "string option"

datatype Transcription = TranscriptionThrows | TranscriptionResponse bool "string option"

record ThreadMessage =
  role :: string
  parts :: "(string \<times> string) list"

record world =
  clock :: int
  chats :: "Chat list"
  messages :: "Message list"
  media :: "MediaRecord list"
  next_id :: nat
  pb_faults :: "error option list"
  pb_requests :: nat
  auth_script :: "error option list"
  auth_calls :: nat
  authRetryInProgress :: bool
  file_token :: "error + string"
  fetch :: "string \<Rightarrow> FetchResult"
  OPENAI_ASSISTANT_ID :: "string option"
  openai_faults :: "error option list"
  thread_count :: nat
  run_count :: nat
  polls :: nat
  run_status_at :: "nat \<Rightarrow> string"
  retrieve_ms :: "nat \<Rightarrow> nat"
  thread_inputs :: "(string \<times> string) list"
  thread_list :: "ThreadMessage list"
  vision_choices :: "string option list"
  convertAudioInMemory :: "string \<Rightarrow> error + string"
  transcription :: "string \<Rightarrow> Transcription"
  brevo_faults :: "error option list"
  brevo_sent :: "(string \<times> string) list"
  tg_faults :: "error option list"
  tg_sent :: "(string \<times> string) list"

section \<open>The record store client (the PocketBase SDK, as the program uses it)\<close>

text \<open>
  Every collection request first consumes one entry of the fault script. A request that is
  let through acts on the collection: a lookup that finds nothing fails with status 404,
  as the SDK's \<open>getFirstListItem\<close> and \<open>getOne\<close> do. The filter
  \<open>platformChatId="<id>"\<close> is an equality test on that field.

  The collections are the ones the README sets up. There \<open>chats.platformChatId\<close> is
  declared unique, so the store refuses, with status 400, to create a chat whose
  \<open>platformChatId\<close> another chat already has, and to give a chat the
  \<open>platformChatId\<close> of another chat by an update. No field of \<open>messages\<close> or
  \<open>media\<close> is unique.

  The SDK answers \<open>getOne\<close> for a missing or empty identifier with status 404 before it
  sends anything. The program hands \<open>getOne\<close> the identifier of a stored record, which
  is not empty; \<open>chats_getOne\<close> and \<open>media_getOne\<close> are the request that is sent
  for such an identifier, and the one caller that can hold a missing or empty identifier
  (\<open>create_thread\<close> of the responder) takes the 404 branch itself.
\<close>

definition take_fault :: "world \<Rightarrow> error option \<times> world" where
  "take_fault w =
     (let w1 = w\<lparr>pb_requests := Suc (pb_requests w)\<rparr> in
      case pb_faults w of [] \<Rightarrow> (None, w1) | f # fs \<Rightarrow> (f, w1\<lparr>pb_faults := fs\<rparr>))"

definition not_found :: error where
  "not_found = ClientResponseError 404 (Some ''The requested resource was not found.'')"

definition not_unique :: error where
  "not_unique = ClientResponseError 400 (Some ''Failed to create record.'')"

definition not_unique_update :: error where
  "not_unique_update = ClientResponseError 400 (Some ''Failed to update record.'')"

definition fresh_id :: "world \<Rightarrow> string" where
  "fresh_id w = CHR ''r'' # string_of_nat (next_id w)"

definition chats_getFirstListItem :: "string \<Rightarrow> world \<Rightarrow> (error + Chat) \<times> world" where
  "chats_getFirstListItem pid w =
     (case take_fault w of
        (Some e, w1) \<Rightarrow> (Inl e, w1)
      | (None, w1) \<Rightarrow>
          (case find (\<lambda>c. platformChatId c = Some pid) (chats w1) of
             None \<Rightarrow> (Inl not_found, w1)
           | Some c \<Rightarrow> (Inr c, w1)))"

definition chats_getOne :: "string \<Rightarrow> world \<Rightarrow> (error + Chat) \<times> world" where
  "chats_getOne cid w =
     (case take_fault w of
        (Some e, w1) \<Rightarrow> (Inl e, w1)
      | (None, w1) \<Rightarrow>
          (case find (\<lambda>c. chat_id c = Some cid) (chats w1) of
             None \<Rightarrow> (Inl not_found, w1)
           | Some c \<Rightarrow> (Inr c, w1)))"

definition chats_create :: "Chat \<Rightarrow> world \<Rightarrow> (error + Chat) \<times> world" where
  "chats_create chat w =
     (case take_fault w of
        (Some e, w1) \<Rightarrow> (Inl e, w1)
      | (None, w1) \<Rightarrow>
          (case find (\<lambda>c. platformChatId c = platformChatId chat) (chats w1) of
             Some other \<Rightarrow> (Inl not_unique, w1)
           | None \<Rightarrow>
               (let result = chat\<lparr>chat_id := Some (fresh_id w1), updated := clock w1\<rparr>
                in (Inr result,
                    w1\<lparr>chats := chats w1 @ [result], next_id := Suc (next_id w1)\<rparr>))))"

definition chats_update_by_id :: "string \<Rightarrow> Chat \<Rightarrow> world \<Rightarrow> (error + Chat) \<times> world" where
  "chats_update_by_id cid chat w =
     (case take_fault w of
        (Some e, w1) \<Rightarrow> (Inl e, w1)
      | (None, w1) \<Rightarrow>
          (case find (\<lambda>c. chat_id c = Some cid) (chats w1) of
             None \<Rightarrow> (Inl not_found, w1)
           | Some old \<Rightarrow>
               (case find (\<lambda>c. chat_id c \<noteq> Some cid \<and> platformChatId c = platformChatId chat)
                       (chats w1) of
                  Some other \<Rightarrow> (Inl not_unique_update, w1)
                | None \<Rightarrow>
                    (let result = chat\<lparr>chat_id := Some cid, updated := clock w1\<rparr>
                     in (Inr result,
                         w1\<lparr>chats := map (\<lambda>c. if chat_id c = Some cid then result else c)
                                        (chats w1)\<rparr>)))))"

definition chats_getList :: "string option \<Rightarrow> nat \<Rightarrow> world \<Rightarrow> (error + nat \<times> Chat list) \<times> world" where
  "chats_getList source limit w =
     (case take_fault w of
        (Some e, w1) \<Rightarrow> (Inl e, w1)
      | (None, w1) \<Rightarrow>
          (let found = filter (\<lambda>c. \<not> truthy source \<or> Some (chat_source c) = source) (chats w1)
           in (Inr (length found, take limit (rev (sort_key updated found))), w1)))"

definition messages_create :: "Message \<Rightarrow> world \<Rightarrow> (error + Message) \<times> world" where
  "messages_create msg w =
     (case take_fault w of
        (Some e, w1) \<Rightarrow> (Inl e, w1)
      | (None, w1) \<Rightarrow>
          (let result = msg\<lparr>msg_id := Some (fresh_id w1)\<rparr>
           in (Inr result, w1\<lparr>messages := messages w1 @ [result], next_id := Suc (next_id w1)\<rparr>)))"

definition messages_getFirstListItem :: "string \<Rightarrow> string \<Rightarrow> world \<Rightarrow> (error + Message) \<times> world" where
  "messages_getFirstListItem pmid sid w =
     (case take_fault w of
        (Some e, w1) \<Rightarrow> (Inl e, w1)
      | (None, w1) \<Rightarrow>
          (case find (\<lambda>m. platformMessageId m = Some pmid \<and> senderId m = sid) (messages w1) of
             None \<Rightarrow> (Inl not_found, w1)
           | Some m \<Rightarrow> (Inr m, w1)))"

definition media_create :: "string \<Rightarrow> string \<Rightarrow> string \<Rightarrow> world \<Rightarrow> (error + MediaRecord) \<times> world" where
  "media_create fileData filename plat w =
     (case take_fault w of
        (Some e, w1) \<Rightarrow> (Inl e, w1)
      | (None, w1) \<Rightarrow>
          (let result = \<lparr>media_id = fresh_id w1, media_file = filename, media_platform = plat, media_blob = fileData\<rparr>
           in (Inr result, w1\<lparr>media := media w1 @ [result], next_id := Suc (next_id w1)\<rparr>)))"

definition media_getOne :: "string \<Rightarrow> world \<Rightarrow> (error + MediaRecord) \<times> world" where
  "media_getOne mid w =
     (case take_fault w of
        (Some e, w1) \<Rightarrow> (Inl e, w1)
      | (None, w1) \<Rightarrow>
          (case find (\<lambda>r. media_id r = mid) (media w1) of
             None \<Rightarrow> (Inl not_found, w1)
           | Some r \<Rightarrow> (Inr r, w1)))"

definition authWithPassword :: "world \<Rightarrow> (error + unit) \<times> world" where
  "authWithPassword w =
     (let w1 = w\<lparr>auth_calls := Suc (auth_calls w)\<rparr> in
      case auth_script w of
        [] \<Rightarrow> (Inr (), w1)
      | None # rest \<Rightarrow> (Inr (), w1\<lparr>auth_script := rest\<rparr>)
      | Some e # rest \<Rightarrow> (Inl e, w1\<lparr>auth_script := rest\<rparr>))"

section \<open>Store gateway (src/storage/pocketbase.ts)\<close>

text \<open>
  A function that can throw returns \<open>error + 'a\<close> with \<open>Inl\<close> the thrown value; one that
  returns \<open>null\<close> on failure returns an option. Console output is not modelled.
\<close>

definition authenticate :: "world \<Rightarrow> (error + bool) \<times> world" where
  "authenticate w =
     (case authWithPassword w of
        (Inr u, w1) \<Rightarrow> (Inr True, w1)
      | (Inl e, w1) \<Rightarrow> (Inl e, w1))"

definition handleAuthError :: "error \<Rightarrow> world \<Rightarrow> bool \<times> world" where
  "handleAuthError err w =
     (if status err = Some 403
         \<and> (case response_message err of None \<Rightarrow> False | Some m \<Rightarrow> str_includes m ''perform this action'')
         \<and> \<not> authRetryInProgress w
      then (case authenticate (w\<lparr>authRetryInProgress := True\<rparr>) of
              (Inr ok, w1) \<Rightarrow> (True, w1\<lparr>authRetryInProgress := False\<rparr>)
            | (Inl authError, w1) \<Rightarrow> (False, w1\<lparr>authRetryInProgress := False\<rparr>))
      else (False, w))"

text \<open>\<open>saveMessage\<close> and \<open>saveMediaFile\<close>: the catch block logs and rethrows.\<close>

definition saveMessage :: "Message \<Rightarrow> world \<Rightarrow> (error + Message) \<times> world" where
  "saveMessage msg w =
     (case messages_create msg w of
        (Inr result, w1) \<Rightarrow> (Inr result, w1)
      | (Inl err, w1) \<Rightarrow> (Inl err, w1))"

definition saveMediaFile :: "string \<Rightarrow> string \<Rightarrow> string \<Rightarrow> string \<Rightarrow> world \<Rightarrow> (error + string) \<times> world" where
  "saveMediaFile fileData filename contentType plat w =
     (case media_create fileData filename plat w of
        (Inr result, w1) \<Rightarrow> (Inr (media_id result), w1)
      | (Inl err, w1) \<Rightarrow> (Inl err, w1))"

text \<open>
  The retrying operations call themselves again after a successful re-authentication.
  Each call sends one collection request, and only an injected failure has status 403,
  so the fault script shrinks with every retry.
\<close>

lemma take_fault_Some:
  "take_fault w = (Some e, w1) \<Longrightarrow> length (pb_faults w1) < length (pb_faults w)"
  by (auto simp: take_fault_def Let_def split: list.splits)

lemma handleAuthError_pb_faults:
  "handleAuthError err w = (b, w') \<Longrightarrow> pb_faults w' = pb_faults w"
  by (auto simp: handleAuthError_def authenticate_def authWithPassword_def Let_def
      split: if_splits list.splits option.splits)

lemma retry_pb_faults:
  "(if status err = Some 403 then handleAuthError err w1 else (False, w1)) = (True, w2)
   \<Longrightarrow> status err = Some 403 \<and> pb_faults w2 = pb_faults w1"
  by (auto split: if_splits dest: handleAuthError_pb_faults)

lemma status_not_found [simp]: "status not_found = Some 404"
  by (simp add: not_found_def)

lemma messages_getFirstListItem_403:
  "messages_getFirstListItem pmid sid w = (Inl err, w1) \<Longrightarrow> status err = Some 403
   \<Longrightarrow> length (pb_faults w1) < length (pb_faults w)"
  by (auto simp: messages_getFirstListItem_def split: prod.splits option.splits
      dest: take_fault_Some)

lemma chats_getFirstListItem_403:
  "chats_getFirstListItem pid w = (Inl err, w1) \<Longrightarrow> status err = Some 403
   \<Longrightarrow> length (pb_faults w1) < length (pb_faults w)"
  by (auto simp: chats_getFirstListItem_def split: prod.splits option.splits
      dest: take_fault_Some)

lemma chats_getOne_403:
  "chats_getOne cid w = (Inl err, w1) \<Longrightarrow> status err = Some 403
   \<Longrightarrow> length (pb_faults w1) < length (pb_faults w)"
  by (auto simp: chats_getOne_def split: prod.splits option.splits dest: take_fault_Some)

lemma status_not_unique [simp]:
  "status not_unique = Some 400" "status not_unique_update = Some 400"
  by (simp_all add: not_unique_def not_unique_update_def)

lemma chats_create_403:
  "chats_create chat w = (Inl err, w1) \<Longrightarrow> status err = Some 403
   \<Longrightarrow> length (pb_faults w1) < length (pb_faults w)"
  by (auto simp: chats_create_def Let_def split: prod.splits option.splits dest: take_fault_Some)

lemma chats_update_by_id_403:
  "chats_update_by_id cid chat w = (Inl err, w1) \<Longrightarrow> status err = Some 403
   \<Longrightarrow> length (pb_faults w1) < length (pb_faults w)"
  by (auto simp: chats_update_by_id_def Let_def split: prod.splits option.splits
      dest: take_fault_Some)

lemma chats_getList_403:
  "chats_getList source limit w = (Inl err, w1) \<Longrightarrow> length (pb_faults w1) < length (pb_faults w)"
  by (auto simp: chats_getList_def Let_def split: prod.splits option.splits dest: take_fault_Some)

function getMessageById :: "string \<Rightarrow> string \<Rightarrow> world \<Rightarrow> (error + string option) \<times> world" where
  "getMessageById pmid sid w =
     (case messages_getFirstListItem pmid sid w of
        (Inr result, w1) \<Rightarrow> (Inr (msg_id result), w1)
      | (Inl err, w1) \<Rightarrow>
          (case (if status err = Some 403 then handleAuthError err w1 else (False, w1)) of
             (handled, w2) \<Rightarrow>
               if handled then getMessageById pmid sid w2
               else if status err = Some 400 \<or> status err = Some 404 then (Inr None, w2)
               else (Inl err, w2)))"
  by pat_completeness auto
termination
  by (relation "measure (\<lambda>(pmid, sid, w). length (pb_faults w))")
    (auto dest!: retry_pb_faults [OF sym] dest: messages_getFirstListItem_403 [OF sym])

text \<open>The try block of \<open>saveChat\<close>: update when the chat has an identifier, create otherwise.\<close>

definition saveChat_request :: "Chat \<Rightarrow> world \<Rightarrow> (error + Chat) \<times> world" where
  "saveChat_request chat w =
     (case chat_id chat of
        None \<Rightarrow> chats_create chat w
      | Some cid \<Rightarrow> if cid = [] then chats_create chat w else chats_update_by_id cid chat w)"

lemma saveChat_request_403:
  "saveChat_request chat w = (Inl err, w1) \<Longrightarrow> status err = Some 403
   \<Longrightarrow> length (pb_faults w1) < length (pb_faults w)"
  by (auto simp: saveChat_request_def split: option.splits if_splits
      dest: chats_create_403 chats_update_by_id_403)

function saveChat :: "Chat \<Rightarrow> world \<Rightarrow> (error + Chat) \<times> world" where
  "saveChat chat w =
     (case saveChat_request chat w of
        (Inr result, w1) \<Rightarrow> (Inr result, w1)
      | (Inl err, w1) \<Rightarrow>
          (case (if status err = Some 403 then handleAuthError err w1 else (False, w1)) of
             (handled, w2) \<Rightarrow>
               if handled then saveChat chat w2 else (Inl err, w2)))"
  by pat_completeness auto
termination
  by (relation "measure (\<lambda>(chat, w). length (pb_faults w))")
    (auto dest!: retry_pb_faults [OF sym] dest: saveChat_request_403 [OF sym])

function findOrCreateChat ::
  "string \<Rightarrow> MessageSource \<Rightarrow> string option \<Rightarrow> world \<Rightarrow> Chat option \<times> world" where
  "findOrCreateChat pid source name w =
     (case chats_getFirstListItem pid w of
        (Inr result, w1) \<Rightarrow> (Some result, w1)
      | (Inl err, w1) \<Rightarrow>
          (case (if status err = Some 403 then handleAuthError err w1 else (False, w1)) of
             (handled, w2) \<Rightarrow>
               if handled then findOrCreateChat pid source name w2
               else if status err = Some 400 \<or> status err = Some 404 then
                 (case saveChat
                         \<lparr>chat_id = None, platformChatId = Some pid, chat_source = source,
                          chat_name = or_else name ''Unknown'', updated = clock w2,
                          autoMode = False, openAIThreadId = Some []\<rparr> w2 of
                    (Inr savedChat, w3) \<Rightarrow> (Some savedChat, w3)
                  | (Inl error, w3) \<Rightarrow> (None, w3))
               else (None, w2)))"
  by pat_completeness auto
termination
  by (relation "measure (\<lambda>(pid, source, name, w). length (pb_faults w))")
    (auto dest!: retry_pb_faults [OF sym] dest: chats_getFirstListItem_403 [OF sym])

function getChats :: "string option \<Rightarrow> nat \<Rightarrow> world \<Rightarrow> (error + nat \<times> Chat list) \<times> world" where
  "getChats source limit w =
     (case chats_getList source limit w of
        (Inr found, w1) \<Rightarrow> (Inr found, w1)
      | (Inl err, w1) \<Rightarrow>
          (case (if status err = Some 403 then handleAuthError err w1 else (False, w1)) of
             (handled, w2) \<Rightarrow>
               if handled then getChats source limit w2 else (Inl err, w2)))"
  by pat_completeness auto
termination
  by (relation "measure (\<lambda>(source, limit, w). length (pb_faults w))")
    (auto dest!: retry_pb_faults [OF sym] dest: chats_getList_403 [OF sym])

function getChatById :: "string \<Rightarrow> world \<Rightarrow> Chat option \<times> world" where
  "getChatById cid w =
     (case chats_getOne cid w of
        (Inr result, w1) \<Rightarrow> (Some result, w1)
      | (Inl err, w1) \<Rightarrow>
          (case (if status err = Some 403 then handleAuthError err w1 else (False, w1)) of
             (handled, w2) \<Rightarrow>
               if handled then getChatById cid w2 else (None, w2)))"
  by pat_completeness auto
termination
  by (relation "measure (\<lambda>(cid, w). length (pb_faults w))")
    (auto dest!: retry_pb_faults [OF sym] dest: chats_getOne_403 [OF sym])

definition getMediaRecord :: "string \<Rightarrow> world \<Rightarrow> MediaRecord option \<times> world" where
  "getMediaRecord mid w =
     (case media_getOne mid w of
        (Inr result, w1) \<Rightarrow> (Some result, w1)
      | (Inl err, w1) \<Rightarrow> (None, w1))"

text \<open>
  \<open>encodeURIComponent\<close>, on the bytes of the UTF-8 encoding: the unreserved characters
  stay, every other byte becomes \<open>%XX\<close>.
\<close>

definition unreserved :: "char \<Rightarrow> bool" where
  "unreserved c =
     (c \<in> set (''ABCDEFGHIJKLMNOPQRSTUVWXYZabcdefghijklmnopqrstuvwxyz0123456789-_.!~*()''
               @ [CHR 0x27]))"

definition hex_digit :: "nat \<Rightarrow> char" where
  "hex_digit n = ''0123456789ABCDEF'' ! n"

definition encodeURIComponent :: "string \<Rightarrow> string" where
  "encodeURIComponent s =
     concat (map (\<lambda>c. if unreserved c then [c]
                      else [CHR ''%'', hex_digit (of_char c div 16), hex_digit (of_char c mod 16)]) s)"

text \<open>
  \<open>getFileUrl\<close> builds the link of a stored file with the SDK's \<open>files.getUrl\<close>: the
  empty string without a file name or a record identifier, otherwise the path of the file
  with the identifier, the file name and the token percent-encoded. \<open>getFileToken\<close>
  returns the promise of \<open>pb.files.getToken()\<close> without awaiting it, so a failed token
  request rejects in the caller and the catch block of \<open>getFileToken\<close> never runs.
\<close>

definition getFileUrl :: "MediaRecord \<Rightarrow> string \<Rightarrow> string \<Rightarrow> string" where
  "getFileUrl record filename token =
     (if filename = [] \<or> media_id record = [] then []
      else ''/api/files/media/'' @ encodeURIComponent (media_id record) @ ''/''
           @ encodeURIComponent filename @ ''?token='' @ encodeURIComponent token)"

definition getFileToken :: "world \<Rightarrow> (error + string) \<times> world" where
  "getFileToken w = (file_token w, w)"

declare string_of_nat.simps [simp del]
declare getMessageById.simps [simp del]
declare saveChat.simps [simp del]
declare findOrCreateChat.simps [simp del]
declare getChats.simps [simp del]
declare getChatById.simps [simp del]

lemma string_of_nat_digits [simp]:
  "string_of_nat 0 = ''0''" "string_of_nat 1 = ''1''" "string_of_nat (Suc 0) = ''1''"
  by (simp_all add: string_of_nat.simps)

section \<open>Reply texts of the responder\<close>

text \<open>
  The responder's fixed reply texts are Russian; each is given as the bytes of its UTF-8
  encoding.
\<close>

text \<open>The reply of getAIResponse's catch block (Russian: sorry, an error occurred while processing the request).\<close>

definition APOLOGY :: string where
  "APOLOGY =
    [CHR 0xD0, CHR 0x98, CHR 0xD0, CHR 0xB7, CHR 0xD0, CHR 0xB2, CHR 0xD0, CHR 0xB8,
     CHR 0xD0, CHR 0xBD, CHR 0xD0, CHR 0xB8, CHR 0xD1, CHR 0x82, CHR 0xD0, CHR 0xB5,
     CHR 0x2C, CHR 0x20, CHR 0xD0, CHR 0xBF, CHR 0xD1, CHR 0x80, CHR 0xD0, CHR 0xBE,
     CHR 0xD0, CHR 0xB8, CHR 0xD0, CHR 0xB7, CHR 0xD0, CHR 0xBE, CHR 0xD1, CHR 0x88,
     CHR 0xD0, CHR 0xBB, CHR 0xD0, CHR 0xB0, CHR 0x20, CHR 0xD0, CHR 0xBE, CHR 0xD1,
     CHR 0x88, CHR 0xD0, CHR 0xB8, CHR 0xD0, CHR 0xB1, CHR 0xD0, CHR 0xBA, CHR 0xD0,
     CHR 0xB0, CHR 0x20, CHR 0xD0, CHR 0xBF, CHR 0xD1, CHR 0x80, CHR 0xD0, CHR 0xB8,
     CHR 0x20, CHR 0xD0, CHR 0xBE, CHR 0xD0, CHR 0xB1, CHR 0xD1, CHR 0x80, CHR 0xD0,
     CHR 0xB0, CHR 0xD0, CHR 0xB1, CHR 0xD0, CHR 0xBE, CHR 0xD1, CHR 0x82, CHR 0xD0,
     CHR 0xBA, CHR 0xD0, CHR 0xB5, CHR 0x20, CHR 0xD0, CHR 0xB7, CHR 0xD0, CHR 0xB0,
     CHR 0xD0, CHR 0xBF, CHR 0xD1, CHR 0x80, CHR 0xD0, CHR 0xBE, CHR 0xD1, CHR 0x81,
     CHR 0xD0, CHR 0xB0, CHR 0x2E]"

text \<open>Image not found.\<close>

definition IMAGE_NOT_FOUND :: string where
  "IMAGE_NOT_FOUND =
    [CHR 0xD0, CHR 0x98, CHR 0xD0, CHR 0xB7, CHR 0xD0, CHR 0xBE, CHR 0xD0, CHR 0xB1,
     CHR 0xD1, CHR 0x80, CHR 0xD0, CHR 0xB0, CHR 0xD0, CHR 0xB6, CHR 0xD0, CHR 0xB5,
     CHR 0xD0, CHR 0xBD, CHR 0xD0, CHR 0xB8, CHR 0xD0, CHR 0xB5, CHR 0x20, CHR 0xD0,
     CHR 0xBD, CHR 0xD0, CHR 0xB5, CHR 0x20, CHR 0xD0, CHR 0xBD, CHR 0xD0, CHR 0xB0,
     CHR 0xD0, CHR 0xB9, CHR 0xD0, CHR 0xB4, CHR 0xD0, CHR 0xB5, CHR 0xD0, CHR 0xBD,
     CHR 0xD0, CHR 0xBE, CHR 0x2E]"

text \<open>File access error.\<close>

definition FILE_ACCESS_ERROR :: string where
  "FILE_ACCESS_ERROR =
    [CHR 0xD0, CHR 0x9E, CHR 0xD1, CHR 0x88, CHR 0xD0, CHR 0xB8, CHR 0xD0, CHR 0xB1,
     CHR 0xD0, CHR 0xBA, CHR 0xD0, CHR 0xB0, CHR 0x20, CHR 0xD0, CHR 0xB4, CHR 0xD0,
     CHR 0xBE, CHR 0xD1, CHR 0x81, CHR 0xD1, CHR 0x82, CHR 0xD1, CHR 0x83, CHR 0xD0,
     CHR 0xBF, CHR 0xD0, CHR 0xB0, CHR 0x20, CHR 0xD0, CHR 0xBA, CHR 0x20, CHR 0xD1,
     CHR 0x84, CHR 0xD0, CHR 0xB0, CHR 0xD0, CHR 0xB9, CHR 0xD0, CHR 0xBB, CHR 0xD1,
     CHR 0x83, CHR 0x2E]"

text \<open>The image could not be analysed.\<close>

definition VISION_FAILED :: string where
  "VISION_FAILED =
    [CHR 0xD0, CHR 0x9D, CHR 0xD0, CHR 0xB5, CHR 0x20, CHR 0xD1, CHR 0x83, CHR 0xD0,
     CHR 0xB4, CHR 0xD0, CHR 0xB0, CHR 0xD0, CHR 0xBB, CHR 0xD0, CHR 0xBE, CHR 0xD1,
     CHR 0x81, CHR 0xD1, CHR 0x8C, CHR 0x20, CHR 0xD0, CHR 0xBF, CHR 0xD1, CHR 0x80,
     CHR 0xD0, CHR 0xBE, CHR 0xD0, CHR 0xB0, CHR 0xD0, CHR 0xBD, CHR 0xD0, CHR 0xB0,
     CHR 0xD0, CHR 0xBB, CHR 0xD0, CHR 0xB8, CHR 0xD0, CHR 0xB7, CHR 0xD0, CHR 0xB8,
     CHR 0xD1, CHR 0x80, CHR 0xD0, CHR 0xBE, CHR 0xD0, CHR 0xB2, CHR 0xD0, CHR 0xB0,
     CHR 0xD1, CHR 0x82, CHR 0xD1, CHR 0x8C, CHR 0x20, CHR 0xD0, CHR 0xB8, CHR 0xD0,
     CHR 0xB7, CHR 0xD0, CHR 0xBE, CHR 0xD0, CHR 0xB1, CHR 0xD1, CHR 0x80, CHR 0xD0,
     CHR 0xB0, CHR 0xD0, CHR 0xB6, CHR 0xD0, CHR 0xB5, CHR 0xD0, CHR 0xBD, CHR 0xD0,
     CHR 0xB8, CHR 0xD0, CHR 0xB5, CHR 0x2E]"

text \<open>Opening of the bracketed image description.\<close>

definition IMAGE_CONTENT_OPEN :: string where
  "IMAGE_CONTENT_OPEN =
    [CHR 0x5B, CHR 0xD0, CHR 0xA1, CHR 0xD0, CHR 0xBE, CHR 0xD0, CHR 0xB4, CHR 0xD0,
     CHR 0xB5, CHR 0xD1, CHR 0x80, CHR 0xD0, CHR 0xB6, CHR 0xD0, CHR 0xB0, CHR 0xD0,
     CHR 0xBD, CHR 0xD0, CHR 0xB8, CHR 0xD0, CHR 0xB5, CHR 0x20, CHR 0xD0, CHR 0xB8,
     CHR 0xD0, CHR 0xB7, CHR 0xD0, CHR 0xBE, CHR 0xD0, CHR 0xB1, CHR 0xD1, CHR 0x80,
     CHR 0xD0, CHR 0xB0, CHR 0xD0, CHR 0xB6, CHR 0xD0, CHR 0xB5, CHR 0xD0, CHR 0xBD,
     CHR 0xD0, CHR 0xB8, CHR 0xD1, CHR 0x8F, CHR 0x3A, CHR 0x20]"

text \<open>Opening of the composite image reply.\<close>

definition IMAGE_DESCRIPTION_OPEN :: string where
  "IMAGE_DESCRIPTION_OPEN =
    [CHR 0xF0, CHR 0x9F, CHR 0x93, CHR 0xB7, CHR 0x20, CHR 0xD0, CHR 0x9E, CHR 0xD0,
     CHR 0xBF, CHR 0xD0, CHR 0xB8, CHR 0xD1, CHR 0x81, CHR 0xD0, CHR 0xB0, CHR 0xD0,
     CHR 0xBD, CHR 0xD0, CHR 0xB8, CHR 0xD0, CHR 0xB5, CHR 0x20, CHR 0xD0, CHR 0xB8,
     CHR 0xD0, CHR 0xB7, CHR 0xD0, CHR 0xBE, CHR 0xD0, CHR 0xB1, CHR 0xD1, CHR 0x80,
     CHR 0xD0, CHR 0xB0, CHR 0xD0, CHR 0xB6, CHR 0xD0, CHR 0xB5, CHR 0xD0, CHR 0xBD,
     CHR 0xD0, CHR 0xB8, CHR 0xD1, CHR 0x8F, CHR 0x3A, CHR 0x20, CHR 0x22]"

text \<open>Closing quote, blank line and the label of the assistant's answer.\<close>

definition ANSWER_OPEN :: string where
  "ANSWER_OPEN =
    [CHR 0x22, CHR 0x0A, CHR 0x0A, CHR 0xF0, CHR 0x9F, CHR 0xA4, CHR 0x96, CHR 0x20,
     CHR 0xD0, CHR 0x9E, CHR 0xD1, CHR 0x82, CHR 0xD0, CHR 0xB2, CHR 0xD0, CHR 0xB5,
     CHR 0xD1, CHR 0x82, CHR 0x3A, CHR 0x20]"

text \<open>The image could not be fetched from storage.\<close>

definition IMAGE_STORE_FAILED :: string where
  "IMAGE_STORE_FAILED =
    [CHR 0xD0, CHR 0x9D, CHR 0xD0, CHR 0xB5, CHR 0x20, CHR 0xD1, CHR 0x83, CHR 0xD0,
     CHR 0xB4, CHR 0xD0, CHR 0xB0, CHR 0xD0, CHR 0xBB, CHR 0xD0, CHR 0xBE, CHR 0xD1,
     CHR 0x81, CHR 0xD1, CHR 0x8C, CHR 0x20, CHR 0xD0, CHR 0xBF, CHR 0xD0, CHR 0xBE,
     CHR 0xD0, CHR 0xBB, CHR 0xD1, CHR 0x83, CHR 0xD1, CHR 0x87, CHR 0xD0, CHR 0xB8,
     CHR 0xD1, CHR 0x82, CHR 0xD1, CHR 0x8C, CHR 0x20, CHR 0xD0, CHR 0xB8, CHR 0xD0,
     CHR 0xB7, CHR 0xD0, CHR 0xBE, CHR 0xD0, CHR 0xB1, CHR 0xD1, CHR 0x80, CHR 0xD0,
     CHR 0xB0, CHR 0xD0, CHR 0xB6, CHR 0xD0, CHR 0xB5, CHR 0xD0, CHR 0xBD, CHR 0xD0,
     CHR 0xB8, CHR 0xD0, CHR 0xB5, CHR 0x20, CHR 0xD0, CHR 0xB8, CHR 0xD0, CHR 0xB7,
     CHR 0x20, CHR 0xD1, CHR 0x85, CHR 0xD1, CHR 0x80, CHR 0xD0, CHR 0xB0, CHR 0xD0,
     CHR 0xBD, CHR 0xD0, CHR 0xB8, CHR 0xD0, CHR 0xBB, CHR 0xD0, CHR 0xB8, CHR 0xD1,
     CHR 0x89, CHR 0xD0, CHR 0xB0, CHR 0x2E]"

text \<open>Audio file not found.\<close>

definition AUDIO_NOT_FOUND :: string where
  "AUDIO_NOT_FOUND =
    [CHR 0xD0, CHR 0x90, CHR 0xD1, CHR 0x83, CHR 0xD0, CHR 0xB4, CHR 0xD0, CHR 0xB8,
     CHR 0xD0, CHR 0xBE, CHR 0xD1, CHR 0x84, CHR 0xD0, CHR 0xB0, CHR 0xD0, CHR 0xB9,
     CHR 0xD0, CHR 0xBB, CHR 0x20, CHR 0xD0, CHR 0xBD, CHR 0xD0, CHR 0xB5, CHR 0x20,
     CHR 0xD0, CHR 0xBD, CHR 0xD0, CHR 0xB0, CHR 0xD0, CHR 0xB9, CHR 0xD0, CHR 0xB4,
     CHR 0xD0, CHR 0xB5, CHR 0xD0, CHR 0xBD, CHR 0x2E]"

text \<open>Audio file access error.\<close>

definition AUDIO_ACCESS_ERROR :: string where
  "AUDIO_ACCESS_ERROR =
    [CHR 0xD0, CHR 0x9E, CHR 0xD1, CHR 0x88, CHR 0xD0, CHR 0xB8, CHR 0xD0, CHR 0xB1,
     CHR 0xD0, CHR 0xBA, CHR 0xD0, CHR 0xB0, CHR 0x20, CHR 0xD0, CHR 0xB4, CHR 0xD0,
     CHR 0xBE, CHR 0xD1, CHR 0x81, CHR 0xD1, CHR 0x82, CHR 0xD1, CHR 0x83, CHR 0xD0,
     CHR 0xBF, CHR 0xD0, CHR 0xB0, CHR 0x20, CHR 0xD0, CHR 0xBA, CHR 0x20, CHR 0xD0,
     CHR 0xB0, CHR 0xD1, CHR 0x83, CHR 0xD0, CHR 0xB4, CHR 0xD0, CHR 0xB8, CHR 0xD0,
     CHR 0xBE, CHR 0xD1, CHR 0x84, CHR 0xD0, CHR 0xB0, CHR 0xD0, CHR 0xB9, CHR 0xD0,
     CHR 0xBB, CHR 0xD1, CHR 0x83, CHR 0x2E]"

text \<open>The audio could not be recognised.\<close>

definition AUDIO_NOT_RECOGNISED :: string where
  "AUDIO_NOT_RECOGNISED =
    [CHR 0xD0, CHR 0x9D, CHR 0xD0, CHR 0xB5, CHR 0x20, CHR 0xD1, CHR 0x83, CHR 0xD0,
     CHR 0xB4, CHR 0xD0, CHR 0xB0, CHR 0xD0, CHR 0xBB, CHR 0xD0, CHR 0xBE, CHR 0xD1,
     CHR 0x81, CHR 0xD1, CHR 0x8C, CHR 0x20, CHR 0xD1, CHR 0x80, CHR 0xD0, CHR 0xB0,
     CHR 0xD1, CHR 0x81, CHR 0xD0, CHR 0xBF, CHR 0xD0, CHR 0xBE, CHR 0xD0, CHR 0xB7,
     CHR 0xD0, CHR 0xBD, CHR 0xD0, CHR 0xB0, CHR 0xD1, CHR 0x82, CHR 0xD1, CHR 0x8C,
     CHR 0x20, CHR 0xD0, CHR 0xB0, CHR 0xD1, CHR 0x83, CHR 0xD0, CHR 0xB4, CHR 0xD0,
     CHR 0xB8, CHR 0xD0, CHR 0xBE, CHR 0x2E]"

text \<open>No text could be recognised in the audio message.\<close>

definition AUDIO_NO_TEXT :: string where
  "AUDIO_NO_TEXT =
    [CHR 0xD0, CHR 0x9D, CHR 0xD0, CHR 0xB5, CHR 0x20, CHR 0xD1, CHR 0x83, CHR 0xD0,
     CHR 0xB4, CHR 0xD0, CHR 0xB0, CHR 0xD0, CHR 0xBB, CHR 0xD0, CHR 0xBE, CHR 0xD1,
     CHR 0x81, CHR 0xD1, CHR 0x8C, CHR 0x20, CHR 0xD1, CHR 0x80, CHR 0xD0, CHR 0xB0,
     CHR 0xD1, CHR 0x81, CHR 0xD0, CHR 0xBF, CHR 0xD0, CHR 0xBE, CHR 0xD0, CHR 0xB7,
     CHR 0xD0, CHR 0xBD, CHR 0xD0, CHR 0xB0, CHR 0xD1, CHR 0x82, CHR 0xD1, CHR 0x8C,
     CHR 0x20, CHR 0xD1, CHR 0x82, CHR 0xD0, CHR 0xB5, CHR 0xD0, CHR 0xBA, CHR 0xD1,
     CHR 0x81, CHR 0xD1, CHR 0x82, CHR 0x20, CHR 0xD0, CHR 0xB2, CHR 0x20, CHR 0xD0,
     CHR 0xB0, CHR 0xD1, CHR 0x83, CHR 0xD0, CHR 0xB4, CHR 0xD0, CHR 0xB8, CHR 0xD0,
     CHR 0xBE, CHR 0xD1, CHR 0x81, CHR 0xD0, CHR 0xBE, CHR 0xD0, CHR 0xBE, CHR 0xD0,
     CHR 0xB1, CHR 0xD1, CHR 0x89, CHR 0xD0, CHR 0xB5, CHR 0xD0, CHR 0xBD, CHR 0xD0,
     CHR 0xB8, CHR 0xD0, CHR 0xB8, CHR 0x2E]"

text \<open>Opening of the composite audio reply.\<close>

definition TRANSCRIPT_OPEN :: string where
  "TRANSCRIPT_OPEN =
    [CHR 0xF0, CHR 0x9F, CHR 0x93, CHR 0x9D, CHR 0x20, CHR 0xD0, CHR 0xA0, CHR 0xD0,
     CHR 0xB0, CHR 0xD1, CHR 0x81, CHR 0xD0, CHR 0xBF, CHR 0xD0, CHR 0xBE, CHR 0xD0,
     CHR 0xB7, CHR 0xD0, CHR 0xBD, CHR 0xD0, CHR 0xB0, CHR 0xD0, CHR 0xBD, CHR 0xD0,
     CHR 0xBD, CHR 0xD1, CHR 0x8B, CHR 0xD0, CHR 0xB9, CHR 0x20, CHR 0xD1, CHR 0x82,
     CHR 0xD0, CHR 0xB5, CHR 0xD0, CHR 0xBA, CHR 0xD1, CHR 0x81, CHR 0xD1, CHR 0x82,
     CHR 0x3A, CHR 0x20, CHR 0x22]"

text \<open>An error occurred while processing the audio message.\<close>

definition AUDIO_FAILED :: string where
  "AUDIO_FAILED =
    [CHR 0xD0, CHR 0x9F, CHR 0xD1, CHR 0x80, CHR 0xD0, CHR 0xBE, CHR 0xD0, CHR 0xB8,
     CHR 0xD0, CHR 0xB7, CHR 0xD0, CHR 0xBE, CHR 0xD1, CHR 0x88, CHR 0xD0, CHR 0xBB,
     CHR 0xD0, CHR 0xB0, CHR 0x20, CHR 0xD0, CHR 0xBE, CHR 0xD1, CHR 0x88, CHR 0xD0,
     CHR 0xB8, CHR 0xD0, CHR 0xB1, CHR 0xD0, CHR 0xBA, CHR 0xD0, CHR 0xB0, CHR 0x20,
     CHR 0xD0, CHR 0xBF, CHR 0xD1, CHR 0x80, CHR 0xD0, CHR 0xB8, CHR 0x20, CHR 0xD0,
     CHR 0xBE, CHR 0xD0, CHR 0xB1, CHR 0xD1, CHR 0x80, CHR 0xD0, CHR 0xB0, CHR 0xD0,
     CHR 0xB1, CHR 0xD0, CHR 0xBE, CHR 0xD1, CHR 0x82, CHR 0xD0, CHR 0xBA, CHR 0xD0,
     CHR 0xB5, CHR 0x20, CHR 0xD0, CHR 0xB0, CHR 0xD1, CHR 0x83, CHR 0xD0, CHR 0xB4,
     CHR 0xD0, CHR 0xB8, CHR 0xD0, CHR 0xBE, CHR 0xD1, CHR 0x81, CHR 0xD0, CHR 0xBE,
     CHR 0xD0, CHR 0xBE, CHR 0xD0, CHR 0xB1, CHR 0xD1, CHR 0x89, CHR 0xD0, CHR 0xB5,
     CHR 0xD0, CHR 0xBD, CHR 0xD0, CHR 0xB8, CHR 0xD1, CHR 0x8F, CHR 0x2E]"

section \<open>The external assistant (the OpenAI SDK, as the program uses it)\<close>

text \<open>
  Every call to the assistant first consumes one entry of \<open>openai_faults\<close>. A new thread
  gets a fresh handle. The \<open>k\<close>-th status request takes \<open>retrieve_ms k\<close> milliseconds and
  answers \<open>run_status_at k\<close>. \<open>thread_list\<close> is the thread's messages, newest first, and
  \<open>vision_choices\<close> the choices of the vision completion.
\<close>

definition openai_fault :: "world \<Rightarrow> error option \<times> world" where
  "openai_fault w =
     (case openai_faults w of [] \<Rightarrow> (None, w) | f # fs \<Rightarrow> (f, w\<lparr>openai_faults := fs\<rparr>))"

definition threads_create :: "world \<Rightarrow> (error + string) \<times> world" where
  "threads_create w =
     (case openai_fault w of
        (Some e, w1) \<Rightarrow> (Inl e, w1)
      | (None, w1) \<Rightarrow>
          (Inr (''thread_'' @ string_of_nat (thread_count w1)),
           w1\<lparr>thread_count := Suc (thread_count w1)\<rparr>))"

definition threads_messages_create :: "string \<Rightarrow> string \<Rightarrow> world \<Rightarrow> (error + unit) \<times> world" where
  "threads_messages_create threadId text w =
     (case openai_fault w of
        (Some e, w1) \<Rightarrow> (Inl e, w1)
      | (None, w1) \<Rightarrow> (Inr (), w1\<lparr>thread_inputs := thread_inputs w1 @ [(threadId, text)]\<rparr>))"

definition runs_create :: "string \<Rightarrow> world \<Rightarrow> (error + string) \<times> world" where
  "runs_create threadId w =
     (case openai_fault w of
        (Some e, w1) \<Rightarrow> (Inl e, w1)
      | (None, w1) \<Rightarrow>
          (Inr (''run_'' @ string_of_nat (run_count w1)), w1\<lparr>run_count := Suc (run_count w1)\<rparr>))"

definition runs_retrieve :: "world \<Rightarrow> (error + string) \<times> world" where
  "runs_retrieve w =
     (case openai_fault (w\<lparr>clock := clock w + int (retrieve_ms w (polls w))\<rparr>) of
        (Some e, w1) \<Rightarrow> (Inl e, w1)
      | (None, w1) \<Rightarrow> (Inr (run_status_at w1 (polls w1)), w1\<lparr>polls := Suc (polls w1)\<rparr>))"

definition threads_messages_list :: "world \<Rightarrow> (error + ThreadMessage list) \<times> world" where
  "threads_messages_list w =
     (case openai_fault w of
        (Some e, w1) \<Rightarrow> (Inl e, w1)
      | (None, w1) \<Rightarrow> (Inr (take 1 (thread_list w1)), w1))"

definition chat_completions_create :: "world \<Rightarrow> (error + string option list) \<times> world" where
  "chat_completions_create w =
     (case openai_fault w of
        (Some e, w1) \<Rightarrow> (Inl e, w1)
      | (None, w1) \<Rightarrow> (Inr (vision_choices w1), w1))"

text \<open>\<open>await new Promise(resolve => setTimeout(resolve, ms))\<close>.\<close>

definition sleep :: "nat \<Rightarrow> world \<Rightarrow> world" where
  "sleep ms w = w\<lparr>clock := clock w + int ms\<rparr>"

section \<open>Responder (the assistant orchestrator)\<close>

definition TypeError :: error where
  "TypeError = JsError ''TypeError: cannot read properties of undefined''"

lemma runs_retrieve_clock:
  "runs_retrieve w = (r, w1) \<Longrightarrow> clock w \<le> clock w1"
  by (auto simp: runs_retrieve_def openai_fault_def split: list.splits option.splits)

text \<open>
  The polling loop of \<open>handleTextMessage\<close>: \<open>startTime\<close> is the clock reading taken
  before the loop, \<open>runStatus\<close> the status last retrieved.
\<close>

function poll_run :: "string \<Rightarrow> int \<Rightarrow> string \<Rightarrow> world \<Rightarrow> (error + unit) \<times> world" where
  "poll_run run startTime runStatus w =
     (if runStatus = ''completed'' then (Inr (), w)
      else if runStatus = ''failed'' \<or> runStatus = ''cancelled'' \<or> runStatus = ''expired''
        then (Inl (JsError (''Run '' @ run @ '' failed with status '' @ runStatus)), w)
      else if clock w - startTime > 30000
        then (Inl (JsError ''Response timed out after 30 seconds''), w)
      else (case runs_retrieve (sleep 1000 w) of
              (Inl e, w1) \<Rightarrow> (Inl e, w1)
            | (Inr next, w1) \<Rightarrow> poll_run run startTime next w1))"
  by pat_completeness auto
termination
  by (relation "measure (\<lambda>(run, startTime, runStatus, w). nat (startTime + 30001 - clock w))")
    (auto simp: sleep_def dest!: runs_retrieve_clock [OF sym])

declare poll_run.simps [simp del]

text \<open>
  Lines 46 to 51 of the responder: a new thread, stored on the chat at once. For a message
  without a chat identifier \<open>getChatById\<close> returns \<open>null\<close> without a request (the SDK
  answers 404 itself), and reading \<open>chat.id\<close> throws.
\<close>

definition create_thread :: "Message \<Rightarrow> world \<Rightarrow> (error + string) \<times> world" where
  "create_thread message w =
     (case threads_create w of
        (Inl e, w1) \<Rightarrow> (Inl e, w1)
      | (Inr threadId, w1) \<Rightarrow>
          (case (case chatId message of
                   None \<Rightarrow> (None, w1)
                 | Some cid \<Rightarrow> if cid = [] then (None, w1) else getChatById cid w1) of
             (None, w2) \<Rightarrow> (Inl TypeError, w2)
           | (Some chat, w2) \<Rightarrow>
               (case saveChat (chat\<lparr>openAIThreadId := Some threadId\<rparr>) w2 of
                  (Inl e, w3) \<Rightarrow> (Inl e, w3)
                | (Inr saved, w3) \<Rightarrow> (Inr threadId, w3))))"

definition handleTextMessage :: "Message \<Rightarrow> string option \<Rightarrow> world \<Rightarrow> (error + string) \<times> world" where
  "handleTextMessage message threadIdGiven w =
     (if \<not> truthy (OPENAI_ASSISTANT_ID w)
      then (Inl (JsError ''OPENAI_ASSISTANT_ID is not defined in environment''), w)
      else
       (case (case threadIdGiven of
                None \<Rightarrow> create_thread message w
              | Some t \<Rightarrow> if t = [] then create_thread message w else (Inr t, w)) of
          (Inl e, w1) \<Rightarrow> (Inl e, w1)
        | (Inr threadId, w1) \<Rightarrow>
       (case threads_messages_create threadId (content message) w1 of
          (Inl e, w2) \<Rightarrow> (Inl e, w2)
        | (Inr u, w2) \<Rightarrow>
       (case runs_create threadId w2 of
          (Inl e, w3) \<Rightarrow> (Inl e, w3)
        | (Inr run, w3) \<Rightarrow>
       (case runs_retrieve w3 of
          (Inl e, w4) \<Rightarrow> (Inl e, w4)
        | (Inr runStatus, w4) \<Rightarrow>
       (case poll_run run (clock w4) runStatus w4 of
          (Inl e, w5) \<Rightarrow> (Inl e, w5)
        | (Inr u, w5) \<Rightarrow>
       (case threads_messages_list w5 of
          (Inl e, w6) \<Rightarrow> (Inl e, w6)
        | (Inr data, w6) \<Rightarrow>
            (case data of
               [] \<Rightarrow> (Inl (JsError ''No assistant response found''), w6)
             | m # ms \<Rightarrow>
                 if role m \<noteq> ''assistant''
                 then (Inl (JsError ''No assistant response found''), w6)
                 else (case parts m of
                         [] \<Rightarrow> (Inl TypeError, w6)
                       | (ty, val) # ps \<Rightarrow>
                           if ty \<noteq> ''text''
                           then (Inl (JsError (''Unexpected content type: '' @ ty)), w6)
                           else (Inr val, w6))))))))))"

text \<open>The inner try block of \<open>handleImageMessage\<close>; \<open>mid\<close> is the message's media reference.\<close>

definition handleImageMessage_try :: "Message \<Rightarrow> string \<Rightarrow> world \<Rightarrow> (error + string) \<times> world" where
  "handleImageMessage_try message mid w =
     (case getFileToken w of
        (Inl e, w1) \<Rightarrow> (Inl e, w1)
      | (Inr fileToken, w1) \<Rightarrow>
     (case getMediaRecord mid w1 of
        (None, w2) \<Rightarrow> (Inl TypeError, w2)
      | (Some mediaRecord, w2) \<Rightarrow>
     (case fetch w2 (getFileUrl mediaRecord (media_file mediaRecord) fileToken) of
        FetchThrows \<Rightarrow> (Inl (JsError ''fetch failed''), w2)
      | Response ok body contentType \<Rightarrow>
          if \<not> ok then (Inr FILE_ACCESS_ERROR, w2)
          else
     (case chat_completions_create w2 of
        (Inl e, w3) \<Rightarrow> (Inl e, w3)
      | (Inr [], w3) \<Rightarrow> (Inl TypeError, w3)
      | (Inr (choice # cs), w3) \<Rightarrow>
          (let imageDescription = or_else choice VISION_FAILED;
               contextualContent =
                 (if content message \<noteq> []
                  then content message @ [CHR 0x0A, CHR 0x0A] @ IMAGE_CONTENT_OPEN
                       @ imageDescription @ '']''
                  else IMAGE_CONTENT_OPEN @ imageDescription @ '']'');
               textMessage = message\<lparr>content := contextualContent, msg_type := ''text''\<rparr>
           in case handleTextMessage textMessage None w3 of
                (Inl e, w4) \<Rightarrow> (Inl e, w4)
              | (Inr assistantResponse, w4) \<Rightarrow>
                  (Inr (IMAGE_DESCRIPTION_OPEN @ imageDescription @ ANSWER_OPEN
                        @ assistantResponse), w4))))))"

definition handleImageMessage :: "Message \<Rightarrow> world \<Rightarrow> (error + string) \<times> world" where
  "handleImageMessage message w =
     (case mediaFileId message of
        None \<Rightarrow> (Inr IMAGE_NOT_FOUND, w)
      | Some mid \<Rightarrow>
          if mid = [] then (Inr IMAGE_NOT_FOUND, w)
          else (case handleImageMessage_try message mid w of
                  (Inr reply, w1) \<Rightarrow> (Inr reply, w1)
                | (Inl error, w1) \<Rightarrow> (Inr IMAGE_STORE_FAILED, w1)))"

text \<open>
  \<open>String.prototype.trim\<close> strips the white space and the line terminators of
  ECMAScript from both ends. On the bytes of the UTF-8 encoding these are the characters
  U+0009 to U+000D and U+0020, and the encodings of U+00A0, U+1680, U+2000 to U+200A,
  U+2028, U+2029, U+202F, U+205F, U+3000 and U+FEFF.
\<close>

definition white_space :: "string list" where
  "white_space =
     [[CHR 0x09], [CHR 0x0A], [CHR 0x0B], [CHR 0x0C], [CHR 0x0D], [CHR 0x20],
      [CHR 0xC2, CHR 0xA0],
      [CHR 0xE1, CHR 0x9A, CHR 0x80],
      [CHR 0xE2, CHR 0x80, CHR 0x80], [CHR 0xE2, CHR 0x80, CHR 0x81],
      [CHR 0xE2, CHR 0x80, CHR 0x82], [CHR 0xE2, CHR 0x80, CHR 0x83],
      [CHR 0xE2, CHR 0x80, CHR 0x84], [CHR 0xE2, CHR 0x80, CHR 0x85],
      [CHR 0xE2, CHR 0x80, CHR 0x86], [CHR 0xE2, CHR 0x80, CHR 0x87],
      [CHR 0xE2, CHR 0x80, CHR 0x88], [CHR 0xE2, CHR 0x80, CHR 0x89],
      [CHR 0xE2, CHR 0x80, CHR 0x8A],
      [CHR 0xE2, CHR 0x80, CHR 0xA8], [CHR 0xE2, CHR 0x80, CHR 0xA9],
      [CHR 0xE2, CHR 0x80, CHR 0xAF],
      [CHR 0xE2, CHR 0x81, CHR 0x9F],
      [CHR 0xE3, CHR 0x80, CHR 0x80],
      [CHR 0xEF, CHR 0xBB, CHR 0xBF]]"

text \<open>The number of bytes of the white-space character a string starts with, or 0.\<close>

definition leading_space :: "string list \<Rightarrow> string \<Rightarrow> nat" where
  "leading_space ps s = (case find (\<lambda>p. prefix p s) ps of None \<Rightarrow> 0 | Some p \<Rightarrow> length p)"

lemma leading_space_le: "leading_space ps s \<le> length s"
  by (auto simp: leading_space_def find_Some_iff prefix_def split: option.splits)

function strip :: "string list \<Rightarrow> string \<Rightarrow> string" where
  "strip ps s = (if leading_space ps s = 0 then s else strip ps (drop (leading_space ps s) s))"
  by pat_completeness auto
termination
proof (relation "measure (\<lambda>(ps, s). length s)")
  show "wf (measure (\<lambda>(ps, s). length s))"
    by simp
next
  fix ps :: "string list" and s :: string
  assume "leading_space ps s \<noteq> 0"
  moreover have "leading_space ps s \<le> length s"
    by (rule leading_space_le)
  ultimately have "0 < leading_space ps s" "0 < length s"
    by auto
  then show "((ps, drop (leading_space ps s) s), (ps, s)) \<in> measure (\<lambda>(ps, s). length s)"
    by simp
qed

declare strip.simps [simp del]

definition trimStart :: "string \<Rightarrow> string" where
  "trimStart s = strip white_space s"

definition trimEnd :: "string \<Rightarrow> string" where
  "trimEnd s = rev (strip (map rev white_space) (rev s))"

definition trim :: "string \<Rightarrow> string" where
  "trim s = trimEnd (trimStart s)"

text \<open>The inner try block of \<open>handleAudioMessage\<close>.\<close>

definition handleAudioMessage_try :: "Message \<Rightarrow> string \<Rightarrow> world \<Rightarrow> (error + string) \<times> world" where
  "handleAudioMessage_try message mid w =
     (case getFileToken w of
        (Inl e, w1) \<Rightarrow> (Inl e, w1)
      | (Inr fileToken, w1) \<Rightarrow>
     (case getMediaRecord mid w1 of
        (None, w2) \<Rightarrow> (Inl TypeError, w2)
      | (Some mediaRecord, w2) \<Rightarrow>
     (case fetch w2 (getFileUrl mediaRecord (media_file mediaRecord) fileToken) of
        FetchThrows \<Rightarrow> (Inl (JsError ''fetch failed''), w2)
      | Response ok originalBuffer contentType \<Rightarrow>
          if \<not> ok then (Inr AUDIO_ACCESS_ERROR, w2)
          else
     (case (if msg_source message = ''telegram''
            then convertAudioInMemory w2 originalBuffer else Inr originalBuffer) of
        Inl e \<Rightarrow> (Inl e, w2)
      | Inr audioBlob \<Rightarrow>
     (case transcription w2 audioBlob of
        TranscriptionThrows \<Rightarrow> (Inl (JsError ''fetch failed''), w2)
      | TranscriptionResponse ok transcribedText \<Rightarrow>
          if \<not> ok then (Inr AUDIO_NOT_RECOGNISED, w2)
          else if \<not> truthy transcribedText \<or> trim (or_else transcribedText []) = []
          then (Inr AUDIO_NO_TEXT, w2)
          else
            (let textMessage =
                   message\<lparr>content := or_else transcribedText [], msg_type := ''text''\<rparr>
             in case handleTextMessage textMessage None w2 of
                  (Inl e, w3) \<Rightarrow> (Inl e, w3)
                | (Inr assistantResponse, w3) \<Rightarrow>
                    (Inr (TRANSCRIPT_OPEN @ or_else transcribedText [] @ ANSWER_OPEN
                          @ assistantResponse), w3)))))))"

definition handleAudioMessage :: "Message \<Rightarrow> world \<Rightarrow> (error + string) \<times> world" where
  "handleAudioMessage message w =
     (case mediaFileId message of
        None \<Rightarrow> (Inr AUDIO_NOT_FOUND, w)
      | Some mid \<Rightarrow>
          if mid = [] then (Inr AUDIO_NOT_FOUND, w)
          else (case handleAudioMessage_try message mid w of
                  (Inr reply, w1) \<Rightarrow> (Inr reply, w1)
                | (Inl error, w1) \<Rightarrow> (Inr AUDIO_FAILED, w1)))"

text \<open>The entry point: the catch block turns every exception into the apology.\<close>

definition getAIResponse :: "Message \<Rightarrow> string option \<Rightarrow> world \<Rightarrow> string \<times> world" where
  "getAIResponse message threadId w =
     (case (if msg_type message = ''voice'' \<or> msg_type message = ''audio''
            then handleAudioMessage message w
            else if msg_type message = ''image''
            then handleImageMessage message w
            else handleTextMessage message threadId w) of
        (Inr reply, w1) \<Rightarrow> (reply, w1)
      | (Inl error, w1) \<Rightarrow> (APOLOGY, w1))"

section \<open>Aggregator adapter (src/receiver/brevo.ts)\<close>

text \<open>The webhook payload, with the fields the program reads.\<close>

record BrevoFile =
  isImage :: bool
  link :: "string option"

record BrevoMessage =
  bm_id :: string
  bm_type :: string
  bm_text :: "string option"
  bm_file :: "BrevoFile option"
  createdAt :: int
  agentId :: "string option"
  agentName :: "string option"

record Visitor =
  visitor_id :: string
  threadId :: string
  visitor_source :: string
  displayedName :: "string option"

record WebhookBody =
  eventName :: string
  visitor :: "Visitor option"
  wb_message :: "BrevoMessage option"
  wb_messages :: "BrevoMessage list option"

text \<open>The aggregator's send call: it throws, or it queues the text and returns an identifier.\<close>

definition conversationsMessagesPost :: "string \<Rightarrow> string \<Rightarrow> world \<Rightarrow> (error + string) \<times> world" where
  "conversationsMessagesPost visitorId text w =
     (case brevo_faults w of
        Some e # fs \<Rightarrow> (Inl e, w\<lparr>brevo_faults := fs\<rparr>)
      | _ \<Rightarrow>
          (Inr (''brevo_'' @ string_of_nat (length (brevo_sent w))),
           w\<lparr>brevo_faults := tl (brevo_faults w), brevo_sent := brevo_sent w @ [(visitorId, text)]\<rparr>))"

definition sendBrevoMessage :: "string \<Rightarrow> string \<Rightarrow> world \<Rightarrow> string option \<times> world" where
  "sendBrevoMessage visitorId text w =
     (case conversationsMessagesPost visitorId text w of
        (Inr mid, w1) \<Rightarrow> (Some mid, w1)
      | (Inl error, w1) \<Rightarrow> (None, w1))"

text \<open>
  The download of an attachment in \<open>processBrevoMessage\<close> (the same code for an image and
  for audio, up to the file name and content type): nothing without a link, and both a
  failed fetch and a failed media save are caught and leave the reference unset.
\<close>

definition brevo_download ::
  "string option \<Rightarrow> string \<Rightarrow> string \<Rightarrow> string \<Rightarrow> world \<Rightarrow> string option \<times> world" where
  "brevo_download lnk filename contentType plat w =
     (if \<not> truthy lnk then (None, w)
      else (case fetch w (or_else lnk []) of
              FetchThrows \<Rightarrow> (None, w)
            | Response ok blob ct \<Rightarrow>
                if ok then
                  (case saveMediaFile blob filename contentType plat w of
                     (Inr mid, w1) \<Rightarrow> (Some mid, w1)
                   | (Inl error, w1) \<Rightarrow> (None, w1))
                else (None, w)))"

text \<open>The try block of \<open>processBrevoMessage\<close>; its catch block logs and returns.\<close>

definition processBrevoMessage_try ::
  "Visitor \<Rightarrow> BrevoMessage \<Rightarrow> string \<Rightarrow> bool \<Rightarrow> world \<Rightarrow> (error + unit) \<times> world" where
  "processBrevoMessage_try vis msg plat incoming w =
     (case findOrCreateChat (threadId vis) plat (displayedName vis) w of
        (None, w1) \<Rightarrow> (Inr (), w1)
      | (Some chat, w1) \<Rightarrow>
          if \<not> truthy (chat_id chat) then (Inr (), w1)
          else
     (case (case bm_file msg of
              None \<Rightarrow> (''text'', None, w1)
            | Some f \<Rightarrow>
                if isImage f then
                  (case brevo_download (link f) (''brevo_'' @ plat @ ''_'' @ bm_id msg @ ''.jpg'')
                          ''image/jpeg'' plat w1 of
                     (mid, w2) \<Rightarrow> (''image'', mid, w2))
                else
                  (case brevo_download (link f) (''brevo_'' @ plat @ ''_'' @ bm_id msg @ ''.mp4'')
                          ''audio/mp4'' plat w1 of
                     (mid, w2) \<Rightarrow> (''audio'', mid, w2))) of
        (msgType, mediaId, w2) \<Rightarrow>
          (let m = \<lparr>msg_id = None,
                    platformMessageId = Some (bm_id msg),
                    msg_source = plat,
                    chatId = chat_id chat,
                    msg_type = msgType,
                    content = or_else (bm_text msg) [],
                    mediaFileId = (if truthy mediaId then mediaId else None),
                    isIncoming = incoming,
                    timestamp = createdAt msg,
                    senderId = (if incoming then visitor_id vis
                                else or_else (agentId msg) (or_else (OPENAI_ASSISTANT_ID w2) [])),
                    senderName = (if incoming then displayedName vis
                                  else Some (or_else (agentName msg) ''OpenAI Assistant'')),
                    responseMode = (if incoming then ''manual'' else ''auto'')\<rparr>
           in case saveMessage m w2 of
                (Inl e, w3) \<Rightarrow> (Inl e, w3)
              | (Inr saved, w3) \<Rightarrow>
                  if \<not> incoming then (Inr (), w3)
                  else if autoMode chat \<and> incoming then
                    (case getAIResponse m (openAIThreadId chat) w3 of
                       (res, w4) \<Rightarrow>
                         (case sendBrevoMessage (visitor_id vis) res w4 of
                            (sent, w5) \<Rightarrow> (Inr (), w5)))
                  else (Inr (), w3))))"

definition processBrevoMessage :: "Visitor \<Rightarrow> BrevoMessage \<Rightarrow> string \<Rightarrow> bool \<Rightarrow> world \<Rightarrow> world" where
  "processBrevoMessage vis msg plat incoming w = snd (processBrevoMessage_try vis msg plat incoming w)"

text \<open>
  \<open>processAgentMessage\<close> reads \<open>body.message || body.messages[0]\<close>; a missing array, an
  empty array and a missing visitor make it throw a \<open>TypeError\<close>.
\<close>

definition processAgentMessage :: "WebhookBody \<Rightarrow> world \<Rightarrow> (error + unit) \<times> world" where
  "processAgentMessage body w =
     (case (case wb_message body of
              Some m \<Rightarrow> Some m
            | None \<Rightarrow> (case wb_messages body of Some (m # ms) \<Rightarrow> Some m | _ \<Rightarrow> None)) of
        None \<Rightarrow> (Inl TypeError, w)
      | Some msg \<Rightarrow>
          if (case agentId msg of None \<Rightarrow> False | Some a \<Rightarrow> a \<noteq> [] \<and> str_includes a ''Dummy'')
          then (Inr (), w)
          else (case visitor body of
                  None \<Rightarrow> (Inl TypeError, w)
                | Some vis \<Rightarrow>
                    (Inr (),
                     processBrevoMessage vis msg
                       (if visitor_source vis = ''widget'' then ''instagram'' else visitor_source vis)
                       False w)))"

section \<open>Bot adapter (src/receiver/telegram.ts)\<close>

record PhotoSize =
  file_id :: string
  file_unique_id :: string

record TgMessage =
  message_id :: int
  date :: int
  tg_text :: "string option"
  caption :: "string option"
  photo :: "PhotoSize list option"
  voice :: "PhotoSize option"

record Context =
  ctx_message :: "TgMessage option"
  ctx_chat_id :: "int option"
  ctx_from_id :: "int option"
  ctx_from_first_name :: "string option"

text \<open>
  \<open>String(x?.id)\<close> of an optional number. The identifiers of the bot platform are
  integers of at most 52 bits, which \<open>String\<close> prints digit by digit (the exponent
  notation of a double starts at \<open>1e21\<close>).
\<close>

definition String_opt :: "int option \<Rightarrow> string" where
  "String_opt i = (case i of None \<Rightarrow> ''undefined'' | Some n \<Rightarrow> string_of_int n)"

text \<open>The bot API: each call consumes one entry of \<open>tg_faults\<close>.\<close>

definition tg_fault :: "world \<Rightarrow> error option \<times> world" where
  "tg_fault w =
     (case tg_faults w of [] \<Rightarrow> (None, w) | f # fs \<Rightarrow> (f, w\<lparr>tg_faults := fs\<rparr>))"

definition api_sendMessage :: "string \<Rightarrow> string \<Rightarrow> world \<Rightarrow> (error + unit) \<times> world" where
  "api_sendMessage cid text w =
     (case tg_fault w of
        (Some e, w1) \<Rightarrow> (Inl e, w1)
      | (None, w1) \<Rightarrow> (Inr (), w1\<lparr>tg_sent := tg_sent w1 @ [(cid, text)]\<rparr>))"

definition api_getFile :: "string \<Rightarrow> world \<Rightarrow> (error + string) \<times> world" where
  "api_getFile fid w =
     (case tg_fault w of
        (Some e, w1) \<Rightarrow> (Inl e, w1)
      | (None, w1) \<Rightarrow> (Inr (''files/'' @ fid), w1))"

definition tg_file_url :: "string \<Rightarrow> string" where
  "tg_file_url file_path = ''https://api.telegram.org/file/bot<token>/'' @ file_path"

definition sendTelegramMessage :: "string \<Rightarrow> string \<Rightarrow> world \<Rightarrow> (error + unit) \<times> world" where
  "sendTelegramMessage cid text w =
     (case api_sendMessage cid text w of
        (Inr u, w1) \<Rightarrow> (Inr (), w1)
      | (Inl error, w1) \<Rightarrow> (Inl error, w1))"

text \<open>\<open>handleOpenAI\<close>: the whole body is in a try block whose catch block logs.\<close>

definition handleOpenAI :: "Message \<Rightarrow> string \<Rightarrow> string option \<Rightarrow> world \<Rightarrow> world" where
  "handleOpenAI msg platformChat thread w =
     (case getAIResponse msg thread w of
        (res, w1) \<Rightarrow>
          (let m = \<lparr>msg_id = None,
                    platformMessageId = Some (''auto_'' @ string_of_int (clock w1)),
                    msg_source = ''telegram'',
                    chatId = chatId msg,
                    msg_type = ''text'',
                    content = res,
                    mediaFileId = None,
                    isIncoming = False,
                    timestamp = clock w1,
                    senderId = (case OPENAI_ASSISTANT_ID w1 of None \<Rightarrow> ''OpenAI'' | Some a \<Rightarrow> a),
                    senderName = Some ''OpenAI Assistant'',
                    responseMode = ''auto''\<rparr>
           in case saveMessage m w1 of
                (Inl e, w2) \<Rightarrow> w2
              | (Inr saved, w2) \<Rightarrow> snd (sendTelegramMessage platformChat res w2)))"

text \<open>
  \<open>handleTgTextMessage\<close> has no try block: \<open>chat!.id!\<close> on a \<open>null\<close> chat throws a
  \<open>TypeError\<close> (the \<open>!\<close> is erased at run time), and a failed save propagates.
\<close>

definition handleTgTextMessage :: "Context \<Rightarrow> world \<Rightarrow> (error + unit) \<times> world" where
  "handleTgTextMessage ctx w =
     (case ctx_message ctx of
        None \<Rightarrow> (Inr (), w)
      | Some tm \<Rightarrow>
          if \<not> truthy (tg_text tm) then (Inr (), w)
          else
            (let platformChat = String_opt (ctx_chat_id ctx) in
             case findOrCreateChat platformChat ''telegram'' None w of
               (None, w1) \<Rightarrow> (Inl TypeError, w1)
             | (Some chat, w1) \<Rightarrow>
                 (let m = \<lparr>msg_id = None,
                           platformMessageId = Some (string_of_int (message_id tm)),
                           msg_source = ''telegram'',
                           chatId = chat_id chat,
                           msg_type = ''text'',
                           content = or_else (tg_text tm) [],
                           mediaFileId = None,
                           isIncoming = True,
                           timestamp = date tm * 1000,
                           senderId = String_opt (ctx_from_id ctx),
                           senderName = Some (or_else (ctx_from_first_name ctx) ''Unknown''),
                           responseMode = ''manual''\<rparr>
                  in case saveMessage m w1 of
                       (Inl e, w2) \<Rightarrow> (Inl e, w2)
                     | (Inr saved, w2) \<Rightarrow>
                         if autoMode chat
                         then (Inr (), handleOpenAI m platformChat (openAIThreadId chat) w2)
                         else (Inr (), w2))))"

text \<open>
  The download that opens the photo and the voice handler: the file's path from the bot
  API, the fetch, an explicit \<open>throw\<close> when the response is not OK, then the media save.
\<close>

definition tg_download :: "string \<Rightarrow> string \<Rightarrow> string \<Rightarrow> world \<Rightarrow> (error + string) \<times> world" where
  "tg_download fid filename contentType w =
     (case api_getFile fid w of
        (Inl e, w1) \<Rightarrow> (Inl e, w1)
      | (Inr file_path, w1) \<Rightarrow>
          (case fetch w1 (tg_file_url file_path) of
             FetchThrows \<Rightarrow> (Inl (JsError ''fetch failed''), w1)
           | Response ok blob ct \<Rightarrow>
               if \<not> ok then (Inl (JsError ''Failed to download file''), w1)
               else saveMediaFile blob filename contentType ''telegram'' w1))"

text \<open>The try block of \<open>handleTgPhotoMessage\<close>, after the guard on the photo and the chat.\<close>

definition handleTgPhotoMessage_try ::
  "Context \<Rightarrow> TgMessage \<Rightarrow> PhotoSize list \<Rightarrow> world \<Rightarrow> (error + unit) \<times> world" where
  "handleTgPhotoMessage_try ctx tm photoArray w =
     (if photoArray = [] then (Inl TypeError, w)
      else
       (let bestPhoto = last photoArray in
        case tg_download (file_id bestPhoto) (''tg_photo_'' @ file_unique_id bestPhoto @ ''.jpg'')
               ''image/jpeg'' w of
          (Inl e, w1) \<Rightarrow> (Inl e, w1)
        | (Inr fileId, w1) \<Rightarrow>
            (let platformChat = String_opt (ctx_chat_id ctx) in
             case findOrCreateChat platformChat ''telegram'' None w1 of
               (None, w2) \<Rightarrow> (Inl TypeError, w2)
             | (Some chat, w2) \<Rightarrow>
                 (let m = \<lparr>msg_id = None,
                           platformMessageId = Some (string_of_int (message_id tm)),
                           msg_source = ''telegram'',
                           chatId = chat_id chat,
                           msg_type = ''image'',
                           content = or_else (caption tm) [],
                           mediaFileId = Some fileId,
                           isIncoming = True,
                           timestamp = date tm * 1000,
                           senderId = String_opt (ctx_from_id ctx),
                           senderName = Some (or_else (ctx_from_first_name ctx) ''Unknown''),
                           responseMode = ''manual''\<rparr>
                  in case saveMessage m w2 of
                       (Inl e, w3) \<Rightarrow> (Inl e, w3)
                     | (Inr saved, w3) \<Rightarrow>
                         if autoMode chat
                         then (Inr (), handleOpenAI m platformChat (openAIThreadId chat) w3)
                         else (Inr (), w3)))))"

definition handleTgPhotoMessage :: "Context \<Rightarrow> world \<Rightarrow> world" where
  "handleTgPhotoMessage ctx w =
     (case ctx_message ctx of
        None \<Rightarrow> w
      | Some tm \<Rightarrow>
          (case photo tm of
             None \<Rightarrow> w
           | Some photoArray \<Rightarrow>
               if ctx_chat_id ctx = None \<or> ctx_chat_id ctx = Some 0 then w
               else snd (handleTgPhotoMessage_try ctx tm photoArray w)))"

definition handleTgVoiceMessage_try ::
  "Context \<Rightarrow> TgMessage \<Rightarrow> PhotoSize \<Rightarrow> world \<Rightarrow> (error + unit) \<times> world" where
  "handleTgVoiceMessage_try ctx tm v w =
     (case tg_download (file_id v) (''tg_voice_'' @ file_unique_id v @ ''.ogg'') ''audio/ogg'' w of
        (Inl e, w1) \<Rightarrow> (Inl e, w1)
      | (Inr fileId, w1) \<Rightarrow>
          (let platformChat = String_opt (ctx_chat_id ctx) in
           case findOrCreateChat platformChat ''telegram'' None w1 of
             (None, w2) \<Rightarrow> (Inl TypeError, w2)
           | (Some chat, w2) \<Rightarrow>
               (let m = \<lparr>msg_id = None,
                         platformMessageId = Some (string_of_int (message_id tm)),
                         msg_source = ''telegram'',
                         chatId = chat_id chat,
                         msg_type = ''audio'',
                         content = ''Voice message'',
                         mediaFileId = (if fileId \<noteq> [] then Some fileId else None),
                         isIncoming = True,
                         timestamp = date tm * 1000,
                         senderId = String_opt (ctx_from_id ctx),
                         senderName = Some (or_else (ctx_from_first_name ctx) ''Unknown''),
                         responseMode = ''manual''\<rparr>
                in case saveMessage m w2 of
                     (Inl e, w3) \<Rightarrow> (Inl e, w3)
                   | (Inr saved, w3) \<Rightarrow>
                       if autoMode chat \<and> isIncoming m
                       then (Inr (), handleOpenAI m platformChat (openAIThreadId chat) w3)
                       else (Inr (), w3))))"

definition handleTgVoiceMessage :: "Context \<Rightarrow> world \<Rightarrow> world" where
  "handleTgVoiceMessage ctx w =
     (case ctx_message ctx of
        None \<Rightarrow> w
      | Some tm \<Rightarrow>
          (case voice tm of
             None \<Rightarrow> w
           | Some v \<Rightarrow>
               if ctx_chat_id ctx = None \<or> ctx_chat_id ctx = Some 0 then w
               else snd (handleTgVoiceMessage_try ctx tm v w)))"

section \<open>Ingress router (src/api/api.ts)\<close>

text \<open>
  The module's own state is the map \<open>processedMessages\<close> from a message identifier to the
  time it was recorded; it is kept beside the world the adapters act on. A JavaScript
  \<open>Map\<close> keeps its keys in insertion order, so it is an association list.
\<close>

record server =
  processedMessages :: "(string \<times> int) list"
  backend :: world

definition Map_has :: "string \<Rightarrow> (string \<times> int) list \<Rightarrow> bool" where
  "Map_has k m = (map_of m k \<noteq> None)"

definition Map_set :: "string \<Rightarrow> int \<Rightarrow> (string \<times> int) list \<Rightarrow> (string \<times> int) list" where
  "Map_set k v m =
     (if Map_has k m then map (\<lambda>(k', v'). if k' = k then (k', v) else (k', v')) m
      else m @ [(k, v)])"

text \<open>The body of the \<open>setInterval\<close> callback, at the clock reading \<open>now\<close>.\<close>

definition sweep :: "int \<Rightarrow> server \<Rightarrow> server" where
  "sweep now s =
     s\<lparr>processedMessages :=
         filter (\<lambda>(mid, timestamp). \<not> now - timestamp > 3600000) (processedMessages s)\<rparr>"

text \<open>\<open>body.message || (body.messages && body.messages[0])\<close>.\<close>

definition first_message :: "WebhookBody \<Rightarrow> BrevoMessage option" where
  "first_message body =
     (case wb_message body of
        Some m \<Rightarrow> Some m
      | None \<Rightarrow> (case wb_messages body of Some (m # ms) \<Rightarrow> Some m | _ \<Rightarrow> None))"

text \<open>
  The block both event branches share: a visitor message is handed to
  \<open>processBrevoMessage\<close> with the visitor's source; reading the source of a missing
  visitor throws.
\<close>

definition process_visitor :: "WebhookBody \<Rightarrow> BrevoMessage \<Rightarrow> world \<Rightarrow> (error + unit) \<times> world" where
  "process_visitor body msg w =
     (if bm_type msg = ''visitor'' then
        (case visitor body of
           None \<Rightarrow> (Inl TypeError, w)
         | Some vis \<Rightarrow> (Inr (), processBrevoMessage vis msg (visitor_source vis) True w))
      else (Inr (), w))"

text \<open>
  Lines 83 to 111 of the webhook handler: the agent branch, the \<open>conversationFragment\<close>
  branch and the \<open>conversationStarted\<close> branch, in this order. \<open>Inl\<close> is an exception that
  leaves the handler.
\<close>

definition webhook_dispatch :: "WebhookBody \<Rightarrow> world \<Rightarrow> (error + string) \<times> world" where
  "webhook_dispatch body w =
     (case (if (case wb_message body of None \<Rightarrow> False | Some m \<Rightarrow> bm_type m = ''agent'')
               \<or> (case wb_messages body of Some (m # ms) \<Rightarrow> bm_type m = ''agent'' | _ \<Rightarrow> False)
            then processAgentMessage body w
            else (Inr (), w)) of
        (Inl e, w1) \<Rightarrow> (Inl e, w1)
      | (Inr u, w1) \<Rightarrow>
      (case (case wb_messages body of
               Some (m # ms) \<Rightarrow>
                 if eventName body = ''conversationFragment''
                 then process_visitor body m w1 else (Inr (), w1)
             | _ \<Rightarrow> (Inr (), w1)) of
        (Inl e, w2) \<Rightarrow> (Inl e, w2)
      | (Inr u, w2) \<Rightarrow>
      (case (case wb_message body of
               Some m \<Rightarrow>
                 if eventName body = ''conversationStarted''
                 then process_visitor body m w2 else (Inr (), w2)
             | None \<Rightarrow> (Inr (), w2)) of
        (Inl e, w3) \<Rightarrow> (Inl e, w3)
      | (Inr u, w3) \<Rightarrow> (Inr ''Webhook received successfully'', w3))))"

text \<open>
  The webhook handler; \<open>now\<close> is the reading of \<open>Date.now()\<close> when the identifier is
  recorded. The test and the recording are not separated by an \<open>await\<close>.
\<close>

definition brevohook :: "int \<Rightarrow> WebhookBody \<Rightarrow> server \<Rightarrow> (error + string) \<times> server" where
  "brevohook now body s =
     (case first_message body of
        None \<Rightarrow> (Inr ''No message found in webhook'', s)
      | Some msg \<Rightarrow>
          if Map_has (bm_id msg) (processedMessages s)
          then (Inr ''Duplicate message skipped'', s)
          else
            (case webhook_dispatch body (backend s) of
               (reply, w1) \<Rightarrow>
                 (reply,
                  s\<lparr>processedMessages := Map_set (bm_id msg) now (processedMessages s),
                    backend := w1\<rparr>)))"

text \<open>The send endpoint \<open>POST /api/messages\<close>.\<close>

record SendRequest =
  req_chatId :: "string option"
  req_platformChatId :: "string option"
  req_source :: "string option"
  req_text :: "string option"
  req_type :: "string option"
  req_visitorId :: "string option"
  req_senderName :: "string option"

record SendResponse =
  http_status :: nat
  success :: bool
  response_text :: string
  external :: "(string \<times> string option) option"

fun error_message :: "error \<Rightarrow> string" where
  "error_message (ClientResponseError s m) = or_else m ''Internal server error''"
| "error_message (JsError m) = (if m = [] then ''Internal server error'' else m)"

text \<open>The \<open>Message\<close> object the handler builds (lines 128 to 139).\<close>

definition api_message :: "int \<Rightarrow> SendRequest \<Rightarrow> Message" where
  "api_message now req =
     \<lparr>msg_id = None,
      platformMessageId = Some (''api_'' @ string_of_int now),
      msg_source = or_else (req_source req) [],
      chatId = req_chatId req,
      msg_type = or_else (req_type req) ''text'',
      content = or_else (req_text req) [],
      mediaFileId = None,
      isIncoming = False,
      timestamp = now,
      senderId = ''api_client'',
      senderName = Some (or_else (req_senderName req) ''API Client''),
      responseMode = ''manual''\<rparr>"

definition post_api_messages :: "int \<Rightarrow> SendRequest \<Rightarrow> world \<Rightarrow> SendResponse \<times> world" where
  "post_api_messages now req w =
     (let visitorId = (case req_visitorId req of None \<Rightarrow> Some ''text'' | Some v \<Rightarrow> Some v) in
      if \<not> truthy (req_platformChatId req) \<or> \<not> truthy (req_source req)
         \<or> \<not> truthy (req_text req) \<or> \<not> truthy visitorId
      then (\<lparr>http_status = 400, success = False,
             response_text = ''Missing required fields: platformChatId, source, visitorId or text'',
             external = None\<rparr>, w)
      else
        (let source = or_else (req_source req) [];
             text = or_else (req_text req) [];
             msg = api_message now req
         in if source = ''telegram'' then
              (case sendTelegramMessage (or_else (req_platformChatId req) []) text w of
                 (Inl error, w1) \<Rightarrow>
                   (\<lparr>http_status = 500, success = False, response_text = error_message error,
                     external = None\<rparr>, w1)
               | (Inr u, w1) \<Rightarrow>
                   (\<lparr>http_status = 200, success = True,
                     response_text = ''Message sent via '' @ source,
                     external = Some (''telegram'', None)\<rparr>, w1))
            else if source = ''instagram'' \<or> source = ''whatsapp'' \<or> source = ''brevo'' then
              (case sendBrevoMessage (or_else visitorId []) text w of
                 (msgId, w1) \<Rightarrow>
                   (\<lparr>http_status = 200, success = True,
                     response_text = ''Message sent via '' @ source,
                     external = Some (source, msgId)\<rparr>, w1))
            else
              (\<lparr>http_status = 400, success = False,
                response_text = ''Unsupported source: '' @ source, external = None\<rparr>, w)))"

section \<open>Runs of the server\<close>

text \<open>
  The events the process reacts to, one at a time: a webhook delivery and a sweep (each with
  the clock reading it sees), a send request, and the three kinds of bot update.
\<close>

datatype event =
  Webhook int WebhookBody
| Sweep int
| Send int SendRequest
| TgText Context
| TgPhoto Context
| TgVoice Context

fun step :: "event \<Rightarrow> server \<Rightarrow> server" where
  "step (Webhook now body) s = snd (brevohook now body s)"
| "step (Sweep now) s = sweep now s"
| "step (Send now req) s = s\<lparr>backend := snd (post_api_messages now req (backend s))\<rparr>"
| "step (TgText ctx) s = s\<lparr>backend := snd (handleTgTextMessage ctx (backend s))\<rparr>"
| "step (TgPhoto ctx) s = s\<lparr>backend := handleTgPhotoMessage ctx (backend s)\<rparr>"
| "step (TgVoice ctx) s = s\<lparr>backend := handleTgVoiceMessage ctx (backend s)\<rparr>"

fun run :: "event list \<Rightarrow> server \<Rightarrow> server" where
  "run [] s = s"
| "run (e # es) s = run es (step e s)"

text \<open>The clock readings of the sweeps of a run.\<close>

fun sweep_times :: "event list \<Rightarrow> int list" where
  "sweep_times [] = []"
| "sweep_times (Sweep now # es) = now # sweep_times es"
| "sweep_times (e # es) = sweep_times es"

section \<open>A world at rest\<close>

text \<open>
  An empty store that injects no failure, an assistant whose runs complete at once with a
  text answer, links that cannot be reached. The concrete runs below start from it.
\<close>

definition quiet :: world where
  "quiet =
     \<lparr>clock = 0, chats = [], messages = [], media = [], next_id = 0,
      pb_faults = [], pb_requests = 0, auth_script = [], auth_calls = 0,
      authRetryInProgress = False, file_token = Inr ''tok'',
      fetch = (\<lambda>url. FetchThrows),
      OPENAI_ASSISTANT_ID = Some ''asst'',
      openai_faults = [], thread_count = 0, run_count = 0, polls = 0,
      run_status_at = (\<lambda>k. ''completed''), retrieve_ms = (\<lambda>k. 0),
      thread_inputs = [],
      thread_list = [\<lparr>role = ''assistant'', parts = [(''text'', ''ok'')]\<rparr>],
      vision_choices = [Some ''a cat''],
      convertAudioInMemory = (\<lambda>b. Inr b),
      transcription = (\<lambda>b. TranscriptionResponse True (Some ''hello'')),
      brevo_faults = [], brevo_sent = [], tg_faults = [], tg_sent = []\<rparr>"

text \<open>The definitions a concrete run of the store gateway and of the responder unfolds.\<close>

lemmas store_defs =
  findOrCreateChat.simps saveChat.simps getChatById.simps saveChat_request_def
  chats_getFirstListItem_def chats_getOne_def chats_create_def chats_update_by_id_def
  messages_create_def media_create_def media_getOne_def take_fault_def
  handleAuthError_def authenticate_def authWithPassword_def
  saveMessage_def saveMediaFile_def getMediaRecord_def getFileToken_def
  fresh_id_def truthy_def or_else_def not_found_def Let_def

lemmas responder_defs =
  getAIResponse_def handleTextMessage_def create_thread_def handleImageMessage_def
  handleImageMessage_try_def handleAudioMessage_def handleAudioMessage_try_def
  openai_fault_def threads_create_def threads_messages_create_def runs_create_def
  runs_retrieve_def threads_messages_list_def chat_completions_create_def sleep_def
  TypeError_def

section \<open>Session expiry: re-authentication and retry\<close>

text \<open>
  A failure that \<open>handleAuthError\<close> recognises as an expired session: status 403 with a
  response message that mentions "perform this action".
\<close>

definition session_expired :: "error \<Rightarrow> bool" where
  "session_expired err =
     (status err = Some 403
      \<and> (case response_message err of None \<Rightarrow> False | Some m \<Rightarrow> str_includes m ''perform this action''))"

text \<open>
  The world after \<open>n\<close> failed requests that were each followed by a successful login:
  \<open>n\<close> requests sent, \<open>n\<close> logins made, the script continuing with \<open>rest\<close>.
\<close>

definition after_retries :: "nat \<Rightarrow> error option list \<Rightarrow> world \<Rightarrow> world" where
  "after_retries n rest w =
     w\<lparr>pb_faults := rest, pb_requests := pb_requests w + n,
       auth_calls := auth_calls w + n, auth_script := drop n (auth_script w)\<rparr>"

definition logins_succeed :: "nat \<Rightarrow> world \<Rightarrow> bool" where
  "logins_succeed n w = list_all (\<lambda>x. x = None) (take n (auth_script w))"

lemma take_fault_Cons:
  "pb_faults w = f # fs \<Longrightarrow>
   take_fault w = (f, w\<lparr>pb_requests := Suc (pb_requests w), pb_faults := fs\<rparr>)"
  by (simp add: take_fault_def Let_def)

lemma handleAuthError_expired:
  assumes "session_expired err" "\<not> authRetryInProgress w" "logins_succeed 1 w"
  shows "handleAuthError err w =
    (True, w\<lparr>auth_calls := Suc (auth_calls w), auth_script := drop 1 (auth_script w)\<rparr>)"
  using assms
  by (cases w; cases "auth_script w")
    (auto simp: session_expired_def logins_succeed_def handleAuthError_def authenticate_def
      authWithPassword_def Let_def split: option.splits)

lemma after_retries_step:
  "after_retries n rest
     (w\<lparr>pb_requests := Suc (pb_requests w), pb_faults := fs,
        auth_calls := Suc (auth_calls w), auth_script := drop 1 (auth_script w)\<rparr>)
   = after_retries (Suc n) rest w"
  by (simp add: after_retries_def)

lemma logins_succeed_Suc:
  "logins_succeed (Suc n) w \<Longrightarrow> logins_succeed 1 w"
  "logins_succeed (Suc n) w \<Longrightarrow>
     logins_succeed n (w\<lparr>pb_requests := r, pb_faults := fs, auth_calls := a,
        auth_script := drop 1 (auth_script w)\<rparr>)"
  by (cases "auth_script w"; simp add: logins_succeed_def)+

text \<open>The catch block's test \<open>err.status === 403 && await handleAuthError(err)\<close>, after a
  request that consumed an expired-session failure.\<close>

lemma retry_decision:
  assumes "session_expired err" "\<not> authRetryInProgress w" "logins_succeed 1 w"
  shows "(if status err = Some 403
          then handleAuthError err (w\<lparr>pb_requests := Suc (pb_requests w), pb_faults := fs\<rparr>)
          else (False, w\<lparr>pb_requests := Suc (pb_requests w), pb_faults := fs\<rparr>)) =
    (True, w\<lparr>pb_requests := Suc (pb_requests w), pb_faults := fs,
        auth_calls := Suc (auth_calls w), auth_script := drop 1 (auth_script w)\<rparr>)"
proof -
  have "status err = Some 403" using assms(1) by (simp add: session_expired_def)
  moreover have "handleAuthError err (w\<lparr>pb_requests := Suc (pb_requests w), pb_faults := fs\<rparr>) =
    (True, w\<lparr>pb_requests := Suc (pb_requests w), pb_faults := fs,
        auth_calls := Suc (auth_calls w), auth_script := drop 1 (auth_script w)\<rparr>)"
    using handleAuthError_expired [OF assms(1),
        of "w\<lparr>pb_requests := Suc (pb_requests w), pb_faults := fs\<rparr>"] assms(2,3)
    by (simp add: logins_succeed_def)
  ultimately show ?thesis by simp
qed

text \<open>From one retry to \<open>n\<close>: induction on the number of scripted failures.\<close>

lemma retries_induct:
  assumes step: "\<And>w fs. pb_faults w = Some err # fs \<Longrightarrow> \<not> authRetryInProgress w \<Longrightarrow>
      logins_succeed 1 w \<Longrightarrow>
      f w = f (w\<lparr>pb_requests := Suc (pb_requests w), pb_faults := fs,
        auth_calls := Suc (auth_calls w), auth_script := drop 1 (auth_script w)\<rparr>)"
    and "pb_faults w = replicate n (Some err) @ rest" "\<not> authRetryInProgress w"
      "logins_succeed n w"
  shows "f w = f (after_retries n rest w)"
  using assms(2-)
proof (induction n arbitrary: w)
  case 0
  then have "after_retries 0 rest w = w"
    by (cases w) (simp add: after_retries_def)
  then show ?case by simp
next
  case (Suc n)
  let ?w = "w\<lparr>pb_requests := Suc (pb_requests w), pb_faults := replicate n (Some err) @ rest,
        auth_calls := Suc (auth_calls w), auth_script := drop 1 (auth_script w)\<rparr>"
  have "f w = f ?w"
    using step [of w "replicate n (Some err) @ rest"] Suc.prems logins_succeed_Suc(1) by simp
  also have "f ?w = f (after_retries n rest ?w)"
    using Suc.prems logins_succeed_Suc(2) by (intro Suc.IH) simp_all
  also have "after_retries n rest ?w = after_retries (Suc n) rest w"
    by (rule after_retries_step)
  finally show ?case .
qed

lemma getChatById_retry:
  assumes "pb_faults w = Some err # fs" "session_expired err"
    "\<not> authRetryInProgress w" "logins_succeed 1 w"
  shows "getChatById cid w =
    getChatById cid (w\<lparr>pb_requests := Suc (pb_requests w), pb_faults := fs,
        auth_calls := Suc (auth_calls w), auth_script := drop 1 (auth_script w)\<rparr>)"
  by (subst getChatById.simps)
    (simp add: chats_getOne_def take_fault_Cons [OF assms(1)] retry_decision [OF assms(2-)])

lemma getChats_retry:
  assumes "pb_faults w = Some err # fs" "session_expired err"
    "\<not> authRetryInProgress w" "logins_succeed 1 w"
  shows "getChats source limit w =
    getChats source limit (w\<lparr>pb_requests := Suc (pb_requests w), pb_faults := fs,
        auth_calls := Suc (auth_calls w), auth_script := drop 1 (auth_script w)\<rparr>)"
  by (subst getChats.simps)
    (simp add: chats_getList_def take_fault_Cons [OF assms(1)] retry_decision [OF assms(2-)])

lemma getMessageById_retry:
  assumes "pb_faults w = Some err # fs" "session_expired err"
    "\<not> authRetryInProgress w" "logins_succeed 1 w"
  shows "getMessageById pmid sid w =
    getMessageById pmid sid (w\<lparr>pb_requests := Suc (pb_requests w), pb_faults := fs,
        auth_calls := Suc (auth_calls w), auth_script := drop 1 (auth_script w)\<rparr>)"
  by (subst getMessageById.simps)
    (simp add: messages_getFirstListItem_def take_fault_Cons [OF assms(1)]
      retry_decision [OF assms(2-)])

lemma saveChat_retry:
  assumes "pb_faults w = Some err # fs" "session_expired err"
    "\<not> authRetryInProgress w" "logins_succeed 1 w"
  shows "saveChat chat w =
    saveChat chat (w\<lparr>pb_requests := Suc (pb_requests w), pb_faults := fs,
        auth_calls := Suc (auth_calls w), auth_script := drop 1 (auth_script w)\<rparr>)"
proof -
  have "saveChat_request chat w =
    (Inl err, w\<lparr>pb_requests := Suc (pb_requests w), pb_faults := fs\<rparr>)"
    by (simp add: saveChat_request_def chats_create_def chats_update_by_id_def
        take_fault_Cons [OF assms(1)] split: option.splits)
  then show ?thesis
    by (subst saveChat.simps) (simp add: retry_decision [OF assms(2-)])
qed

lemma findOrCreateChat_retry:
  assumes "pb_faults w = Some err # fs" "session_expired err"
    "\<not> authRetryInProgress w" "logins_succeed 1 w"
  shows "findOrCreateChat pid source name w =
    findOrCreateChat pid source name (w\<lparr>pb_requests := Suc (pb_requests w), pb_faults := fs,
        auth_calls := Suc (auth_calls w), auth_script := drop 1 (auth_script w)\<rparr>)"
  by (subst findOrCreateChat.simps)
    (simp add: chats_getFirstListItem_def take_fault_Cons [OF assms(1)]
      retry_decision [OF assms(2-)])

text \<open>
  C2 (as the code has it). For \<open>saveChat\<close>, \<open>getMessageById\<close>, \<open>findOrCreateChat\<close>,
  \<open>getChats\<close> and \<open>getChatById\<close>: every expired-session failure whose re-authentication
  succeeds is followed by one login and one retry of the same operation, and this repeats
  for each further failure. After \<open>n\<close> consecutive failures the call has sent \<open>n\<close>
  requests, logged in \<open>n\<close> times, and goes on with attempt \<open>n + 1\<close>; the number of
  retries has no bound of one.
\<close>

theorem session_expiry_retries_every_time:
  assumes "pb_faults w = replicate n (Some err) @ rest" "session_expired err"
    "\<not> authRetryInProgress w" "logins_succeed n w"
  shows "saveChat chat w = saveChat chat (after_retries n rest w)
    \<and> getMessageById pmid sid w = getMessageById pmid sid (after_retries n rest w)
    \<and> findOrCreateChat pid source name w = findOrCreateChat pid source name (after_retries n rest w)
    \<and> getChats src limit w = getChats src limit (after_retries n rest w)
    \<and> getChatById cid w = getChatById cid (after_retries n rest w)"
proof (intro conjI)
  show "saveChat chat w = saveChat chat (after_retries n rest w)"
    by (rule retries_induct [where f = "saveChat chat" and err = err, OF _ assms(1,3,4)])
      (rule saveChat_retry [OF _ assms(2)])
  show "getMessageById pmid sid w = getMessageById pmid sid (after_retries n rest w)"
    by (rule retries_induct [where f = "getMessageById pmid sid" and err = err, OF _ assms(1,3,4)])
      (rule getMessageById_retry [OF _ assms(2)])
  show "findOrCreateChat pid source name w = findOrCreateChat pid source name (after_retries n rest w)"
    by (rule retries_induct [where f = "findOrCreateChat pid source name" and err = err,
          OF _ assms(1,3,4)])
      (rule findOrCreateChat_retry [OF _ assms(2)])
  show "getChats src limit w = getChats src limit (after_retries n rest w)"
    by (rule retries_induct [where f = "getChats src limit" and err = err, OF _ assms(1,3,4)])
      (rule getChats_retry [OF _ assms(2)])
  show "getChatById cid w = getChatById cid (after_retries n rest w)"
    by (rule retries_induct [where f = "getChatById cid" and err = err, OF _ assms(1,3,4)])
      (rule getChatById_retry [OF _ assms(2)])
qed

text \<open>A store holding one chat, a message of that chat, and an expired session.\<close>

definition expired403 :: error where
  "expired403 = ClientResponseError 403 (Some ''Only superusers can perform this action.'')"

definition chat0 :: Chat where
  "chat0 = \<lparr>chat_id = Some ''c0'', platformChatId = Some ''t1'', chat_source = ''whatsapp'',
      chat_name = ''Ana'', updated = 0, autoMode = False, openAIThreadId = Some []\<rparr>"

definition text_message :: Message where
  "text_message =
     \<lparr>msg_id = None, platformMessageId = Some ''m1'', msg_source = ''whatsapp'',
      chatId = Some ''c0'', msg_type = ''text'', content = ''Hola'', mediaFileId = None,
      isIncoming = True, timestamp = 1700000000000, senderId = ''v1'',
      senderName = Some ''Ana'', responseMode = ''manual''\<rparr>"

text \<open>A store holding one chat whose session has expired: the next two requests fail.\<close>

definition expired_twice :: world where
  "expired_twice = quiet\<lparr>chats := [chat0], pb_faults := [Some expired403, Some expired403]\<rparr>"

lemma session_expired_expired403: "session_expired expired403"
  by (simp add: session_expired_def expired403_def)

theorem session_expiry_retries_witness:
  "pb_faults expired_twice = replicate 2 (Some expired403) @ []
   \<and> session_expired expired403 \<and> \<not> authRetryInProgress expired_twice
   \<and> logins_succeed 2 expired_twice
   \<and> saveChat chat0 expired_twice = saveChat chat0 (after_retries 2 [] expired_twice)
   \<and> getMessageById ''m1'' ''v1'' expired_twice
       = getMessageById ''m1'' ''v1'' (after_retries 2 [] expired_twice)
   \<and> findOrCreateChat ''t1'' ''whatsapp'' None expired_twice
       = findOrCreateChat ''t1'' ''whatsapp'' None (after_retries 2 [] expired_twice)
   \<and> getChats None 50 expired_twice = getChats None 50 (after_retries 2 [] expired_twice)
   \<and> getChatById ''c0'' expired_twice = getChatById ''c0'' (after_retries 2 [] expired_twice)"
proof -
  have h1: "pb_faults expired_twice = replicate 2 (Some expired403) @ []"
    by (simp add: expired_twice_def quiet_def numeral_2_eq_2)
  have h3: "\<not> authRetryInProgress expired_twice"
    by (simp add: expired_twice_def quiet_def)
  have h4: "logins_succeed 2 expired_twice"
    by (simp add: logins_succeed_def expired_twice_def quiet_def)
  show ?thesis
    using session_expiry_retries_every_time [OF h1 session_expired_expired403 h3 h4,
        where chat = chat0 and pmid = "''m1''" and sid = "''v1''" and pid = "''t1''"
          and source = "''whatsapp''" and name = None and src = None and limit = 50
          and cid = "''c0''"]
      h1 session_expired_expired403 h3 h4
    by simp
qed

text \<open>
  C2 as stated fails. Two expired-session failures in a row are both retried:
  \<open>getChatById\<close> logs in twice, sends three requests and returns the chat, so the
  second failure after a refresh is not terminal. And \<open>saveMessage\<close> does not
  re-authenticate at all: one request, no login, the failure rethrown.
\<close>

theorem second_expiry_is_retried_again:
  "fst (getChatById ''c0'' expired_twice) = Some chat0
   \<and> auth_calls (snd (getChatById ''c0'' expired_twice)) = 2
   \<and> pb_requests (snd (getChatById ''c0'' expired_twice)) = 3
   \<and> fst (saveMessage text_message expired_twice) = Inl expired403
   \<and> auth_calls (snd (saveMessage text_message expired_twice)) = 0
   \<and> pb_requests (snd (saveMessage text_message expired_twice)) = 1"
  by (simp add: getChatById.simps chats_getOne_def take_fault_def handleAuthError_def
      authenticate_def authWithPassword_def saveMessage_def messages_create_def
      expired_twice_def quiet_def expired403_def chat0_def Let_def)

section \<open>The webhook handler and the dedup cache\<close>

lemma Map_has_member: "(k, t) \<in> set m \<Longrightarrow> Map_has k m"
  by (force simp: Map_has_def map_of_eq_None_iff)

lemma brevohook_cache:
  "processedMessages (snd (brevohook now body s)) =
     (case first_message body of
        None \<Rightarrow> processedMessages s
      | Some msg \<Rightarrow>
          if Map_has (bm_id msg) (processedMessages s) then processedMessages s
          else processedMessages s @ [(bm_id msg, now)])"
  by (simp add: brevohook_def Map_set_def split: option.splits prod.splits)

lemma step_keeps_entry:
  assumes "(k, t1) \<in> set (processedMessages s)"
    and "\<forall>t \<in> set (sweep_times [e]). t \<le> t1 + 3600000"
  shows "(k, t1) \<in> set (processedMessages (step e s))"
  using assms
  by (cases e) (auto simp: brevohook_cache sweep_def split: option.splits)

lemma sweep_times_Cons:
  "set (sweep_times (e # es)) = set (sweep_times [e]) \<union> set (sweep_times es)"
  by (cases e) simp_all

lemma run_keeps_entry:
  assumes "(k, t1) \<in> set (processedMessages s)"
    and "\<forall>t \<in> set (sweep_times evs). t \<le> t1 + 3600000"
  shows "(k, t1) \<in> set (processedMessages (run evs s))"
  using assms
proof (induction evs arbitrary: s)
  case Nil
  then show ?case by simp
next
  case (Cons e es)
  have "(k, t1) \<in> set (processedMessages (step e s))"
    using Cons.prems by (intro step_keeps_entry) (auto simp: sweep_times_Cons [of e es])
  moreover have "\<forall>t \<in> set (sweep_times es). t \<le> t1 + 3600000"
    using Cons.prems(2) by (auto simp: sweep_times_Cons [of e es])
  ultimately show ?case
    using Cons.IH by simp
qed

text \<open>
  C1 (as the code has it). When a delivery records its identifier in the cache (the
  identifier was not cached), that delivery is dispatched once, and a later delivery with
  the same identifier that arrives within one hour of it is answered
  "Duplicate message skipped" and changes nothing: neither the cache nor the world. The
  sweeps in between run no later than the second delivery; any other events may lie in
  between.
\<close>

theorem duplicate_within_the_hour_is_skipped:
  assumes "first_message b1 = Some m1" "\<not> Map_has (bm_id m1) (processedMessages s)"
    and "first_message b2 = Some m2" "bm_id m2 = bm_id m1"
    and "t2 \<le> t1 + 3600000" "\<forall>t \<in> set (sweep_times evs). t \<le> t2"
  shows "snd (brevohook t1 b1 s) =
      s\<lparr>processedMessages := processedMessages s @ [(bm_id m1, t1)],
        backend := snd (webhook_dispatch b1 (backend s))\<rparr>
    \<and> brevohook t2 b2 (run evs (snd (brevohook t1 b1 s)))
      = (Inr ''Duplicate message skipped'', run evs (snd (brevohook t1 b1 s)))"
proof
  show "snd (brevohook t1 b1 s) =
      s\<lparr>processedMessages := processedMessages s @ [(bm_id m1, t1)],
        backend := snd (webhook_dispatch b1 (backend s))\<rparr>"
    using assms(1,2) by (simp add: brevohook_def Map_set_def split: prod.splits)
  have "(bm_id m1, t1) \<in> set (processedMessages (snd (brevohook t1 b1 s)))"
    using assms(1,2) by (simp add: brevohook_cache)
  moreover have "\<forall>t \<in> set (sweep_times evs). t \<le> t1 + 3600000"
    using assms(5,6) by auto
  ultimately have "(bm_id m1, t1) \<in> set (processedMessages (run evs (snd (brevohook t1 b1 s))))"
    by (rule run_keeps_entry)
  then have "Map_has (bm_id m2) (processedMessages (run evs (snd (brevohook t1 b1 s))))"
    using assms(4) by (simp add: Map_has_member)
  then show "brevohook t2 b2 (run evs (snd (brevohook t1 b1 s)))
      = (Inr ''Duplicate message skipped'', run evs (snd (brevohook t1 b1 s)))"
    using assms(3) by (simp add: brevohook_def)
qed

text \<open>The delivery of the specification's scenario, and a server that has seen nothing.\<close>

definition hola_message :: BrevoMessage where
  "hola_message =
     \<lparr>bm_id = ''m1'', bm_type = ''visitor'', bm_text = Some ''Hola'', bm_file = None,
      createdAt = 1700000000000, agentId = None, agentName = None\<rparr>"

definition hola :: WebhookBody where
  "hola =
     \<lparr>eventName = ''conversationStarted'',
      visitor = Some \<lparr>visitor_id = ''v1'', threadId = ''t1'', visitor_source = ''whatsapp'',
                      displayedName = Some ''Ana''\<rparr>,
      wb_message = Some hola_message,
      wb_messages = None\<rparr>"

definition server0 :: server where
  "server0 = \<lparr>processedMessages = [], backend = quiet\<rparr>"

theorem duplicate_within_the_hour_witness:
  "first_message hola = Some hola_message
   \<and> \<not> Map_has (bm_id hola_message) (processedMessages server0)
   \<and> (1700003600000 :: int) \<le> 1700000000000 + 3600000
   \<and> list_all (\<lambda>t. t \<le> 1700003600000) (sweep_times [Sweep 1700000600000, Sweep 1700003600000])
   \<and> snd (brevohook 1700000000000 hola server0) =
      server0\<lparr>processedMessages := processedMessages server0 @ [(bm_id hola_message, 1700000000000)],
        backend := snd (webhook_dispatch hola (backend server0))\<rparr>
   \<and> brevohook 1700003600000 hola
        (run [Sweep 1700000600000, Sweep 1700003600000] (snd (brevohook 1700000000000 hola server0)))
      = (Inr ''Duplicate message skipped'',
         run [Sweep 1700000600000, Sweep 1700003600000] (snd (brevohook 1700000000000 hola server0)))"
proof -
  have h1: "first_message hola = Some hola_message"
    by (simp add: first_message_def hola_def)
  have h2: "\<not> Map_has (bm_id hola_message) (processedMessages server0)"
    by (simp add: Map_has_def server0_def)
  have h5: "(1700003600000 :: int) \<le> 1700000000000 + 3600000"
    by simp
  have h6: "\<forall>t \<in> set (sweep_times [Sweep 1700000600000, Sweep 1700003600000]). t \<le> 1700003600000"
    by simp
  have h6': "list_all (\<lambda>t. t \<le> 1700003600000) (sweep_times [Sweep 1700000600000, Sweep 1700003600000])"
    by simp
  note inst = duplicate_within_the_hour_is_skipped [OF h1 h2 h1 refl h5 h6]
  show ?thesis
    by (intro conjI h1 h2 h5 h6' conjunct1 [OF inst] conjunct2 [OF inst])
qed

text \<open>
  C1 as stated fails: the cache keeps the time an identifier was first recorded, and a
  skipped duplicate does not renew it. The identifier is recorded at time 0, delivered
  again (and skipped) after 50 minutes, swept after 65 minutes, and delivered a third time
  after 70 minutes: 20 minutes after the previous delivery, yet it is processed again and a
  second message record is stored.
\<close>

theorem redelivery_after_sweep_is_processed_again:
  "fst (brevohook 3000000 hola (run [Webhook 0 hola] server0)) = Inr ''Duplicate message skipped''
   \<and> fst (brevohook 4200000 hola (run [Webhook 0 hola, Webhook 3000000 hola, Sweep 3900000] server0))
      = Inr ''Webhook received successfully''
   \<and> map platformMessageId (messages (backend
        (run [Webhook 0 hola, Webhook 3000000 hola, Sweep 3900000, Webhook 4200000 hola] server0)))
      = [Some ''m1'', Some ''m1'']"
  by (simp add: brevohook_def first_message_def Map_has_def Map_set_def sweep_def
      webhook_dispatch_def process_visitor_def processBrevoMessage_def
      processBrevoMessage_try_def findOrCreateChat.simps saveChat.simps saveChat_request_def
      chats_getFirstListItem_def chats_create_def take_fault_def saveMessage_def
      messages_create_def fresh_id_def truthy_def or_else_def
      hola_def hola_message_def server0_def quiet_def Let_def)

section \<open>Find-or-create\<close>

definition one_chat_per_pair :: "world \<Rightarrow> bool" where
  "one_chat_per_pair w = distinct (map (\<lambda>c. (chat_source c, platformChatId c)) (chats w))"

lemma find_append:
  "find P (xs @ ys) = (case find P xs of None \<Rightarrow> find P ys | Some x \<Rightarrow> Some x)"
  by (induction xs) simp_all

lemma take_fault_chats: "take_fault w = (f, w1) \<Longrightarrow> chats w1 = chats w"
  by (auto simp: take_fault_def Let_def split: list.splits)

lemma retry_chats:
  "(if status err = Some 403 then handleAuthError err w1 else (False, w1)) = (b, w2)
   \<Longrightarrow> chats w2 = chats w1"
  by (auto simp: handleAuthError_def authenticate_def authWithPassword_def Let_def
      split: if_splits list.splits option.splits)

text \<open>A lookup leaves the chats as they are; what it finds is the first chat with that
  platform identifier.\<close>

lemma lookup_chats:
  assumes "chats_getFirstListItem pid w = (r, w1)"
  shows "chats w1 = chats w
    \<and> (case r of
          Inr c \<Rightarrow> find (\<lambda>c. platformChatId c = Some pid) (chats w) = Some c
        | Inl e \<Rightarrow> True)"
  using assms
  by (auto simp: chats_getFirstListItem_def split: prod.splits option.splits
      dest: take_fault_chats)

text \<open>The store creates a chat only when no chat has its platform identifier.\<close>

lemma chats_create_result:
  assumes "chats_create chat w = (r, w1)"
  shows "case r of
      Inr saved \<Rightarrow> find (\<lambda>c. platformChatId c = platformChatId chat) (chats w) = None
        \<and> chats w1 = chats w @ [saved]
        \<and> platformChatId saved = platformChatId chat \<and> chat_source saved = chat_source chat
    | Inl e \<Rightarrow> chats w1 = chats w"
  using assms
  by (auto simp: chats_create_def Let_def split: prod.splits option.splits
      dest: take_fault_chats)

lemma saveChat_creates:
  assumes "chat_id chat = None" "saveChat chat w = (Inr saved, w1)"
  shows "find (\<lambda>c. platformChatId c = platformChatId chat) (chats w) = None
    \<and> chats w1 = chats w @ [saved]
    \<and> platformChatId saved = platformChatId chat \<and> chat_source saved = chat_source chat"
  using assms
proof (induction chat w rule: saveChat.induct)
  case (1 chat w)
  obtain r0 w0 where rq: "chats_create chat w = (r0, w0)"
    by (cases "chats_create chat w")
  have req: "saveChat_request chat w = (r0, w0)"
    using "1.prems"(1) rq by (simp add: saveChat_request_def)
  note c = chats_create_result [OF rq]
  show ?case
  proof (cases r0)
    case (Inr result)
    then show ?thesis
      using "1.prems"(2) req c by (subst (asm) saveChat.simps) auto
  next
    case (Inl err)
    obtain b w2 where d: "(if status err = Some 403 then handleAuthError err w0 else (False, w0)) = (b, w2)"
      by (cases "if status err = Some 403 then handleAuthError err w0 else (False, w0)")
    have again: "b" "saveChat chat w2 = (Inr saved, w1)"
      using "1.prems"(2) req Inl d by (subst (asm) saveChat.simps; simp split: if_splits)+
    have "chats w2 = chats w"
      using retry_chats [OF d] c Inl by simp
    then show ?thesis
      using "1.IH" [OF req [symmetric, unfolded Inl] refl d [symmetric] again(1) "1.prems"(1) again(2)]
      by simp
  qed
qed

text \<open>A successful call returns the first chat of the store with that platform identifier.\<close>

lemma findOrCreateChat_first:
  assumes "findOrCreateChat pid source name w = (Some c, w1)"
  shows "find (\<lambda>c. platformChatId c = Some pid) (chats w1) = Some c
    \<and> (one_chat_per_pair w \<longrightarrow> one_chat_per_pair w1)"
  using assms
proof (induction pid source name w rule: findOrCreateChat.induct)
  case (1 pid source name w)
  obtain r w0 where lk: "chats_getFirstListItem pid w = (r, w0)"
    by (cases "chats_getFirstListItem pid w")
  note l = lookup_chats [OF lk]
  show ?case
  proof (cases r)
    case (Inr found)
    then show ?thesis
      using "1.prems" l lk
      by (subst (asm) findOrCreateChat.simps) (auto simp: one_chat_per_pair_def)
  next
    case (Inl err)
    obtain b w2 where d: "(if status err = Some 403 then handleAuthError err w0 else (False, w0)) = (b, w2)"
      by (cases "if status err = Some 403 then handleAuthError err w0 else (False, w0)")
    have w2: "chats w2 = chats w"
      using retry_chats [OF d] l by simp
    show ?thesis
    proof (cases b)
      case True
      then have "findOrCreateChat pid source name w2 = (Some c, w1)"
        using "1.prems" lk Inl d by (subst (asm) findOrCreateChat.simps) simp
      then show ?thesis
        using "1.IH" [OF lk [symmetric, unfolded Inl] refl d [symmetric] True] w2
        by (simp add: one_chat_per_pair_def)
    next
      case False
      let ?new = "\<lparr>chat_id = None, platformChatId = Some pid, chat_source = source,
          chat_name = or_else name ''Unknown'', updated = clock w2,
          autoMode = False, openAIThreadId = Some []\<rparr>"
      have sv: "saveChat ?new w2 = (Inr c, w1)"
        using "1.prems" lk Inl d False
        by (subst (asm) findOrCreateChat.simps) (simp split: if_splits prod.splits sum.splits)
      note s = saveChat_creates [OF _ sv, simplified]
      have none: "find (\<lambda>c. platformChatId c = Some pid) (chats w) = None"
        using s w2 by simp
      have fresh: "(source, Some pid) \<notin> (\<lambda>c. (chat_source c, platformChatId c)) ` set (chats w)"
        using none by (auto simp: find_None_iff)
      show ?thesis
        using s w2 none fresh by (auto simp: one_chat_per_pair_def find_append)
    qed
  qed
qed

text \<open>Once the chat is in the store, a successful call returns it and adds nothing: the
  lookup finds it, and a create for its platform identifier is refused.\<close>

lemma findOrCreateChat_again:
  assumes "find (\<lambda>c. platformChatId c = Some pid) (chats w) = Some c"
    "findOrCreateChat pid source name w = (Some c', w1)"
  shows "c' = c \<and> chats w1 = chats w"
  using assms
proof (induction pid source name w rule: findOrCreateChat.induct)
  case (1 pid source name w)
  obtain r w0 where lk: "chats_getFirstListItem pid w = (r, w0)"
    by (cases "chats_getFirstListItem pid w")
  note l = lookup_chats [OF lk]
  show ?case
  proof (cases r)
    case (Inr found)
    then show ?thesis
      using "1.prems" l lk by (subst (asm) findOrCreateChat.simps) auto
  next
    case (Inl err)
    obtain b w2 where d: "(if status err = Some 403 then handleAuthError err w0 else (False, w0)) = (b, w2)"
      by (cases "if status err = Some 403 then handleAuthError err w0 else (False, w0)")
    have w2: "chats w2 = chats w"
      using retry_chats [OF d] l by simp
    show ?thesis
    proof (cases b)
      case True
      then have again: "findOrCreateChat pid source name w2 = (Some c', w1)"
        using "1.prems"(2) lk Inl d by (subst (asm) findOrCreateChat.simps) simp
      show ?thesis
        using "1.IH" [OF lk [symmetric, unfolded Inl] refl d [symmetric] True _ again]
          "1.prems"(1) w2
        by simp
    next
      case False
      let ?new = "\<lparr>chat_id = None, platformChatId = Some pid, chat_source = source,
          chat_name = or_else name ''Unknown'', updated = clock w2,
          autoMode = False, openAIThreadId = Some []\<rparr>"
      have sv: "saveChat ?new w2 = (Inr c', w1)"
        using "1.prems"(2) lk Inl d False
        by (subst (asm) findOrCreateChat.simps) (simp split: if_splits prod.splits sum.splits)
      have "find (\<lambda>c. platformChatId c = Some pid) (chats w) = None"
        using saveChat_creates [OF _ sv, simplified] w2 by simp
      then show ?thesis
        using "1.prems"(1) by simp
    qed
  qed
qed

text \<open>
  C8. Two successful calls of \<open>findOrCreateChat\<close> with the same source and platform
  identifier, the second in the world the first leaves, return chats with the same chat
  identifier; the second call adds no chat, and a store that has at most one chat per
  (source, platformChatId) pair still has at most one after both calls. This holds whatever
  failures the store injects: a lookup that fails with status 400 makes the call create a
  chat, but the store refuses a second chat with the same \<open>platformChatId\<close>, and the call
  then returns \<open>null\<close>.
\<close>

theorem findOrCreateChat_idempotent:
  assumes "findOrCreateChat pid source name w = (Some c1, w1)"
    and "findOrCreateChat pid source name' w1 = (Some c2, w2)"
  shows "chat_id c2 = chat_id c1 \<and> chats w2 = chats w1
    \<and> (one_chat_per_pair w \<longrightarrow> one_chat_per_pair w2)"
proof -
  note first = findOrCreateChat_first [OF assms(1)]
  then have "c2 = c1 \<and> chats w2 = chats w1"
    using findOrCreateChat_again [OF _ assms(2)] by simp
  then show ?thesis
    using first by (simp add: one_chat_per_pair_def)
qed

definition ana_chat :: Chat where
  "ana_chat = \<lparr>chat_id = Some ''r0'', platformChatId = Some ''t1'', chat_source = ''whatsapp'',
      chat_name = ''Ana'', updated = 0, autoMode = False, openAIThreadId = Some []\<rparr>"

definition with_ana :: "nat \<Rightarrow> world" where
  "with_ana n = quiet\<lparr>chats := [ana_chat], next_id := 1, pb_requests := n\<rparr>"

text \<open>
  An empty store: the first call looks the chat up, does not find it and creates it (two
  requests), the second call finds it (one request).
\<close>

theorem findOrCreateChat_idempotent_witness:
  "findOrCreateChat ''t1'' ''whatsapp'' (Some ''Ana'') quiet = (Some ana_chat, with_ana 2)
   \<and> findOrCreateChat ''t1'' ''whatsapp'' None (with_ana 2) = (Some ana_chat, with_ana 3)
   \<and> chat_id ana_chat = chat_id ana_chat \<and> chats (with_ana 3) = chats (with_ana 2)
   \<and> one_chat_per_pair quiet \<and> one_chat_per_pair (with_ana 3)"
proof -
  have h2: "findOrCreateChat ''t1'' ''whatsapp'' (Some ''Ana'') quiet = (Some ana_chat, with_ana 2)"
    by (simp add: store_defs quiet_def ana_chat_def with_ana_def)
  have h3: "findOrCreateChat ''t1'' ''whatsapp'' None (with_ana 2) = (Some ana_chat, with_ana 3)"
    by (simp add: store_defs quiet_def ana_chat_def with_ana_def)
  have h4: "one_chat_per_pair quiet"
    by (simp add: one_chat_per_pair_def quiet_def)
  show ?thesis
    using findOrCreateChat_idempotent [OF h2 h3] h2 h3 h4 by simp
qed

section \<open>What leaves the stored messages alone\<close>

text \<open>
  Only \<open>saveMessage\<close> writes the message collection. The lookups, the chat writes, the
  logins and every call of the responder leave it as it is, and they leave the behaviour of
  the assistant's runs as it is. The requests to the store also leave the reachability of
  links, the assistant's fault script and the messages of the thread as they are, and the
  calls of the assistant leave the messages of the thread as they are.
\<close>

lemma take_fault_frame:
  "take_fault w = (f, w1) \<Longrightarrow> messages w1 = messages w \<and> run_status_at w1 = run_status_at w \<and> fetch w1 = fetch w
     \<and> openai_faults w1 = openai_faults w \<and> thread_list w1 = thread_list w"
  by (auto simp: take_fault_def Let_def split: list.splits)

lemma handleAuthError_frame:
  "handleAuthError err w = (b, w1) \<Longrightarrow> messages w1 = messages w \<and> run_status_at w1 = run_status_at w \<and> fetch w1 = fetch w
     \<and> openai_faults w1 = openai_faults w \<and> thread_list w1 = thread_list w"
  by (auto simp: handleAuthError_def authenticate_def authWithPassword_def Let_def
      split: if_splits list.splits option.splits)

lemma retry_frame:
  "(if status err = Some 403 then handleAuthError err w1 else (False, w1)) = (b, w2)
   \<Longrightarrow> messages w2 = messages w1 \<and> run_status_at w2 = run_status_at w1 \<and> fetch w2 = fetch w1
     \<and> openai_faults w2 = openai_faults w1 \<and> thread_list w2 = thread_list w1"
  by (auto split: if_splits dest: handleAuthError_frame)

lemma saveChat_request_frame:
  "saveChat_request chat w = (r, w1) \<Longrightarrow> messages w1 = messages w \<and> run_status_at w1 = run_status_at w \<and> fetch w1 = fetch w
     \<and> openai_faults w1 = openai_faults w \<and> thread_list w1 = thread_list w"
  by (auto simp: saveChat_request_def chats_create_def chats_update_by_id_def Let_def
      split: option.splits if_splits prod.splits dest: take_fault_frame)

lemma saveChat_frame:
  "saveChat chat w = (r, w1) \<Longrightarrow> messages w1 = messages w \<and> run_status_at w1 = run_status_at w \<and> fetch w1 = fetch w
     \<and> openai_faults w1 = openai_faults w \<and> thread_list w1 = thread_list w"
proof (induction chat w rule: saveChat.induct)
  case (1 chat w)
  obtain r0 w0 where rq: "saveChat_request chat w = (r0, w0)"
    by (cases "saveChat_request chat w")
  note f0 = saveChat_request_frame [OF rq]
  show ?case
  proof (cases r0)
    case (Inr result)
    then show ?thesis
      using "1.prems" rq f0 by (subst (asm) saveChat.simps) auto
  next
    case (Inl err)
    obtain b w2 where d: "(if status err = Some 403 then handleAuthError err w0 else (False, w0)) = (b, w2)"
      by (cases "if status err = Some 403 then handleAuthError err w0 else (False, w0)")
    note f2 = retry_frame [OF d]
    show ?thesis
    proof (cases b)
      case True
      then have "saveChat chat w2 = (r, w1)"
        using "1.prems" rq Inl d by (subst (asm) saveChat.simps) simp
      then show ?thesis
        using "1.IH" [OF rq [symmetric, unfolded Inl] refl d [symmetric] True] f0 f2 by simp
    next
      case False
      then show ?thesis
        using "1.prems" rq Inl d f0 f2 by (subst (asm) saveChat.simps) auto
    qed
  qed
qed

lemma chats_getFirstListItem_frame:
  "chats_getFirstListItem pid w = (r, w1) \<Longrightarrow> messages w1 = messages w \<and> run_status_at w1 = run_status_at w \<and> fetch w1 = fetch w"
  by (auto simp: chats_getFirstListItem_def split: option.splits prod.splits
      dest: take_fault_frame)

lemma findOrCreateChat_frame:
  "findOrCreateChat pid source name w = (r, w1) \<Longrightarrow> messages w1 = messages w \<and> run_status_at w1 = run_status_at w \<and> fetch w1 = fetch w"
proof (induction pid source name w rule: findOrCreateChat.induct)
  case (1 pid source name w)
  obtain r0 w0 where lk: "chats_getFirstListItem pid w = (r0, w0)"
    by (cases "chats_getFirstListItem pid w")
  note f0 = chats_getFirstListItem_frame [OF lk]
  show ?case
  proof (cases r0)
    case (Inr found)
    then show ?thesis
      using "1.prems" lk f0 by (subst (asm) findOrCreateChat.simps) auto
  next
    case (Inl err)
    obtain b w2 where d: "(if status err = Some 403 then handleAuthError err w0 else (False, w0)) = (b, w2)"
      by (cases "if status err = Some 403 then handleAuthError err w0 else (False, w0)")
    note f2 = retry_frame [OF d]
    show ?thesis
    proof (cases b)
      case True
      then have "findOrCreateChat pid source name w2 = (r, w1)"
        using "1.prems" lk Inl d by (subst (asm) findOrCreateChat.simps) simp
      then show ?thesis
        using "1.IH" [OF lk [symmetric, unfolded Inl] refl d [symmetric] True] f0 f2 by simp
    next
      case False
      then show ?thesis
        using "1.prems" lk Inl d f0 f2
        by (subst (asm) findOrCreateChat.simps)
          (auto split: if_splits prod.splits sum.splits dest: saveChat_frame)
    qed
  qed
qed

lemma chats_getOne_frame:
  "chats_getOne cid w = (r, w1) \<Longrightarrow> messages w1 = messages w \<and> run_status_at w1 = run_status_at w \<and> fetch w1 = fetch w
     \<and> openai_faults w1 = openai_faults w \<and> thread_list w1 = thread_list w"
  by (auto simp: chats_getOne_def split: option.splits prod.splits dest: take_fault_frame)

lemma getChatById_frame:
  "getChatById cid w = (r, w1) \<Longrightarrow> messages w1 = messages w \<and> run_status_at w1 = run_status_at w \<and> fetch w1 = fetch w
     \<and> openai_faults w1 = openai_faults w \<and> thread_list w1 = thread_list w"
proof (induction cid w rule: getChatById.induct)
  case (1 cid w)
  obtain r0 w0 where lk: "chats_getOne cid w = (r0, w0)"
    by (cases "chats_getOne cid w")
  note f0 = chats_getOne_frame [OF lk]
  show ?case
  proof (cases r0)
    case (Inr found)
    then show ?thesis
      using "1.prems" lk f0 by (subst (asm) getChatById.simps) auto
  next
    case (Inl err)
    obtain b w2 where d: "(if status err = Some 403 then handleAuthError err w0 else (False, w0)) = (b, w2)"
      by (cases "if status err = Some 403 then handleAuthError err w0 else (False, w0)")
    note f2 = retry_frame [OF d]
    show ?thesis
    proof (cases b)
      case True
      then have "getChatById cid w2 = (r, w1)"
        using "1.prems" lk Inl d by (subst (asm) getChatById.simps) simp
      then show ?thesis
        using "1.IH" [OF lk [symmetric, unfolded Inl] refl d [symmetric] True] f0 f2 by simp
    next
      case False
      then show ?thesis
        using "1.prems" lk Inl d f0 f2 by (subst (asm) getChatById.simps) auto
    qed
  qed
qed

lemma getMediaRecord_frame:
  "getMediaRecord mid w = (r, w1) \<Longrightarrow> messages w1 = messages w \<and> run_status_at w1 = run_status_at w \<and> fetch w1 = fetch w
     \<and> openai_faults w1 = openai_faults w \<and> thread_list w1 = thread_list w"
  by (auto simp: getMediaRecord_def media_getOne_def split: option.splits prod.splits sum.splits
      dest: take_fault_frame)

lemma openai_fault_frame:
  "openai_fault w = (f, w1) \<Longrightarrow> messages w1 = messages w \<and> run_status_at w1 = run_status_at w
     \<and> thread_list w1 = thread_list w"
  by (auto simp: openai_fault_def split: list.splits)

lemma openai_calls_frame:
  "threads_create w = (r1, w1) \<Longrightarrow> messages w1 = messages w \<and> run_status_at w1 = run_status_at w \<and> thread_list w1 = thread_list w"
  "threads_messages_create t c w = (r2, w2) \<Longrightarrow> messages w2 = messages w \<and> run_status_at w2 = run_status_at w \<and> thread_list w2 = thread_list w"
  "runs_create t w = (r3, w3) \<Longrightarrow> messages w3 = messages w \<and> run_status_at w3 = run_status_at w \<and> thread_list w3 = thread_list w"
  "runs_retrieve w = (r4, w4) \<Longrightarrow> messages w4 = messages w \<and> run_status_at w4 = run_status_at w \<and> thread_list w4 = thread_list w"
  "threads_messages_list w = (r5, w5) \<Longrightarrow> messages w5 = messages w \<and> run_status_at w5 = run_status_at w \<and> thread_list w5 = thread_list w"
  "chat_completions_create w = (r6, w6) \<Longrightarrow> messages w6 = messages w \<and> run_status_at w6 = run_status_at w \<and> thread_list w6 = thread_list w"
  by (auto simp: threads_create_def threads_messages_create_def runs_create_def
      runs_retrieve_def threads_messages_list_def chat_completions_create_def
      split: prod.splits option.splits dest: openai_fault_frame)

lemma poll_run_frame:
  "poll_run rid startTime runStatus w = (r, w1) \<Longrightarrow> messages w1 = messages w \<and> run_status_at w1 = run_status_at w
     \<and> thread_list w1 = thread_list w"
proof (induction rid startTime runStatus w rule: poll_run.induct)
  case (1 rid startTime runStatus w)
  show ?case
  proof (cases "runStatus = ''completed'' \<or> runStatus = ''failed'' \<or> runStatus = ''cancelled''
      \<or> runStatus = ''expired'' \<or> clock w - startTime > 30000")
    case True
    then show ?thesis
      using "1.prems" by (subst (asm) poll_run.simps) (auto split: if_splits)
  next
    case False
    obtain r0 w0 where rt: "runs_retrieve (sleep 1000 w) = (r0, w0)"
      by (cases "runs_retrieve (sleep 1000 w)")
    have f0: "messages w0 = messages w \<and> run_status_at w0 = run_status_at w
        \<and> thread_list w0 = thread_list w"
      using openai_calls_frame(4) [OF rt] by (simp add: sleep_def)
    show ?thesis
    proof (cases r0)
      case (Inl e)
      then show ?thesis
        using "1.prems" False rt f0 by (subst (asm) poll_run.simps) auto
    next
      case (Inr nxt)
      then have "poll_run rid startTime nxt w0 = (r, w1)"
        using "1.prems" False rt by (subst (asm) poll_run.simps) simp
      then show ?thesis
        using "1.IH" [OF _ _ _ rt [symmetric, unfolded Inr] refl] False f0 by simp
    qed
  qed
qed

lemma create_thread_frame:
  "create_thread message w = (r, w1) \<Longrightarrow> messages w1 = messages w \<and> run_status_at w1 = run_status_at w
     \<and> thread_list w1 = thread_list w"
  by (auto simp: create_thread_def split: prod.splits sum.splits option.splits if_splits
      dest!: openai_calls_frame(1) getChatById_frame saveChat_frame)

lemma handleTextMessage_frame:
  assumes "handleTextMessage message thread w = (r, w6)"
  shows "messages w6 = messages w \<and> run_status_at w6 = run_status_at w"
proof (cases "truthy (OPENAI_ASSISTANT_ID w)")
  case False
  then show ?thesis using assms by (simp add: handleTextMessage_def)
next
  case True
  obtain r1 w1 where s1: "(case thread of
                None \<Rightarrow> create_thread message w
              | Some t \<Rightarrow> if t = [] then create_thread message w else (Inr t, w)) = (r1, w1)"
    by (cases "(case thread of
                None \<Rightarrow> create_thread message w
              | Some t \<Rightarrow> if t = [] then create_thread message w else (Inr t, w))")
  have f1: "messages w1 = messages w \<and> run_status_at w1 = run_status_at w"
    using s1 by (auto split: option.splits if_splits dest: create_thread_frame)
  show ?thesis
    using assms True f1
    by (auto simp: handleTextMessage_def s1 split: prod.splits sum.splits list.splits if_splits
        dest!: openai_calls_frame poll_run_frame)
qed

lemma handleImageMessage_frame:
  "handleImageMessage message w = (r, w1) \<Longrightarrow> messages w1 = messages w \<and> run_status_at w1 = run_status_at w"
  by (auto simp: handleImageMessage_def handleImageMessage_try_def getFileToken_def Let_def
      split: prod.splits sum.splits option.splits list.splits if_splits FetchResult.splits
      dest!: getMediaRecord_frame openai_calls_frame(6) handleTextMessage_frame)

lemma handleAudioMessage_frame:
  "handleAudioMessage message w = (r, w1) \<Longrightarrow> messages w1 = messages w \<and> run_status_at w1 = run_status_at w"
  by (auto simp: handleAudioMessage_def handleAudioMessage_try_def getFileToken_def Let_def
      split: prod.splits sum.splits option.splits list.splits if_splits FetchResult.splits
        Transcription.splits
      dest!: getMediaRecord_frame handleTextMessage_frame)

lemma getAIResponse_frame:
  "getAIResponse message thread w = (r, w1) \<Longrightarrow> messages w1 = messages w \<and> run_status_at w1 = run_status_at w"
  by (auto simp: getAIResponse_def split: prod.splits sum.splits if_splits
      dest!: handleTextMessage_frame handleImageMessage_frame handleAudioMessage_frame)

lemma sendBrevoMessage_frame:
  "sendBrevoMessage v t w = (r, w1) \<Longrightarrow> messages w1 = messages w \<and> run_status_at w1 = run_status_at w"
  by (auto simp: sendBrevoMessage_def conversationsMessagesPost_def
      split: prod.splits sum.splits list.splits option.splits)

section \<open>Media download failure\<close>

text \<open>A link that cannot be fetched: the fetch throws, or the response is not OK.\<close>

definition unreachable :: "world \<Rightarrow> string \<Rightarrow> bool" where
  "unreachable w url = (case fetch w url of FetchThrows \<Rightarrow> True | Response ok body ct \<Rightarrow> \<not> ok)"

text \<open>The store lets the next request through.\<close>

definition accepts_next :: "world \<Rightarrow> bool" where
  "accepts_next w = (case pb_faults w of Some e # fs \<Rightarrow> False | _ \<Rightarrow> True)"

lemma brevo_download_unreachable:
  "unreachable w url \<Longrightarrow> brevo_download (Some url) filename contentType plat w = (None, w)"
  by (auto simp: brevo_download_def unreachable_def or_else_def truthy_def
      split: FetchResult.splits)

lemma saveMessage_accepted:
  assumes "accepts_next w"
  obtains i w1 where "saveMessage m w = (Inr (m\<lparr>msg_id := Some i\<rparr>), w1)"
    and "messages w1 = messages w @ [m\<lparr>msg_id := Some i\<rparr>]"
  using assms
  by (auto simp: saveMessage_def messages_create_def take_fault_def accepts_next_def Let_def
      split: list.splits option.splits)

lemma processBrevoMessage_download_failed:
  assumes att: "bm_file msg = Some f" "link f = Some url" "unreachable w url"
    and chat: "findOrCreateChat (threadId vis) plat (displayedName vis) w = (Some chat, w1)"
      "truthy (chat_id chat)"
    and store: "accepts_next w1"
  shows "\<exists>saved. messages (processBrevoMessage vis msg plat incoming w) = messages w @ [saved]
      \<and> mediaFileId saved = None
      \<and> content saved = or_else (bm_text msg) []
      \<and> msg_type saved = (if isImage f then ''image'' else ''audio'')
      \<and> platformMessageId saved = Some (bm_id msg)
      \<and> isIncoming saved = incoming"
proof -
  note fr = findOrCreateChat_frame [OF chat(1)]
  have un: "unreachable w1 url"
    using att(3) fr by (simp add: unreachable_def)
  note dl = brevo_download_unreachable [OF un]
  let ?m = "\<lparr>msg_id = None,
      platformMessageId = Some (bm_id msg),
      msg_source = plat,
      chatId = chat_id chat,
      msg_type = (if isImage f then ''image'' else ''audio''),
      content = or_else (bm_text msg) [],
      mediaFileId = None,
      isIncoming = incoming,
      timestamp = createdAt msg,
      senderId = (if incoming then visitor_id vis
                  else or_else (agentId msg) (or_else (OPENAI_ASSISTANT_ID w1) [])),
      senderName = (if incoming then displayedName vis
                    else Some (or_else (agentName msg) ''OpenAI Assistant'')),
      responseMode = (if incoming then ''manual'' else ''auto'')\<rparr>"
  obtain i w3 where sv: "saveMessage ?m w1 = (Inr (?m\<lparr>msg_id := Some i\<rparr>), w3)"
    and ms: "messages w3 = messages w1 @ [?m\<lparr>msg_id := Some i\<rparr>]"
    using saveMessage_accepted [OF store] by blast
  have "messages (processBrevoMessage vis msg plat incoming w) = messages w3"
    using chat att dl sv
    by (auto simp: processBrevoMessage_def processBrevoMessage_try_def Let_def truthy_def
        split: prod.splits dest!: getAIResponse_frame sendBrevoMessage_frame)
  then show ?thesis
    using ms fr by simp
qed

lemma tg_download_unreachable:
  assumes "unreachable w (tg_file_url (''files/'' @ fid))"
  shows "\<exists>e w1. tg_download fid filename contentType w = (Inl e, w1) \<and> messages w1 = messages w"
proof (cases "tg_faults w")
  case Nil
  then show ?thesis
    using assms
    by (simp add: tg_download_def api_getFile_def tg_fault_def unreachable_def
        split: FetchResult.splits)
next
  case (Cons x xs)
  then show ?thesis
    using assms
    by (cases x)
      (simp_all add: tg_download_def api_getFile_def tg_fault_def unreachable_def
        split: FetchResult.splits)
qed

lemma handleTgPhotoMessage_download_failed:
  assumes "ctx_message ctx = Some tm" "photo tm = Some photoArray"
    and "unreachable w (tg_file_url (''files/'' @ file_id (last photoArray)))"
  shows "messages (handleTgPhotoMessage ctx w) = messages w"
proof -
  obtain e w1 where
    "tg_download (file_id (last photoArray))
       (''tg_photo_'' @ file_unique_id (last photoArray) @ ''.jpg'') ''image/jpeg'' w = (Inl e, w1)"
    and "messages w1 = messages w"
    using tg_download_unreachable [OF assms(3)] by blast
  then show ?thesis
    using assms(1,2) by (simp add: handleTgPhotoMessage_def handleTgPhotoMessage_try_def Let_def)
qed

lemma handleTgVoiceMessage_download_failed:
  assumes "ctx_message ctx = Some tm" "voice tm = Some v"
    and "unreachable w (tg_file_url (''files/'' @ file_id v))"
  shows "messages (handleTgVoiceMessage ctx w) = messages w"
proof -
  obtain e w1 where
    "tg_download (file_id v) (''tg_voice_'' @ file_unique_id v @ ''.ogg'') ''audio/ogg'' w
       = (Inl e, w1)"
    and "messages w1 = messages w"
    using tg_download_unreachable [OF assms(3)] by blast
  then show ?thesis
    using assms(1,2) by (simp add: handleTgVoiceMessage_def handleTgVoiceMessage_try_def)
qed

text \<open>
  C3 (as the code has it). On the aggregator adapter, an attachment whose link cannot be
  fetched does not stop the message from being stored: whenever the chat is resolved and
  the store lets the save through, exactly one message is added, with no media reference,
  the media kind as its type and the text kept. On the bot adapter a photo or a voice
  message whose file cannot be fetched stores no message.
\<close>

theorem media_download_failure:
  assumes "unreachable w url"
  shows "(bm_file msg = Some f \<and> link f = Some url
       \<and> findOrCreateChat (threadId vis) plat (displayedName vis) w = (Some chat, w1)
       \<and> truthy (chat_id chat) \<and> accepts_next w1
      \<longrightarrow> (\<exists>saved. messages (processBrevoMessage vis msg plat incoming w) = messages w @ [saved]
            \<and> mediaFileId saved = None
            \<and> content saved = or_else (bm_text msg) []
            \<and> msg_type saved = (if isImage f then ''image'' else ''audio'')
            \<and> platformMessageId saved = Some (bm_id msg)
            \<and> isIncoming saved = incoming))
    \<and> (ctx_message ctx = Some tm \<and> photo tm = Some photoArray
       \<and> url = tg_file_url (''files/'' @ file_id (last photoArray))
      \<longrightarrow> messages (handleTgPhotoMessage ctx w) = messages w)
    \<and> (ctx_message ctx = Some tm \<and> voice tm = Some v
       \<and> url = tg_file_url (''files/'' @ file_id v)
      \<longrightarrow> messages (handleTgVoiceMessage ctx w) = messages w)"
proof (intro conjI impI)
  assume h: "bm_file msg = Some f \<and> link f = Some url
       \<and> findOrCreateChat (threadId vis) plat (displayedName vis) w = (Some chat, w1)
       \<and> truthy (chat_id chat) \<and> accepts_next w1"
  then have h1: "bm_file msg = Some f" and h2: "link f = Some url"
    and h3: "findOrCreateChat (threadId vis) plat (displayedName vis) w = (Some chat, w1)"
    and h4: "truthy (chat_id chat)" and h5: "accepts_next w1"
    by simp_all
  show "\<exists>saved. messages (processBrevoMessage vis msg plat incoming w) = messages w @ [saved]
            \<and> mediaFileId saved = None
            \<and> content saved = or_else (bm_text msg) []
            \<and> msg_type saved = (if isImage f then ''image'' else ''audio'')
            \<and> platformMessageId saved = Some (bm_id msg)
            \<and> isIncoming saved = incoming"
    by (rule processBrevoMessage_download_failed [OF h1 h2 assms h3 h4 h5])
next
  assume h: "ctx_message ctx = Some tm \<and> photo tm = Some photoArray
       \<and> url = tg_file_url (''files/'' @ file_id (last photoArray))"
  then have h1: "ctx_message ctx = Some tm" and h2: "photo tm = Some photoArray"
    and h3: "unreachable w (tg_file_url (''files/'' @ file_id (last photoArray)))"
    using assms by simp_all
  show "messages (handleTgPhotoMessage ctx w) = messages w"
    by (rule handleTgPhotoMessage_download_failed [OF h1 h2 h3])
next
  assume h: "ctx_message ctx = Some tm \<and> voice tm = Some v
       \<and> url = tg_file_url (''files/'' @ file_id v)"
  then have h1: "ctx_message ctx = Some tm" and h2: "voice tm = Some v"
    and h3: "unreachable w (tg_file_url (''files/'' @ file_id v))"
    using assms by simp_all
  show "messages (handleTgVoiceMessage ctx w) = messages w"
    by (rule handleTgVoiceMessage_download_failed [OF h1 h2 h3])
qed

text \<open>An image delivery of the aggregator, and a photo update of the bot.\<close>

definition image_message :: BrevoMessage where
  "image_message =
     \<lparr>bm_id = ''m2'', bm_type = ''visitor'', bm_text = Some ''look'',
      bm_file = Some \<lparr>isImage = True, link = Some ''https://files.example/1.jpg''\<rparr>,
      createdAt = 1700000000000, agentId = None, agentName = None\<rparr>"

definition ana :: Visitor where
  "ana = \<lparr>visitor_id = ''v1'', threadId = ''t1'', visitor_source = ''whatsapp'',
      displayedName = Some ''Ana''\<rparr>"

definition photo_update :: Context where
  "photo_update =
     \<lparr>ctx_message = Some \<lparr>message_id = 7, date = 1700000000, tg_text = None,
                          caption = Some ''look'',
                          photo = Some [\<lparr>file_id = ''f1'', file_unique_id = ''u1''\<rparr>],
                          voice = Some \<lparr>file_id = ''f1'', file_unique_id = ''u1''\<rparr>\<rparr>,
      ctx_chat_id = Some 42, ctx_from_id = Some 5, ctx_from_first_name = Some ''Ana''\<rparr>"

lemma unreachable_quiet: "unreachable quiet url"
  by (simp add: unreachable_def quiet_def)

lemma findOrCreateChat_quiet:
  "findOrCreateChat ''t1'' ''whatsapp'' (Some ''Ana'') quiet = (Some ana_chat, with_ana 2)"
  by (simp add: store_defs quiet_def ana_chat_def with_ana_def)

theorem media_download_failure_witness:
  "unreachable quiet ''https://files.example/1.jpg''
   \<and> unreachable quiet (tg_file_url (''files/'' @ ''f1''))
   \<and> bm_file image_message = Some \<lparr>isImage = True, link = Some ''https://files.example/1.jpg''\<rparr>
   \<and> findOrCreateChat (threadId ana) ''whatsapp'' (displayedName ana) quiet
       = (Some ana_chat, with_ana 2)
   \<and> truthy (chat_id ana_chat) \<and> accepts_next (with_ana 2)
   \<and> (\<exists>saved. messages (processBrevoMessage ana image_message ''whatsapp'' True quiet)
          = messages quiet @ [saved]
        \<and> mediaFileId saved = None \<and> content saved = ''look'' \<and> msg_type saved = ''image''
        \<and> platformMessageId saved = Some ''m2'' \<and> isIncoming saved = True)
   \<and> messages (handleTgPhotoMessage photo_update quiet) = messages quiet
   \<and> messages (handleTgVoiceMessage photo_update quiet) = messages quiet"
proof -
  have h1: "bm_file image_message
      = Some \<lparr>isImage = True, link = Some ''https://files.example/1.jpg''\<rparr>"
    by (simp add: image_message_def)
  have h2: "findOrCreateChat (threadId ana) ''whatsapp'' (displayedName ana) quiet
       = (Some ana_chat, with_ana 2)"
    using findOrCreateChat_quiet by (simp add: ana_def)
  have h3: "truthy (chat_id ana_chat)"
    by (simp add: truthy_def ana_chat_def)
  have h4: "accepts_next (with_ana 2)"
    by (simp add: accepts_next_def with_ana_def quiet_def)
  have h5: "ctx_message photo_update = Some (the (ctx_message photo_update))"
    "photo (the (ctx_message photo_update)) = Some [\<lparr>file_id = ''f1'', file_unique_id = ''u1''\<rparr>]"
    "voice (the (ctx_message photo_update)) = Some \<lparr>file_id = ''f1'', file_unique_id = ''u1''\<rparr>"
    by (simp_all add: photo_update_def)
  note a = media_download_failure [OF unreachable_quiet,
      where msg = image_message
        and f = "\<lparr>isImage = True, link = Some ''https://files.example/1.jpg''\<rparr>"
        and url = "''https://files.example/1.jpg''" and vis = ana and plat = "''whatsapp''"
        and chat = ana_chat and ?w1.0 = "with_ana 2" and incoming = True]
  note b = media_download_failure [OF unreachable_quiet,
      where url = "tg_file_url (''files/'' @ ''f1'')" and ctx = photo_update
        and tm = "the (ctx_message photo_update)"
        and photoArray = "[\<lparr>file_id = ''f1'', file_unique_id = ''u1''\<rparr>]"
        and v = "\<lparr>file_id = ''f1'', file_unique_id = ''u1''\<rparr>"]
  have c1: "\<exists>saved. messages (processBrevoMessage ana image_message ''whatsapp'' True quiet)
          = messages quiet @ [saved]
        \<and> mediaFileId saved = None \<and> content saved = ''look'' \<and> msg_type saved = ''image''
        \<and> platformMessageId saved = Some ''m2'' \<and> isIncoming saved = True"
    using a h1 h2 h3 h4 by (simp add: image_message_def or_else_def)
  have c2: "messages (handleTgPhotoMessage photo_update quiet) = messages quiet"
    "messages (handleTgVoiceMessage photo_update quiet) = messages quiet"
    using b h5 by simp_all
  show ?thesis
    by (intro conjI unreachable_quiet h1 h2 h3 h4 c1 c2)
qed

text \<open>
  C3 as stated fails on the bot adapter: the photo update above arrives while the file
  link cannot be fetched, the handler throws before it builds the message, and nothing is
  stored. (The chat is not even looked up: the store sees no request.)
\<close>

theorem telegram_photo_is_lost_when_download_fails:
  "messages (handleTgPhotoMessage photo_update quiet) = []
   \<and> pb_requests (handleTgPhotoMessage photo_update quiet) = 0
   \<and> messages (handleTgVoiceMessage photo_update quiet) = []"
  by (simp add: handleTgPhotoMessage_def handleTgPhotoMessage_try_def handleTgVoiceMessage_def
      handleTgVoiceMessage_try_def tg_download_def api_getFile_def tg_fault_def
      photo_update_def quiet_def Let_def)

section \<open>Deliveries with several messages\<close>

text \<open>
  A store that lets every request through and whose chats all have an identifier.
\<close>

definition healthy :: "world \<Rightarrow> bool" where
  "healthy w = (pb_faults w = [] \<and> list_all (\<lambda>c. truthy (chat_id c)) (chats w))"

lemma truthy_fresh_id: "truthy (Some (fresh_id w))"
  by (simp add: truthy_def fresh_id_def)

lemma findOrCreateChat_healthy:
  assumes "healthy w"
  shows "\<exists>chat w1. findOrCreateChat pid source name w = (Some chat, w1)
    \<and> truthy (chat_id chat) \<and> pb_faults w1 = []"
proof (cases "find (\<lambda>c. platformChatId c = Some pid) (chats w)")
  case None
  then show ?thesis
    using assms
    by (simp add: healthy_def findOrCreateChat.simps saveChat.simps saveChat_request_def
        chats_getFirstListItem_def chats_create_def take_fault_def Let_def truthy_fresh_id)
next
  case (Some c)
  then have "c \<in> set (chats w)"
    by (auto simp: find_Some_iff)
  then have "truthy (chat_id c)"
    using assms by (simp add: healthy_def list_all_iff)
  then show ?thesis
    using assms Some
    by (simp add: healthy_def findOrCreateChat.simps chats_getFirstListItem_def take_fault_def
        Let_def)
qed

lemma brevo_download_frame:
  assumes "brevo_download lnk filename contentType plat w = (mid, w1)"
  shows "messages w1 = messages w \<and> (pb_faults w = [] \<longrightarrow> pb_faults w1 = [])"
  using assms
  by (auto simp: brevo_download_def saveMediaFile_def media_create_def take_fault_def Let_def
      split: if_splits FetchResult.splits prod.splits sum.splits list.splits option.splits)

lemma processBrevoMessage_stores:
  assumes "healthy w"
  shows "\<exists>saved. messages (processBrevoMessage vis msg plat incoming w) = messages w @ [saved]
      \<and> platformMessageId saved = Some (bm_id msg)
      \<and> content saved = or_else (bm_text msg) []
      \<and> msg_source saved = plat
      \<and> isIncoming saved = incoming"
proof -
  obtain chat w1 where fc: "findOrCreateChat (threadId vis) plat (displayedName vis) w = (Some chat, w1)"
    and id: "truthy (chat_id chat)" and pf: "pb_faults w1 = []"
    using findOrCreateChat_healthy [OF assms] by blast
  note fr = findOrCreateChat_frame [OF fc]
  let ?dl = "(case bm_file msg of
              None \<Rightarrow> (''text'', None, w1)
            | Some f \<Rightarrow>
                if isImage f then
                  (case brevo_download (link f) (''brevo_'' @ plat @ ''_'' @ bm_id msg @ ''.jpg'')
                          ''image/jpeg'' plat w1 of
                     (mid, w2) \<Rightarrow> (''image'', mid, w2))
                else
                  (case brevo_download (link f) (''brevo_'' @ plat @ ''_'' @ bm_id msg @ ''.mp4'')
                          ''audio/mp4'' plat w1 of
                     (mid, w2) \<Rightarrow> (''audio'', mid, w2)))"
  obtain msgType mediaId w2 where dl: "?dl = (msgType, mediaId, w2)"
    by (rule prod_cases3)
  have w2: "messages w2 = messages w1 \<and> pb_faults w2 = []"
    using dl pf
    by (auto split: option.splits if_splits prod.splits dest: brevo_download_frame)
  let ?m = "\<lparr>msg_id = None,
      platformMessageId = Some (bm_id msg),
      msg_source = plat,
      chatId = chat_id chat,
      msg_type = msgType,
      content = or_else (bm_text msg) [],
      mediaFileId = (if truthy mediaId then mediaId else None),
      isIncoming = incoming,
      timestamp = createdAt msg,
      senderId = (if incoming then visitor_id vis
                  else or_else (agentId msg) (or_else (OPENAI_ASSISTANT_ID w2) [])),
      senderName = (if incoming then displayedName vis
                    else Some (or_else (agentName msg) ''OpenAI Assistant'')),
      responseMode = (if incoming then ''manual'' else ''auto'')\<rparr>"
  have "accepts_next w2"
    using w2 by (simp add: accepts_next_def)
  then obtain i w3 where sv: "saveMessage ?m w2 = (Inr (?m\<lparr>msg_id := Some i\<rparr>), w3)"
    and ms: "messages w3 = messages w2 @ [?m\<lparr>msg_id := Some i\<rparr>]"
    using saveMessage_accepted by blast
  have "processBrevoMessage_try vis msg plat incoming w =
      (if \<not> incoming then (Inr (), w3)
       else if autoMode chat \<and> incoming then
         (case getAIResponse ?m (openAIThreadId chat) w3 of
            (res, w4) \<Rightarrow>
              (case sendBrevoMessage (visitor_id vis) res w4 of
                 (sent, w5) \<Rightarrow> (Inr (), w5)))
       else (Inr (), w3))"
    unfolding processBrevoMessage_try_def
    by (simp add: fc id dl sv Let_def)
  then have "messages (processBrevoMessage vis msg plat incoming w) = messages w3"
    by (auto simp: processBrevoMessage_def
        split: prod.splits dest!: getAIResponse_frame sendBrevoMessage_frame)
  then show ?thesis
    using ms w2 fr by simp
qed


lemma process_visitor_messages:
  "process_visitor (body\<lparr>wb_messages := ms\<rparr>) msg w = process_visitor body msg w"
  by (simp add: process_visitor_def)

lemma webhook_dispatch_tail:
  "webhook_dispatch (body\<lparr>wb_messages := Some (m # rest)\<rparr>) w
   = webhook_dispatch (body\<lparr>wb_messages := Some [m]\<rparr>) w"
  by (cases "wb_message body")
    (simp_all add: webhook_dispatch_def processAgentMessage_def process_visitor_messages
      cong: prod.case_cong sum.case_cong option.case_cong if_cong)

lemma first_message_tail:
  "first_message (body\<lparr>wb_messages := Some (m # rest)\<rparr>)
   = first_message (body\<lparr>wb_messages := Some [m]\<rparr>)"
  by (cases "wb_message body") (simp_all add: first_message_def)

lemma webhook_dispatch_reply:
  "fst (webhook_dispatch body w) \<noteq> Inr ''Duplicate message skipped''"
  by (simp add: webhook_dispatch_def split: prod.splits sum.splits)

text \<open>The agent filter of \<open>processAgentMessage\<close>: \<open>msg.agentId && msg.agentId.includes('Dummy')\<close>.\<close>

definition dummy_agent :: "BrevoMessage \<Rightarrow> bool" where
  "dummy_agent msg = (case agentId msg of None \<Rightarrow> False | Some a \<Rightarrow> a \<noteq> [] \<and> str_includes a ''Dummy'')"

lemma brevohook_duplicate:
  assumes "wb_message body = None" "wb_messages body = Some (m # rest)"
    "Map_has (bm_id m) (processedMessages s)"
  shows "brevohook now body s = (Inr ''Duplicate message skipped'', s)"
  using assms by (simp add: brevohook_def first_message_def)

lemma brevohook_visitor_fragment:
  assumes "wb_message body = None" "wb_messages body = Some (m # rest)"
    "\<not> Map_has (bm_id m) (processedMessages s)"
    "eventName body = ''conversationFragment''" "bm_type m = ''visitor''" "visitor body = Some vis"
  shows "brevohook now body s =
      (Inr ''Webhook received successfully'',
       s\<lparr>processedMessages := processedMessages s @ [(bm_id m, now)],
         backend := processBrevoMessage vis m (visitor_source vis) True (backend s)\<rparr>)"
  using assms
  by (simp add: brevohook_def first_message_def Map_set_def webhook_dispatch_def
      process_visitor_def)

lemma brevohook_agent:
  assumes "wb_message body = None" "wb_messages body = Some (m # rest)"
    "\<not> Map_has (bm_id m) (processedMessages s)"
    "bm_type m = ''agent''" "\<not> dummy_agent m" "visitor body = Some vis"
  shows "brevohook now body s =
      (Inr ''Webhook received successfully'',
       s\<lparr>processedMessages := processedMessages s @ [(bm_id m, now)],
         backend := processBrevoMessage vis m
            (if visitor_source vis = ''widget'' then ''instagram'' else visitor_source vis)
            False (backend s)\<rparr>)"
  using assms
  by (simp add: brevohook_def first_message_def Map_set_def webhook_dispatch_def
      process_visitor_def processAgentMessage_def dummy_agent_def)

lemma brevohook_unprocessed:
  assumes "wb_message body = None" "wb_messages body = Some (m # rest)"
    "\<not> Map_has (bm_id m) (processedMessages s)"
    "if bm_type m = ''agent'' then dummy_agent m
     else eventName body \<noteq> ''conversationFragment'' \<or> bm_type m \<noteq> ''visitor''"
  shows "brevohook now body s =
      (Inr ''Webhook received successfully'',
       s\<lparr>processedMessages := processedMessages s @ [(bm_id m, now)]\<rparr>)"
proof -
  have "webhook_dispatch body (backend s) = (Inr ''Webhook received successfully'', backend s)"
    using assms
    by (auto simp: webhook_dispatch_def process_visitor_def processAgentMessage_def
        dummy_agent_def split: if_splits)
  then show ?thesis
    using assms(1-3) by (simp add: brevohook_def first_message_def Map_set_def)
qed

lemma brevohook_single_message:
  assumes "wb_message body = Some a"
  shows "(fst (brevohook now body s) = Inr ''Duplicate message skipped'')
     = Map_has (bm_id a) (processedMessages s)"
proof -
  obtain r w1 where d: "webhook_dispatch body (backend s) = (r, w1)"
    by (cases "webhook_dispatch body (backend s)")
  have "r \<noteq> Inr ''Duplicate message skipped''"
    using webhook_dispatch_reply [of body "backend s"] d by simp
  then show ?thesis
    using assms by (simp add: brevohook_def first_message_def d)
qed

text \<open>
  C10 (as the code has it). The further elements of the \<open>messages\<close> array are never
  read: a delivery with further elements gives the same reply, the same cache and the same
  world as the delivery of its first element alone. For a body without a single
  \<open>message\<close>: the delivery is skipped as a duplicate when the first element's identifier
  is in the cache; otherwise that identifier is recorded, and the first element is handed to
  \<open>processBrevoMessage\<close> as an inbound message when it is a visitor message of a
  \<open>conversationFragment\<close> event, as an outbound message when it is an agent message not
  sent by a "Dummy" agent, and not at all in every other case. On a healthy store the
  processing stores exactly one message, with the first element's identifier and text. For
  a body that also has a single \<open>message\<close>, the duplicate test is on that message's
  identifier, not on the first element's.
\<close>

theorem only_first_element_of_messages_counts:
  "brevohook now (body\<lparr>wb_messages := Some (m # rest)\<rparr>) s
     = brevohook now (body\<lparr>wb_messages := Some [m]\<rparr>) s
   \<and> (wb_message body = None \<and> wb_messages body = Some (m # rest) \<longrightarrow>
       (Map_has (bm_id m) (processedMessages s) \<longrightarrow>
          brevohook now body s = (Inr ''Duplicate message skipped'', s))
     \<and> (\<not> Map_has (bm_id m) (processedMessages s)
          \<and> eventName body = ''conversationFragment'' \<and> bm_type m = ''visitor''
          \<and> visitor body = Some vis \<longrightarrow>
          brevohook now body s =
            (Inr ''Webhook received successfully'',
             s\<lparr>processedMessages := processedMessages s @ [(bm_id m, now)],
               backend := processBrevoMessage vis m (visitor_source vis) True (backend s)\<rparr>)
          \<and> (healthy (backend s) \<longrightarrow>
              (\<exists>saved. messages (backend (snd (brevohook now body s)))
                   = messages (backend s) @ [saved]
                 \<and> platformMessageId saved = Some (bm_id m)
                 \<and> content saved = or_else (bm_text m) []
                 \<and> isIncoming saved)))
     \<and> (\<not> Map_has (bm_id m) (processedMessages s)
          \<and> bm_type m = ''agent'' \<and> \<not> dummy_agent m \<and> visitor body = Some vis \<longrightarrow>
          brevohook now body s =
            (Inr ''Webhook received successfully'',
             s\<lparr>processedMessages := processedMessages s @ [(bm_id m, now)],
               backend := processBrevoMessage vis m
                  (if visitor_source vis = ''widget'' then ''instagram'' else visitor_source vis)
                  False (backend s)\<rparr>)
          \<and> (healthy (backend s) \<longrightarrow>
              (\<exists>saved. messages (backend (snd (brevohook now body s)))
                   = messages (backend s) @ [saved]
                 \<and> platformMessageId saved = Some (bm_id m)
                 \<and> content saved = or_else (bm_text m) []
                 \<and> \<not> isIncoming saved)))
     \<and> (\<not> Map_has (bm_id m) (processedMessages s)
          \<and> (if bm_type m = ''agent'' then dummy_agent m
               else eventName body \<noteq> ''conversationFragment'' \<or> bm_type m \<noteq> ''visitor'') \<longrightarrow>
          brevohook now body s =
            (Inr ''Webhook received successfully'',
             s\<lparr>processedMessages := processedMessages s @ [(bm_id m, now)]\<rparr>)))
   \<and> (wb_message body = Some a \<longrightarrow>
        (fst (brevohook now body s) = Inr ''Duplicate message skipped'')
          = Map_has (bm_id a) (processedMessages s))"
proof (intro conjI impI; (elim conjE)?)
  have "first_message (body\<lparr>wb_messages := Some (m # rest)\<rparr>)
      = first_message (body\<lparr>wb_messages := Some [m]\<rparr>)"
    by (rule first_message_tail)
  moreover have "webhook_dispatch (body\<lparr>wb_messages := Some (m # rest)\<rparr>) (backend s)
      = webhook_dispatch (body\<lparr>wb_messages := Some [m]\<rparr>) (backend s)"
    by (rule webhook_dispatch_tail)
  ultimately show "brevohook now (body\<lparr>wb_messages := Some (m # rest)\<rparr>) s
     = brevohook now (body\<lparr>wb_messages := Some [m]\<rparr>) s"
    by (simp add: brevohook_def cong: option.case_cong if_cong)
next
  assume "wb_message body = None" "wb_messages body = Some (m # rest)"
    "Map_has (bm_id m) (processedMessages s)"
  then show "brevohook now body s = (Inr ''Duplicate message skipped'', s)"
    by (rule brevohook_duplicate)
next
  assume "wb_message body = None" "wb_messages body = Some (m # rest)"
    "\<not> Map_has (bm_id m) (processedMessages s)"
    "eventName body = ''conversationFragment''" "bm_type m = ''visitor''" "visitor body = Some vis"
  then show "brevohook now body s =
            (Inr ''Webhook received successfully'',
             s\<lparr>processedMessages := processedMessages s @ [(bm_id m, now)],
               backend := processBrevoMessage vis m (visitor_source vis) True (backend s)\<rparr>)"
    by (rule brevohook_visitor_fragment)
next
  assume h: "wb_message body = None" "wb_messages body = Some (m # rest)"
    "\<not> Map_has (bm_id m) (processedMessages s)"
    "eventName body = ''conversationFragment''" "bm_type m = ''visitor''" "visitor body = Some vis"
    and ok: "healthy (backend s)"
  show "\<exists>saved. messages (backend (snd (brevohook now body s))) = messages (backend s) @ [saved]
      \<and> platformMessageId saved = Some (bm_id m)
      \<and> content saved = or_else (bm_text m) []
      \<and> isIncoming saved"
    using processBrevoMessage_stores [OF ok, of vis m "visitor_source vis" True]
    by (auto simp: brevohook_visitor_fragment [OF h])
next
  assume "wb_message body = None" "wb_messages body = Some (m # rest)"
    "\<not> Map_has (bm_id m) (processedMessages s)"
    "bm_type m = ''agent''" "\<not> dummy_agent m" "visitor body = Some vis"
  then show "brevohook now body s =
            (Inr ''Webhook received successfully'',
             s\<lparr>processedMessages := processedMessages s @ [(bm_id m, now)],
               backend := processBrevoMessage vis m
                  (if visitor_source vis = ''widget'' then ''instagram'' else visitor_source vis)
                  False (backend s)\<rparr>)"
    by (rule brevohook_agent)
next
  assume h: "wb_message body = None" "wb_messages body = Some (m # rest)"
    "\<not> Map_has (bm_id m) (processedMessages s)"
    "bm_type m = ''agent''" "\<not> dummy_agent m" "visitor body = Some vis"
    and ok: "healthy (backend s)"
  show "\<exists>saved. messages (backend (snd (brevohook now body s))) = messages (backend s) @ [saved]
      \<and> platformMessageId saved = Some (bm_id m)
      \<and> content saved = or_else (bm_text m) []
      \<and> \<not> isIncoming saved"
    using processBrevoMessage_stores [OF ok, of vis m
        "if visitor_source vis = ''widget'' then ''instagram'' else visitor_source vis" False]
    by (auto simp: brevohook_agent [OF h])
next
  assume "wb_message body = None" "wb_messages body = Some (m # rest)"
    "\<not> Map_has (bm_id m) (processedMessages s)"
    "if bm_type m = ''agent'' then dummy_agent m
     else eventName body \<noteq> ''conversationFragment'' \<or> bm_type m \<noteq> ''visitor''"
  then show "brevohook now body s =
            (Inr ''Webhook received successfully'',
             s\<lparr>processedMessages := processedMessages s @ [(bm_id m, now)]\<rparr>)"
    by (rule brevohook_unprocessed)
next
  assume "wb_message body = Some a"
  then show "(fst (brevohook now body s) = Inr ''Duplicate message skipped'')
          = Map_has (bm_id a) (processedMessages s)"
    by (rule brevohook_single_message)
qed

text \<open>A fragment with two messages, delivered to a server that has seen nothing, and
  delivered again.\<close>

definition second_message :: BrevoMessage where
  "second_message = hola_message\<lparr>bm_id := ''m2'', bm_text := Some ''Que tal''\<rparr>"

definition fragment :: WebhookBody where
  "fragment =
     \<lparr>eventName = ''conversationFragment'', visitor = Some ana, wb_message = None,
      wb_messages = Some [hola_message, second_message]\<rparr>"

theorem only_first_element_witness:
  "wb_message fragment = None \<and> wb_messages fragment = Some (hola_message # [second_message])
   \<and> \<not> Map_has (bm_id hola_message) (processedMessages server0)
   \<and> eventName fragment = ''conversationFragment'' \<and> bm_type hola_message = ''visitor''
   \<and> visitor fragment = Some ana \<and> healthy (backend server0)
   \<and> brevohook 0 fragment server0 =
        (Inr ''Webhook received successfully'',
         server0\<lparr>processedMessages := [(''m1'', 0)],
           backend := processBrevoMessage ana hola_message ''whatsapp'' True quiet\<rparr>)
   \<and> map platformMessageId (messages (backend (snd (brevohook 0 fragment server0))))
        = [Some ''m1'']
   \<and> map content (messages (backend (snd (brevohook 0 fragment server0)))) = [''Hola'']
   \<and> brevohook 1 fragment (snd (brevohook 0 fragment server0))
        = (Inr ''Duplicate message skipped'', snd (brevohook 0 fragment server0))"
proof -
  have h1: "wb_message fragment = None"
    and h2: "wb_messages fragment = Some (hola_message # [second_message])"
    and h4: "eventName fragment = ''conversationFragment''"
    and h6: "visitor fragment = Some ana"
    by (simp_all add: fragment_def)
  have h3: "\<not> Map_has (bm_id hola_message) (processedMessages server0)"
    by (simp add: Map_has_def server0_def)
  have h5: "bm_type hola_message = ''visitor''"
    by (simp add: hola_message_def)
  have h7: "healthy (backend server0)"
    by (simp add: healthy_def server0_def quiet_def)
  note first = only_first_element_of_messages_counts
    [where body = fragment and m = hola_message and rest = "[second_message]"
      and s = server0 and now = 0 and vis = ana]
  have r1: "brevohook 0 fragment server0 =
        (Inr ''Webhook received successfully'',
         server0\<lparr>processedMessages := [(''m1'', 0)],
           backend := processBrevoMessage ana hola_message ''whatsapp'' True quiet\<rparr>)"
    using first h1 h2 h3 h4 h5 h6 by (simp add: server0_def hola_message_def ana_def)
  obtain saved where sv: "messages (backend (snd (brevohook 0 fragment server0)))
        = messages (backend server0) @ [saved]"
      "platformMessageId saved = Some (bm_id hola_message)"
      "content saved = or_else (bm_text hola_message) []"
    using first h1 h2 h3 h4 h5 h6 h7 by blast
  have r2: "map platformMessageId (messages (backend (snd (brevohook 0 fragment server0))))
        = [Some ''m1'']"
    "map content (messages (backend (snd (brevohook 0 fragment server0)))) = [''Hola'']"
    using sv by (simp_all add: server0_def quiet_def hola_message_def or_else_def)
  have cached: "Map_has (bm_id hola_message) (processedMessages (snd (brevohook 0 fragment server0)))"
    by (simp add: r1 Map_has_def hola_message_def)
  note again = only_first_element_of_messages_counts
    [where body = fragment and m = hola_message and rest = "[second_message]"
      and s = "snd (brevohook 0 fragment server0)" and now = 1]
  have r3: "brevohook 1 fragment (snd (brevohook 0 fragment server0))
        = (Inr ''Duplicate message skipped'', snd (brevohook 0 fragment server0))"
    using again h1 h2 cached by blast
  show ?thesis
    by (intro conjI h1 h2 h3 h4 h5 h6 h7 r1 r2 r3)
qed

text \<open>
  C10 as stated fails in two ways. The first element is not always processed: the same two
  messages delivered with another event name are acknowledged, the first identifier is
  recorded and nothing is stored, and the fragment that follows is then skipped as a
  duplicate, so the message is never stored. And the first element is not always what is
  tested against the cache: when the body also has a single \<open>message\<close>, the test is on
  that message's identifier, and the first element, although its identifier is in the cache,
  is processed and stored a second time.
\<close>

definition transcript :: WebhookBody where
  "transcript = fragment\<lparr>eventName := ''conversationTranscript''\<rparr>"

definition greeting :: BrevoMessage where
  "greeting = hola_message\<lparr>bm_id := ''m0''\<rparr>"

definition fragment_with_message :: WebhookBody where
  "fragment_with_message = fragment\<lparr>wb_message := Some greeting\<rparr>"

theorem first_element_neither_always_processed_nor_always_tested:
  "brevohook 0 transcript server0
     = (Inr ''Webhook received successfully'', server0\<lparr>processedMessages := [(''m1'', 0)]\<rparr>)
   \<and> fst (brevohook 1 fragment (run [Webhook 0 transcript] server0))
       = Inr ''Duplicate message skipped''
   \<and> messages (backend (run [Webhook 0 transcript, Webhook 1 fragment] server0)) = []
   \<and> Map_has ''m1'' (processedMessages (run [Webhook 0 fragment] server0))
   \<and> fst (brevohook 1 fragment_with_message (run [Webhook 0 fragment] server0))
       = Inr ''Webhook received successfully''
   \<and> map platformMessageId
        (messages (backend (run [Webhook 0 fragment, Webhook 1 fragment_with_message] server0)))
       = [Some ''m1'', Some ''m1'']"
  by (simp add: brevohook_def first_message_def Map_has_def Map_set_def
      webhook_dispatch_def process_visitor_def processBrevoMessage_def
      processBrevoMessage_try_def findOrCreateChat.simps saveChat.simps saveChat_request_def
      chats_getFirstListItem_def chats_create_def take_fault_def saveMessage_def
      messages_create_def fresh_id_def truthy_def or_else_def
      transcript_def fragment_with_message_def greeting_def fragment_def second_message_def
      hola_message_def ana_def server0_def quiet_def Let_def)

section \<open>The polling loop\<close>

text \<open>An assistant whose runs never reach the status "completed".\<close>

definition never_completes :: "world \<Rightarrow> bool" where
  "never_completes w = (\<forall>k. run_status_at w k \<noteq> ''completed'')"

lemma runs_retrieve_status:
  assumes "runs_retrieve w = (r, w1)"
  shows "run_status_at w1 = run_status_at w \<and> clock w \<le> clock w1 \<and> polls w1 \<le> Suc (polls w)
    \<and> (case r of Inr st \<Rightarrow> st = run_status_at w (polls w) | Inl e \<Rightarrow> polls w1 = polls w)"
  using assms
  by (auto simp: runs_retrieve_def openai_fault_def split: list.splits option.splits)

text \<open>A loop entered with a status other than "completed" ends in an exception.\<close>

lemma poll_run_never_completes:
  assumes "never_completes w" "runStatus \<noteq> ''completed''"
  shows "\<exists>e w1. poll_run rid startTime runStatus w = (Inl e, w1)"
  using assms
proof (induction rid startTime runStatus w rule: poll_run.induct)
  case (1 rid startTime runStatus w)
  show ?case
  proof (cases "runStatus = ''failed'' \<or> runStatus = ''cancelled''
      \<or> runStatus = ''expired'' \<or> clock w - startTime > 30000")
    case True
    then show ?thesis
      using "1.prems" by (subst poll_run.simps) auto
  next
    case False
    obtain r0 w0 where rt: "runs_retrieve (sleep 1000 w) = (r0, w0)"
      by (cases "runs_retrieve (sleep 1000 w)")
    note s = runs_retrieve_status [OF rt]
    show ?thesis
    proof (cases r0)
      case (Inl e)
      then show ?thesis
        using "1.prems" False rt by (subst poll_run.simps) auto
    next
      case (Inr nxt)
      have nc: "never_completes w0" "nxt \<noteq> ''completed''"
        using s Inr "1.prems"(1) by (simp_all add: never_completes_def sleep_def)
      have "\<exists>e w1. poll_run rid startTime nxt w0 = (Inl e, w1)"
        using "1.IH" [OF _ _ _ rt [symmetric, unfolded Inr] refl nc] "1.prems"(2) False by simp
      then show ?thesis
        using "1.prems" False rt Inr by (subst poll_run.simps) simp
    qed
  qed
qed

text \<open>
  The loop sends at most one status request per second of the 30 seconds it allows itself:
  at most 31 when it starts at the reading \<open>startTime\<close>.
\<close>

lemma poll_run_polls:
  "polls (snd (poll_run rid startTime runStatus w))
     \<le> polls w + nat ((startTime + 31000 - clock w) div 1000)"
proof (induction rid startTime runStatus w rule: poll_run.induct)
  case (1 rid startTime runStatus w)
  show ?case
  proof (cases "runStatus = ''completed'' \<or> runStatus = ''failed'' \<or> runStatus = ''cancelled''
      \<or> runStatus = ''expired'' \<or> clock w - startTime > 30000")
    case True
    then show ?thesis
      by (subst poll_run.simps) auto
  next
    case False
    obtain r0 w0 where rt: "runs_retrieve (sleep 1000 w) = (r0, w0)"
      by (cases "runs_retrieve (sleep 1000 w)")
    note s = runs_retrieve_status [OF rt]
    have c: "clock w + 1000 \<le> clock w0" and p: "polls w0 \<le> Suc (polls w)"
      using s by (simp_all add: sleep_def)
    have "(1000 :: int) div 1000 \<le> (startTime + 31000 - clock w) div 1000"
      using False by (intro zdiv_mono1) simp_all
    then have one: "1 \<le> (startTime + 31000 - clock w) div 1000"
      by simp
    show ?thesis
    proof (cases r0)
      case (Inl e)
      then have "polls (snd (poll_run rid startTime runStatus w)) = polls w"
        using False rt s by (subst poll_run.simps) (simp add: sleep_def)
      then show ?thesis by simp
    next
      case (Inr nxt)
      have "polls (snd (poll_run rid startTime nxt w0))
          \<le> polls w0 + nat ((startTime + 31000 - clock w0) div 1000)"
        using "1.IH" [OF _ _ _ rt [symmetric, unfolded Inr] refl] False by simp
      also have "\<dots> \<le> Suc (polls w) + nat ((startTime + 31000 - clock w) div 1000 - 1)"
      proof -
        have "(startTime + 31000 - clock w0) div 1000
            \<le> (startTime + 31000 - clock w - 1000) div 1000"
          using c by (intro zdiv_mono1) simp_all
        also have "\<dots> = (startTime + 31000 - clock w) div 1000 - 1"
          by simp
        finally show ?thesis using p by simp
      qed
      also have "\<dots> = polls w + nat ((startTime + 31000 - clock w) div 1000)"
        using one by simp
      finally have "polls (snd (poll_run rid startTime nxt w0))
          \<le> polls w + nat ((startTime + 31000 - clock w) div 1000)" .
      moreover have "poll_run rid startTime runStatus w = poll_run rid startTime nxt w0"
        using False rt Inr by (subst poll_run.simps) simp
      ultimately show ?thesis by simp
    qed
  qed
qed

lemma handleTextMessage_never_completes:
  assumes "never_completes w"
  shows "\<exists>e w6. handleTextMessage message thread w = (Inl e, w6)"
proof (cases "truthy (OPENAI_ASSISTANT_ID w)")
  case False
  then show ?thesis by (simp add: handleTextMessage_def)
next
  case True
  obtain r1 w1 where s1: "(case thread of
                None \<Rightarrow> create_thread message w
              | Some t \<Rightarrow> if t = [] then create_thread message w else (Inr t, w)) = (r1, w1)"
    by (cases "(case thread of
                None \<Rightarrow> create_thread message w
              | Some t \<Rightarrow> if t = [] then create_thread message w else (Inr t, w))")
  have f1: "run_status_at w1 = run_status_at w"
    using s1 by (auto split: option.splits if_splits dest: create_thread_frame)
  show ?thesis
  proof (cases r1)
    case (Inl e)
    then show ?thesis using True s1 by (simp add: handleTextMessage_def)
  next
    case (Inr threadId)
    obtain r2 w2 where s2: "threads_messages_create threadId (content message) w1 = (r2, w2)"
      by (cases "threads_messages_create threadId (content message) w1")
    obtain r3 w3 where s3: "runs_create threadId w2 = (r3, w3)"
      by (cases "runs_create threadId w2")
    obtain r4 w4 where s4: "runs_retrieve w3 = (r4, w4)"
      by (cases "runs_retrieve w3")
    have f4: "run_status_at w4 = run_status_at w"
      using f1 openai_calls_frame(2) [OF s2] openai_calls_frame(3) [OF s3]
        runs_retrieve_status [OF s4] by simp
    then have nc: "never_completes w4"
      using assms by (simp add: never_completes_def)
    show ?thesis
    proof (cases "\<exists>e. r2 = Inl e \<or> r3 = Inl e \<or> r4 = Inl e")
      case True
      then show ?thesis
        using \<open>truthy (OPENAI_ASSISTANT_ID w)\<close> s1 Inr s2 s3 s4
        by (auto simp: handleTextMessage_def split: sum.splits)
    next
      case False
      then obtain u rid st where ok: "r2 = Inr u" "r3 = Inr rid" "r4 = Inr st"
        by (cases r2; cases r3; cases r4) auto
      have "st \<noteq> ''completed''"
        using runs_retrieve_status [OF s4] ok(3) f4 nc
          openai_calls_frame(2) [OF s2] openai_calls_frame(3) [OF s3] f1 assms
        by (simp add: never_completes_def)
      then obtain e w5 where "poll_run rid (clock w4) st w4 = (Inl e, w5)"
        using poll_run_never_completes [OF nc] by blast
      then show ?thesis
        using \<open>truthy (OPENAI_ASSISTANT_ID w)\<close> s1 Inr s2 s3 s4 ok
        by (simp add: handleTextMessage_def)
    qed
  qed
qed

text \<open>A status that keeps the loop going: neither "completed" nor one of the three
  statuses the loop gives up on.\<close>

definition pending :: "string \<Rightarrow> bool" where
  "pending st = (st \<noteq> ''completed'' \<and> st \<noteq> ''failed'' \<and> st \<noteq> ''cancelled'' \<and> st \<noteq> ''expired'')"

text \<open>
  The time \<open>n\<close> rounds of the loop take when the next status request is the \<open>p\<close>-th:
  each round waits 1000 milliseconds and then sends one status request, which takes its
  latency.
\<close>

fun waited :: "(nat \<Rightarrow> nat) \<Rightarrow> nat \<Rightarrow> nat \<Rightarrow> int" where
  "waited lat p 0 = 0"
| "waited lat p (Suc n) = 1000 + int (lat p) + waited lat (Suc p) n"

lemma waited_ge: "1000 * int n \<le> waited lat p n"
proof (induction n arbitrary: p)
  case 0
  then show ?case by simp
next
  case (Suc n)
  have "0 \<le> int (lat p)" by simp
  then show ?case
    using Suc.IH [of "Suc p"] by (simp del: of_nat_0_le_iff)
qed

lemma one_round:
  assumes "openai_faults w = []"
  shows "runs_retrieve (sleep 1000 w) =
    (Inr (run_status_at w (polls w)),
     w\<lparr>clock := clock w + waited (retrieve_ms w) (polls w) 1, polls := Suc (polls w)\<rparr>)"
  using assms by (simp add: runs_retrieve_def sleep_def openai_fault_def add.assoc)

lemma after_rounds_0: "w\<lparr>clock := clock w + waited lat p 0, polls := polls w + 0\<rparr> = w"
  by (cases w) simp

text \<open>
  A run whose status stays pending: the loop gives up at the first round that finds more
  than 30 seconds gone since \<open>startTime\<close>, and not before.
\<close>

lemma poll_run_times_out:
  assumes "openai_faults w = []" "\<forall>k. pending (run_status_at w k)" "pending st"
  shows "\<exists>n. poll_run rid startTime st w =
        (Inl (JsError ''Response timed out after 30 seconds''),
         w\<lparr>clock := clock w + waited (retrieve_ms w) (polls w) n, polls := polls w + n\<rparr>)
      \<and> 30000 < clock w + waited (retrieve_ms w) (polls w) n - startTime
      \<and> (\<forall>j<n. clock w + waited (retrieve_ms w) (polls w) j - startTime \<le> 30000)"
  using assms
proof (induction rid startTime st w rule: poll_run.induct)
  case (1 rid startTime st w)
  have st: "st \<noteq> ''completed''" "\<not> (st = ''failed'' \<or> st = ''cancelled'' \<or> st = ''expired'')"
    using "1.prems"(3) by (simp_all add: pending_def)
  show ?case
  proof (cases "clock w - startTime > 30000")
    case True
    then have "poll_run rid startTime st w = (Inl (JsError ''Response timed out after 30 seconds''), w)"
      using st by (subst poll_run.simps) simp
    then show ?thesis
      using True by (intro exI [of _ 0]) (simp add: after_rounds_0)
  next
    case False
    let ?w0 = "w\<lparr>clock := clock w + waited (retrieve_ms w) (polls w) 1, polls := Suc (polls w)\<rparr>"
    let ?nxt = "run_status_at w (polls w)"
    note rt = one_round [OF "1.prems"(1)]
    have p0: "openai_faults ?w0 = []" "\<forall>k. pending (run_status_at ?w0 k)" "pending ?nxt"
      using "1.prems" by simp_all
    obtain n where n: "poll_run rid startTime ?nxt ?w0 =
        (Inl (JsError ''Response timed out after 30 seconds''),
         ?w0\<lparr>clock := clock ?w0 + waited (retrieve_ms ?w0) (polls ?w0) n, polls := polls ?w0 + n\<rparr>)"
      "30000 < clock ?w0 + waited (retrieve_ms ?w0) (polls ?w0) n - startTime"
      "\<forall>j<n. clock ?w0 + waited (retrieve_ms ?w0) (polls ?w0) j - startTime \<le> 30000"
      using "1.IH" [OF st(1) st(2) False rt [symmetric] refl p0] by blast
    have "poll_run rid startTime st w = poll_run rid startTime ?nxt ?w0"
      using st False rt by (subst poll_run.simps) simp
    then have "poll_run rid startTime st w =
        (Inl (JsError ''Response timed out after 30 seconds''),
         w\<lparr>clock := clock w + waited (retrieve_ms w) (polls w) (Suc n), polls := polls w + Suc n\<rparr>)"
      using n(1) by (simp add: add.assoc)
    moreover have "30000 < clock w + waited (retrieve_ms w) (polls w) (Suc n) - startTime"
      using n(2) by (simp add: add.assoc)
    moreover have "\<forall>j<Suc n. clock w + waited (retrieve_ms w) (polls w) j - startTime \<le> 30000"
    proof (intro allI impI)
      fix j assume "j < Suc n"
      then show "clock w + waited (retrieve_ms w) (polls w) j - startTime \<le> 30000"
        using False n(3) by (cases j) (auto simp: add.assoc)
    qed
    ultimately show ?thesis by blast
  qed
qed


text \<open>
  A run whose status stops being pending at the \<open>k\<close>-th further request, while the loop
  is still within its 30 seconds: the loop ends right after that request.
\<close>

lemma poll_run_status_arrives:
  assumes "openai_faults w = []" "pending st"
    and "\<forall>j<k. pending (run_status_at w (polls w + j))"
    and "\<not> pending (run_status_at w (polls w + k))"
    and "\<forall>j\<le>k. clock w + waited (retrieve_ms w) (polls w) j - startTime \<le> 30000"
  shows "poll_run rid startTime st w =
     (if run_status_at w (polls w + k) = ''completed'' then Inr ()
      else Inl (JsError (''Run '' @ rid @ '' failed with status '' @ run_status_at w (polls w + k))),
      w\<lparr>clock := clock w + waited (retrieve_ms w) (polls w) (Suc k), polls := polls w + Suc k\<rparr>)"
  using assms
proof (induction k arbitrary: w st)
  case 0
  let ?w0 = "w\<lparr>clock := clock w + waited (retrieve_ms w) (polls w) 1, polls := Suc (polls w)\<rparr>"
  let ?nxt = "run_status_at w (polls w)"
  have st: "st \<noteq> ''completed''" "\<not> (st = ''failed'' \<or> st = ''cancelled'' \<or> st = ''expired'')"
    using "0.prems"(2) by (simp_all add: pending_def)
  have t: "\<not> clock w - startTime > 30000"
    using "0.prems"(5) by simp
  note rt = one_round [OF "0.prems"(1)]
  have "poll_run rid startTime st w = poll_run rid startTime ?nxt ?w0"
    using st t rt by (subst poll_run.simps) simp
  also have "\<dots> = (if ?nxt = ''completed'' then Inr ()
      else Inl (JsError (''Run '' @ rid @ '' failed with status '' @ ?nxt)), ?w0)"
    using "0.prems"(4) by (subst poll_run.simps) (auto simp: pending_def)
  finally show ?case
    by simp
next
  case (Suc k)
  let ?w0 = "w\<lparr>clock := clock w + waited (retrieve_ms w) (polls w) 1, polls := Suc (polls w)\<rparr>"
  let ?nxt = "run_status_at w (polls w)"
  have st: "st \<noteq> ''completed''" "\<not> (st = ''failed'' \<or> st = ''cancelled'' \<or> st = ''expired'')"
    using Suc.prems(2) by (simp_all add: pending_def)
  have t: "\<not> clock w - startTime > 30000"
    using Suc.prems(5) by (auto dest: spec [of _ 0])
  note rt = one_round [OF Suc.prems(1)]
  have step: "poll_run rid startTime st w = poll_run rid startTime ?nxt ?w0"
    using st t rt by (subst poll_run.simps) simp
  have p1: "openai_faults ?w0 = []" "pending ?nxt"
    using Suc.prems(1,3) by (auto dest: spec [of _ 0])
  have p2: "\<forall>j<k. pending (run_status_at ?w0 (polls ?w0 + j))"
    using Suc.prems(3) by (auto dest: spec [of _ "Suc j" for j])
  have p3: "\<not> pending (run_status_at ?w0 (polls ?w0 + k))"
    using Suc.prems(4) by simp
  have p4: "\<forall>j\<le>k. clock ?w0 + waited (retrieve_ms ?w0) (polls ?w0) j - startTime \<le> 30000"
  proof (intro allI impI)
    fix j assume "j \<le> k"
    then have "Suc j \<le> Suc k"
      by simp
    with Suc.prems(5)
    have "clock w + waited (retrieve_ms w) (polls w) (Suc j) - startTime \<le> 30000"
      by blast
    then show "clock ?w0 + waited (retrieve_ms ?w0) (polls ?w0) j - startTime \<le> 30000"
      by (simp add: add.assoc)
  qed
  show ?case
    unfolding step using Suc.IH [OF p1 p2 p3 p4] by (simp add: add.assoc)
qed

lemma poll_run_terminal:
  assumes "st = ''failed'' \<or> st = ''cancelled'' \<or> st = ''expired''"
  shows "poll_run rid startTime st w
    = (Inl (JsError (''Run '' @ rid @ '' failed with status '' @ st)), w)"
  using assms by (subst poll_run.simps) auto

lemma getAIResponse_text_never_completes:
  assumes "never_completes w"
    "msg_type message \<noteq> ''voice''" "msg_type message \<noteq> ''audio''" "msg_type message \<noteq> ''image''"
  shows "fst (getAIResponse message thread w) = APOLOGY"
proof -
  obtain e w6 where "handleTextMessage message thread w = (Inl e, w6)"
    using handleTextMessage_never_completes [OF assms(1)] by blast
  then show ?thesis
    using assms(2-) by (simp add: getAIResponse_def)
qed

lemma handleTextMessage_stuck:
  assumes "never_completes w" "run_status_at w' = run_status_at w"
  shows "\<exists>e w6. handleTextMessage m t w' = (Inl e, w6)"
proof -
  have "never_completes w'"
    using assms by (simp add: never_completes_def)
  then show ?thesis
    by (rule handleTextMessage_never_completes)
qed

lemma handleImageMessage_try_stuck:
  assumes "never_completes w" "file_token w = Inr tok" "getMediaRecord mid w = (Some r, w1)"
    "fetch w1 (getFileUrl r (media_file r) tok) = Response True body ct"
  shows "\<exists>e w'. handleImageMessage_try message mid w = (Inl e, w')"
proof -
  obtain rc w3 where vc: "chat_completions_create w1 = (rc, w3)"
    by (cases "chat_completions_create w1")
  have fr: "run_status_at w3 = run_status_at w"
    using getMediaRecord_frame [OF assms(3)] openai_calls_frame(6) [OF vc] by simp
  show ?thesis
  proof (cases rc)
    case (Inl e)
    then show ?thesis
      using assms(2-) vc by (simp add: handleImageMessage_try_def getFileToken_def)
  next
    case (Inr choices)
    show ?thesis
    proof (cases choices)
      case Nil
      then show ?thesis
        using assms(2-) vc Inr by (simp add: handleImageMessage_try_def getFileToken_def)
    next
      case (Cons choice cs)
      let ?d = "or_else choice VISION_FAILED"
      let ?c = "(if content message \<noteq> []
                  then content message @ [CHR 0x0A, CHR 0x0A] @ IMAGE_CONTENT_OPEN @ ?d @ '']''
                  else IMAGE_CONTENT_OPEN @ ?d @ '']'')"
      obtain e w6 where "handleTextMessage (message\<lparr>content := ?c, msg_type := ''text''\<rparr>) None w3
          = (Inl e, w6)"
        using handleTextMessage_stuck [OF assms(1) fr] by blast
      then show ?thesis
        using assms(2-) vc Inr Cons
        by (simp add: handleImageMessage_try_def getFileToken_def Let_def)
    qed
  qed
qed

lemma trim_hello: "trim ''hello'' = ''hello''"
  by (simp add: trim_def trimStart_def trimEnd_def strip.simps leading_space_def white_space_def)

lemma trim_Nil: "trim [] = []"
  by (simp add: trim_def trimStart_def trimEnd_def strip.simps leading_space_def white_space_def)

lemma handleAudioMessage_try_stuck:
  assumes "never_completes w" "file_token w = Inr tok" "getMediaRecord mid w = (Some r, w1)"
    "fetch w1 (getFileUrl r (media_file r) tok) = Response True buf ct"
    "(if msg_source message = ''telegram'' then convertAudioInMemory w1 buf else Inr buf) = Inr blob"
    "transcription w1 blob = TranscriptionResponse True (Some said)" "trim said \<noteq> []"
  shows "\<exists>e w'. handleAudioMessage_try message mid w = (Inl e, w')"
proof -
  have fr: "run_status_at w1 = run_status_at w"
    using getMediaRecord_frame [OF assms(3)] by simp
  have ne: "said \<noteq> []"
    using assms(7) trim_Nil by auto
  obtain e w6 where "handleTextMessage (message\<lparr>content := said, msg_type := ''text''\<rparr>) None w1
          = (Inl e, w6)"
    using handleTextMessage_stuck [OF assms(1) fr] by blast
  then show ?thesis
    using assms(2-) ne
    by (simp add: handleAudioMessage_try_def getFileToken_def Let_def truthy_def or_else_def)
qed


lemma rounds_bound:
  assumes "30000 < waited lat p n" "\<forall>j<n. waited lat p j \<le> 30000"
  shows "1 \<le> n \<and> n \<le> 31"
proof -
  have "n \<noteq> 0"
    using assms(1) by (cases n) simp_all
  moreover have "n \<le> 31"
  proof (rule ccontr)
    assume "\<not> n \<le> 31"
    then have "31 < n" by simp
    then have "waited lat p 31 \<le> 30000"
      using assms(2) by blast
    then show False
      using waited_ge [of 31 lat p] by simp
  qed
  ultimately show ?thesis by simp
qed

text \<open>
  C6 (as the code has it). The loop waits 1000 milliseconds before every status request and
  tests the time before every wait. While the status requests succeed: a run that stays
  pending makes the loop give up with "Response timed out after 30 seconds" at the first
  test that finds more than 30000 milliseconds gone, after \<open>n\<close> rounds and not earlier
  (at least 1 and at most 31 rounds when the loop starts at its own start time); a status
  that stops being pending within the 30 seconds ends the loop right after the request
  that reported it, normally for "completed" and with "Run ... failed with status ..." for
  "failed", "cancelled" and "expired"; a loop entered with one of these three ends at once.
  Whatever the status requests do, a run that never reaches "completed" ends the loop in
  an exception, and the loop sends at most 31 requests. For such a run the responder
  returns the apology on the text path; on the image and on the audio path, with the media
  fetched (and the audio transcribed), it returns that path's own failure text.
\<close>

theorem run_that_never_completes_ends_in_fallback:
  "(openai_faults w = [] \<and> pending st \<and> (\<forall>k. pending (run_status_at w k)) \<longrightarrow>
      (\<exists>n. poll_run rid startTime st w =
             (Inl (JsError ''Response timed out after 30 seconds''),
              w\<lparr>clock := clock w + waited (retrieve_ms w) (polls w) n, polls := polls w + n\<rparr>)
         \<and> 30000 < clock w + waited (retrieve_ms w) (polls w) n - startTime
         \<and> (\<forall>j<n. clock w + waited (retrieve_ms w) (polls w) j - startTime \<le> 30000)
         \<and> (startTime = clock w \<longrightarrow> 1 \<le> n \<and> n \<le> 31)))
   \<and> (openai_faults w = [] \<and> pending st
        \<and> (\<forall>j<k. pending (run_status_at w (polls w + j)))
        \<and> \<not> pending (run_status_at w (polls w + k))
        \<and> (\<forall>j\<le>k. clock w + waited (retrieve_ms w) (polls w) j - startTime \<le> 30000) \<longrightarrow>
      poll_run rid startTime st w =
        (if run_status_at w (polls w + k) = ''completed'' then Inr ()
         else Inl (JsError (''Run '' @ rid @ '' failed with status ''
                            @ run_status_at w (polls w + k))),
         w\<lparr>clock := clock w + waited (retrieve_ms w) (polls w) (Suc k),
           polls := polls w + Suc k\<rparr>))
   \<and> (st = ''failed'' \<or> st = ''cancelled'' \<or> st = ''expired'' \<longrightarrow>
      poll_run rid startTime st w
        = (Inl (JsError (''Run '' @ rid @ '' failed with status '' @ st)), w))
   \<and> (never_completes w \<and> st \<noteq> ''completed'' \<longrightarrow>
        (\<exists>e w1. poll_run rid startTime st w = (Inl e, w1)))
   \<and> polls (snd (poll_run rid (clock w) st w)) \<le> polls w + 31
   \<and> (never_completes w \<and> msg_type message \<noteq> ''voice'' \<and> msg_type message \<noteq> ''audio''
        \<and> msg_type message \<noteq> ''image''
       \<longrightarrow> fst (getAIResponse message thread w) = APOLOGY)
   \<and> (never_completes w \<and> msg_type message = ''image''
        \<and> mediaFileId message = Some mid \<and> mid \<noteq> []
        \<and> file_token w = Inr tok \<and> getMediaRecord mid w = (Some r, w1)
        \<and> fetch w1 (getFileUrl r (media_file r) tok) = Response True body ct
       \<longrightarrow> fst (getAIResponse message thread w) = IMAGE_STORE_FAILED)
   \<and> (never_completes w \<and> (msg_type message = ''voice'' \<or> msg_type message = ''audio'')
        \<and> mediaFileId message = Some mid \<and> mid \<noteq> []
        \<and> file_token w = Inr tok \<and> getMediaRecord mid w = (Some r, w1)
        \<and> fetch w1 (getFileUrl r (media_file r) tok) = Response True body ct
        \<and> (if msg_source message = ''telegram'' then convertAudioInMemory w1 body else Inr body)
            = Inr blob
        \<and> transcription w1 blob = TranscriptionResponse True (Some said) \<and> trim said \<noteq> []
       \<longrightarrow> fst (getAIResponse message thread w) = AUDIO_FAILED)"
proof (intro conjI impI; (elim conjE)?)
  assume h: "openai_faults w = []" "pending st" "\<forall>k. pending (run_status_at w k)"
  obtain n where n: "poll_run rid startTime st w =
        (Inl (JsError ''Response timed out after 30 seconds''),
         w\<lparr>clock := clock w + waited (retrieve_ms w) (polls w) n, polls := polls w + n\<rparr>)"
      "30000 < clock w + waited (retrieve_ms w) (polls w) n - startTime"
      "\<forall>j<n. clock w + waited (retrieve_ms w) (polls w) j - startTime \<le> 30000"
    using poll_run_times_out [OF h(1,3,2)] by blast
  have "startTime = clock w \<longrightarrow> 1 \<le> n \<and> n \<le> 31"
  proof
    assume "startTime = clock w"
    then have "30000 < waited (retrieve_ms w) (polls w) n"
      "\<forall>j<n. waited (retrieve_ms w) (polls w) j \<le> 30000"
      using n(2,3) by simp_all
    then show "1 \<le> n \<and> n \<le> 31"
      by (rule rounds_bound)
  qed
  then show "\<exists>n. poll_run rid startTime st w =
             (Inl (JsError ''Response timed out after 30 seconds''),
              w\<lparr>clock := clock w + waited (retrieve_ms w) (polls w) n, polls := polls w + n\<rparr>)
         \<and> 30000 < clock w + waited (retrieve_ms w) (polls w) n - startTime
         \<and> (\<forall>j<n. clock w + waited (retrieve_ms w) (polls w) j - startTime \<le> 30000)
         \<and> (startTime = clock w \<longrightarrow> 1 \<le> n \<and> n \<le> 31)"
    using n by blast
next
  assume "openai_faults w = []" "pending st"
    "\<forall>j<k. pending (run_status_at w (polls w + j))"
    "\<not> pending (run_status_at w (polls w + k))"
    "\<forall>j\<le>k. clock w + waited (retrieve_ms w) (polls w) j - startTime \<le> 30000"
  then show "poll_run rid startTime st w =
        (if run_status_at w (polls w + k) = ''completed'' then Inr ()
         else Inl (JsError (''Run '' @ rid @ '' failed with status ''
                            @ run_status_at w (polls w + k))),
         w\<lparr>clock := clock w + waited (retrieve_ms w) (polls w) (Suc k),
           polls := polls w + Suc k\<rparr>)"
    by (rule poll_run_status_arrives)
next
  assume "st = ''failed'' \<or> st = ''cancelled'' \<or> st = ''expired''"
  then show "poll_run rid startTime st w
        = (Inl (JsError (''Run '' @ rid @ '' failed with status '' @ st)), w)"
    by (rule poll_run_terminal)
next
  assume "never_completes w" "st \<noteq> ''completed''"
  then show "\<exists>e w1. poll_run rid startTime st w = (Inl e, w1)"
    by (rule poll_run_never_completes)
next
  show "polls (snd (poll_run rid (clock w) st w)) \<le> polls w + 31"
    using poll_run_polls [of rid "clock w" st w] by simp
next
  assume "never_completes w" "msg_type message \<noteq> ''voice''" "msg_type message \<noteq> ''audio''"
    "msg_type message \<noteq> ''image''"
  then show "fst (getAIResponse message thread w) = APOLOGY"
    by (rule getAIResponse_text_never_completes)
next
  assume h: "never_completes w" "msg_type message = ''image''"
    "mediaFileId message = Some mid" "mid \<noteq> []"
    "file_token w = Inr tok" "getMediaRecord mid w = (Some r, w1)"
    "fetch w1 (getFileUrl r (media_file r) tok) = Response True body ct"
  obtain e w' where "handleImageMessage_try message mid w = (Inl e, w')"
    using handleImageMessage_try_stuck [OF h(1,5,6,7)] by blast
  then show "fst (getAIResponse message thread w) = IMAGE_STORE_FAILED"
    using h(2,3,4) by (simp add: getAIResponse_def handleImageMessage_def)
next
  assume h: "never_completes w" "msg_type message = ''voice'' \<or> msg_type message = ''audio''"
    "mediaFileId message = Some mid" "mid \<noteq> []"
    "file_token w = Inr tok" "getMediaRecord mid w = (Some r, w1)"
    "fetch w1 (getFileUrl r (media_file r) tok) = Response True body ct"
    "(if msg_source message = ''telegram'' then convertAudioInMemory w1 body else Inr body)
            = Inr blob"
    "transcription w1 blob = TranscriptionResponse True (Some said)" "trim said \<noteq> []"
  obtain e w' where "handleAudioMessage_try message mid w = (Inl e, w')"
    using handleAudioMessage_try_stuck [OF h(1,5,6,7,8,9,10)] by blast
  then show "fst (getAIResponse message thread w) = AUDIO_FAILED"
    using h(2,3,4) by (auto simp: getAIResponse_def handleAudioMessage_def)
qed


text \<open>An image message and a voice message of the chat of \<open>text_message\<close>.\<close>

definition image_of_chat :: Message where
  "image_of_chat = text_message\<lparr>msg_type := ''image'', mediaFileId := Some ''med1''\<rparr>"

definition voice_of_chat :: Message where
  "voice_of_chat = text_message\<lparr>msg_type := ''voice'', mediaFileId := Some ''med1''\<rparr>"

text \<open>
  A world in which the media is stored and can be fetched, and the assistant's runs stay
  "in_progress" for ever.
\<close>

definition stuck :: world where
  "stuck = quiet
     \<lparr>chats := [chat0],
      media := [\<lparr>media_id = ''med1'', media_file = ''photo.jpg'',
                 media_platform = ''whatsapp'', media_blob = ''bytes''\<rparr>],
      fetch := (\<lambda>url. Response True ''bytes'' (Some ''image/jpeg'')),
      run_status_at := (\<lambda>k. ''in_progress'')\<rparr>"

lemma never_completes_stuck: "never_completes stuck"
  by (simp add: never_completes_def stuck_def)

text \<open>The same world with a run that is reported "failed" by the fourth status request.\<close>

definition fails_after_three :: world where
  "fails_after_three = stuck\<lparr>run_status_at := (\<lambda>k. if k < 3 then ''in_progress'' else ''failed'')\<rparr>"

theorem run_that_never_completes_witness:
  "never_completes stuck \<and> openai_faults stuck = [] \<and> pending ''in_progress''
   \<and> (\<exists>n. poll_run ''run_0'' (clock stuck) ''in_progress'' stuck =
            (Inl (JsError ''Response timed out after 30 seconds''),
             stuck\<lparr>clock := clock stuck + waited (retrieve_ms stuck) (polls stuck) n,
               polls := polls stuck + n\<rparr>)
        \<and> 30000 < clock stuck + waited (retrieve_ms stuck) (polls stuck) n - clock stuck
        \<and> 1 \<le> n \<and> n \<le> 31)
   \<and> poll_run ''run_0'' 0 ''in_progress'' stuck
       = (Inl (JsError ''Response timed out after 30 seconds''), stuck\<lparr>clock := 31000, polls := 31\<rparr>)
   \<and> poll_run ''run_0'' 0 ''in_progress'' fails_after_three
       = (Inl (JsError ''Run run_0 failed with status failed''),
          fails_after_three\<lparr>clock := 4000, polls := 4\<rparr>)
   \<and> fst (getAIResponse text_message None stuck) = APOLOGY
   \<and> fst (getAIResponse image_of_chat None stuck) = IMAGE_STORE_FAILED
   \<and> fst (getAIResponse voice_of_chat None stuck) = AUDIO_FAILED"
proof -
  have h1: "openai_faults stuck = []" "pending ''in_progress''"
    "\<forall>k. pending (run_status_at stuck k)"
    by (simp_all add: stuck_def quiet_def pending_def)
  note a = run_that_never_completes_ends_in_fallback
    [where w = stuck and st = "''in_progress''" and rid = "''run_0''" and startTime = "clock stuck"]
  have r1: "\<exists>n. poll_run ''run_0'' (clock stuck) ''in_progress'' stuck =
            (Inl (JsError ''Response timed out after 30 seconds''),
             stuck\<lparr>clock := clock stuck + waited (retrieve_ms stuck) (polls stuck) n,
               polls := polls stuck + n\<rparr>)
        \<and> 30000 < clock stuck + waited (retrieve_ms stuck) (polls stuck) n - clock stuck
        \<and> 1 \<le> n \<and> n \<le> 31"
    using conjunct1 [OF a] h1 by blast
  have r2: "poll_run ''run_0'' 0 ''in_progress'' stuck
       = (Inl (JsError ''Response timed out after 30 seconds''), stuck\<lparr>clock := 31000, polls := 31\<rparr>)"
    by (simp add: poll_run.simps runs_retrieve_def openai_fault_def sleep_def stuck_def quiet_def)
  have h3: "openai_faults fails_after_three = []"
    "\<forall>j<3. pending (run_status_at fails_after_three (polls fails_after_three + j))"
    "\<not> pending (run_status_at fails_after_three (polls fails_after_three + 3))"
    "\<forall>j\<le>3. clock fails_after_three
        + waited (retrieve_ms fails_after_three) (polls fails_after_three) j - 0 \<le> 30000"
    by (simp_all add: fails_after_three_def stuck_def quiet_def pending_def
        eval_nat_numeral le_Suc_eq all_conj_distrib)
  note b = run_that_never_completes_ends_in_fallback
    [where w = fails_after_three and st = "''in_progress''" and rid = "''run_0''"
      and startTime = 0 and k = 3]
  have r3: "poll_run ''run_0'' 0 ''in_progress'' fails_after_three
       = (Inl (JsError ''Run run_0 failed with status failed''),
          fails_after_three\<lparr>clock := 4000, polls := 4\<rparr>)"
    using conjunct1 [OF conjunct2 [OF b]] h1(2) h3
    by (simp add: fails_after_three_def stuck_def quiet_def eval_nat_numeral)
  note c = run_that_never_completes_ends_in_fallback
    [where w = stuck and message = text_message and thread = None]
  have r4: "fst (getAIResponse text_message None stuck) = APOLOGY"
    using c never_completes_stuck by (simp add: text_message_def)
  have m: "file_token stuck = Inr ''tok''"
    "getMediaRecord ''med1'' stuck
       = (Some \<lparr>media_id = ''med1'', media_file = ''photo.jpg'',
                 media_platform = ''whatsapp'', media_blob = ''bytes''\<rparr>,
          stuck\<lparr>pb_requests := 1\<rparr>)"
    "fetch (stuck\<lparr>pb_requests := 1\<rparr>) url = Response True ''bytes'' (Some ''image/jpeg'')"
    "transcription (stuck\<lparr>pb_requests := 1\<rparr>) ''bytes'' = TranscriptionResponse True (Some ''hello'')"
    for url
    by (simp_all add: store_defs stuck_def quiet_def)
  note im = run_that_never_completes_ends_in_fallback
    [where w = stuck and message = image_of_chat and thread = None and mid = "''med1''"
      and tok = "''tok''" and ?w1.0 = "stuck\<lparr>pb_requests := 1\<rparr>" and body = "''bytes''"
      and ct = "Some ''image/jpeg''"
      and r = "\<lparr>media_id = ''med1'', media_file = ''photo.jpg'',
                 media_platform = ''whatsapp'', media_blob = ''bytes''\<rparr>"]
  have r5: "fst (getAIResponse image_of_chat None stuck) = IMAGE_STORE_FAILED"
    using im never_completes_stuck m by (simp add: image_of_chat_def text_message_def)
  note au = run_that_never_completes_ends_in_fallback
    [where w = stuck and message = voice_of_chat and thread = None and mid = "''med1''"
      and tok = "''tok''" and ?w1.0 = "stuck\<lparr>pb_requests := 1\<rparr>" and body = "''bytes''"
      and ct = "Some ''image/jpeg''" and blob = "''bytes''" and said = "''hello''"
      and r = "\<lparr>media_id = ''med1'', media_file = ''photo.jpg'',
                 media_platform = ''whatsapp'', media_blob = ''bytes''\<rparr>"]
  have r6: "fst (getAIResponse voice_of_chat None stuck) = AUDIO_FAILED"
    using au never_completes_stuck m by (simp add: voice_of_chat_def text_message_def trim_hello)
  show ?thesis
    by (intro conjI never_completes_stuck h1(1,2) r1 r2 r3 r4 r5 r6)
qed

text \<open>
  C6 as stated fails for a run started on the image path (and likewise on the audio
  path): the image is stored and fetched, the vision call answers, the run is submitted and
  stays "in_progress"; the loop gives up after 31 seconds and 32 status requests in all, and
  the reply is the image path's "could not fetch the image from storage", not the apology.
\<close>

theorem stuck_run_on_image_path_gives_other_text:
  "fst (getAIResponse image_of_chat None stuck) = IMAGE_STORE_FAILED
   \<and> run_count (snd (getAIResponse image_of_chat None stuck)) = 1
   \<and> polls (snd (getAIResponse image_of_chat None stuck)) = 32
   \<and> clock (snd (getAIResponse image_of_chat None stuck)) = 31000
   \<and> IMAGE_STORE_FAILED \<noteq> APOLOGY"
  by (simp add: responder_defs store_defs poll_run.simps stuck_def quiet_def chat0_def
      image_of_chat_def text_message_def IMAGE_STORE_FAILED_def APOLOGY_def)

section \<open>The responder's fallback texts\<close>

text \<open>
  A call of the assistant raised between two worlds: among the entries of the assistant's
  fault script that were consumed on the way from \<open>w\<close> to \<open>w'\<close> there is a failure.
\<close>

definition raised :: "world \<Rightarrow> world \<Rightarrow> bool" where
  "raised w w' =
     list_ex (\<lambda>f. f \<noteq> None)
       (take (length (openai_faults w) - length (openai_faults w')) (openai_faults w))"

text \<open>The newest message of the thread is not a text of the assistant.\<close>

definition no_answer :: "world \<Rightarrow> bool" where
  "no_answer w =
     (case thread_list w of
        [] \<Rightarrow> True
      | m # ms \<Rightarrow> role m \<noteq> ''assistant''
          \<or> (case parts m of [] \<Rightarrow> True | (ty, val) # ps \<Rightarrow> ty \<noteq> ''text''))"

text \<open>Every call of the assistant between two worlds went through.\<close>

definition calls_ok :: "world \<Rightarrow> world \<Rightarrow> bool" where
  "calls_ok w w' =
     (let k = length (openai_faults w) - length (openai_faults w')
      in drop k (openai_faults w) = openai_faults w'
         \<and> list_all (\<lambda>f. f = None) (take k (openai_faults w)))"

lemma calls_ok_iff:
  "calls_ok w w' = (\<exists>ns. openai_faults w = ns @ openai_faults w' \<and> list_all (\<lambda>f. f = None) ns)"
proof
  assume "calls_ok w w'"
  then show "\<exists>ns. openai_faults w = ns @ openai_faults w' \<and> list_all (\<lambda>f. f = None) ns"
    unfolding calls_ok_def Let_def
    by (intro exI [of _ "take (length (openai_faults w) - length (openai_faults w')) (openai_faults w)"])
      (metis append_take_drop_id)
next
  assume "\<exists>ns. openai_faults w = ns @ openai_faults w' \<and> list_all (\<lambda>f. f = None) ns"
  then show "calls_ok w w'"
    by (auto simp: calls_ok_def)
qed

lemma calls_ok_same: "openai_faults w' = openai_faults w \<Longrightarrow> calls_ok w w'"
  by (simp add: calls_ok_def)

lemma calls_ok_trans: "calls_ok w w1 \<Longrightarrow> calls_ok w1 w2 \<Longrightarrow> calls_ok w w2"
  unfolding calls_ok_iff by (metis append.assoc list_all_append)

lemma calls_ok_not_raised: "calls_ok w w' \<Longrightarrow> \<not> raised w w'"
  by (auto simp: calls_ok_def raised_def Let_def list_all_iff list_ex_iff)

lemma openai_fault_ok: "openai_fault w = (None, w1) \<Longrightarrow> calls_ok w w1"
  by (auto simp: openai_fault_def calls_ok_def split: list.splits)

lemma openai_calls_ok:
  "threads_create w = (Inr r1, w1) \<Longrightarrow> calls_ok w w1"
  "threads_messages_create t c w = (Inr r2, w2) \<Longrightarrow> calls_ok w w2"
  "runs_create t w = (Inr r3, w3) \<Longrightarrow> calls_ok w w3"
  "runs_retrieve w = (Inr r4, w4) \<Longrightarrow> calls_ok w w4"
  "threads_messages_list w = (Inr r5, w5) \<Longrightarrow> calls_ok w w5"
  "chat_completions_create w = (Inr r6, w6) \<Longrightarrow> calls_ok w w6"
  by (auto simp: threads_create_def threads_messages_create_def runs_create_def
      runs_retrieve_def threads_messages_list_def chat_completions_create_def
      openai_fault_def calls_ok_def
      split: prod.splits option.splits list.splits)


lemma poll_run_ok:
  "poll_run rid startTime st w = (Inr u, w1) \<Longrightarrow> calls_ok w w1"
proof (induction rid startTime st w rule: poll_run.induct)
  case (1 rid startTime st w)
  show ?case
  proof (cases "st = ''completed'' \<or> st = ''failed'' \<or> st = ''cancelled''
      \<or> st = ''expired'' \<or> clock w - startTime > 30000")
    case True
    then show ?thesis
      using "1.prems" by (subst (asm) poll_run.simps) (auto split: if_splits intro: calls_ok_same)
  next
    case False
    obtain r0 w0 where rt: "runs_retrieve (sleep 1000 w) = (r0, w0)"
      by (cases "runs_retrieve (sleep 1000 w)")
    show ?thesis
    proof (cases r0)
      case (Inl e)
      then show ?thesis
        using "1.prems" False rt by (subst (asm) poll_run.simps) auto
    next
      case (Inr nxt)
      then have nx: "poll_run rid startTime nxt w0 = (Inr u, w1)"
        using "1.prems" False rt by (subst (asm) poll_run.simps) simp
      have "calls_ok (sleep 1000 w) w0"
        using openai_calls_ok(4) rt Inr by simp
      then have "calls_ok w w0"
        by (simp add: calls_ok_def sleep_def)
      moreover have "calls_ok w0 w1"
        using "1.IH" [OF _ _ _ rt [symmetric, unfolded Inr] refl nx] False by simp
      ultimately show ?thesis
        by (rule calls_ok_trans)
    qed
  qed
qed

lemma threads_create_store:
  "threads_create w = (r, w1) \<Longrightarrow> pb_faults w1 = pb_faults w \<and> chats w1 = chats w"
  by (auto simp: threads_create_def openai_fault_def split: list.splits option.splits)

lemma getChatById_missing:
  assumes "pb_faults w = []" "find (\<lambda>c. chat_id c = Some cid) (chats w) = None"
  shows "fst (getChatById cid w) = None"
  using assms by (simp add: getChatById.simps chats_getOne_def take_fault_def Let_def)

text \<open>A new thread exists only when the assistant created it and the chat of the message
  was read from the store and saved with the new handle.\<close>

lemma create_thread_ok:
  assumes "create_thread message w = (Inr t, w')"
  shows "calls_ok w w' \<and> thread_list w' = thread_list w
    \<and> (\<exists>cid w1 chat w2. chatId message = Some cid \<and> cid \<noteq> []
          \<and> threads_create w = (Inr t, w1) \<and> getChatById cid w1 = (Some chat, w2))"
proof -
  obtain r1 w1 where s1: "threads_create w = (r1, w1)"
    by (cases "threads_create w")
  have r1: "r1 = Inr t"
    using assms s1
    by (cases r1) (auto simp: create_thread_def split: prod.splits option.splits sum.splits)
  obtain cid where cid: "chatId message = Some cid" "cid \<noteq> []"
    using assms s1 r1
    by (cases "chatId message") (auto simp: create_thread_def split: if_splits)
  obtain r2 w2 where s2: "getChatById cid w1 = (r2, w2)"
    by (cases "getChatById cid w1")
  obtain chat where r2: "r2 = Some chat"
    using assms s1 r1 cid s2 by (cases r2) (auto simp: create_thread_def)
  obtain r3 where s3: "saveChat (chat\<lparr>openAIThreadId := Some t\<rparr>) w2 = (r3, w')"
    using assms s1 r1 cid s2 r2
    by (cases "saveChat (chat\<lparr>openAIThreadId := Some t\<rparr>) w2")
      (auto simp: create_thread_def split: sum.splits)
  have "calls_ok w w1"
    using openai_calls_ok(1) s1 r1 by simp
  moreover have "openai_faults w' = openai_faults w1" "thread_list w' = thread_list w1"
    using getChatById_frame [OF s2] saveChat_frame [OF s3] by simp_all
  moreover have "thread_list w1 = thread_list w"
    using openai_calls_frame(1) [OF s1] by simp
  ultimately show ?thesis
    using cid s1 r1 s2 r2 by (auto simp: calls_ok_def)
qed

text \<open>
  The text path returns an answer only when every stage went well: an assistant is
  configured, no call of the assistant raised, the newest message of the thread is a text
  of the assistant, and a thread that had to be created has its chat in the store.
\<close>

lemma handleTextMessage_ok:
  assumes "handleTextMessage message thread w = (Inr val, w')"
  shows "truthy (OPENAI_ASSISTANT_ID w) \<and> calls_ok w w' \<and> \<not> no_answer w
    \<and> (truthy thread
       \<or> (\<exists>cid t w1 chat w2. chatId message = Some cid \<and> cid \<noteq> []
            \<and> threads_create w = (Inr t, w1) \<and> getChatById cid w1 = (Some chat, w2)))"
proof -
  have id: "truthy (OPENAI_ASSISTANT_ID w)"
    using assms by (cases "truthy (OPENAI_ASSISTANT_ID w)") (simp_all add: handleTextMessage_def)
  obtain r1 w1 where s1: "(case thread of
                None \<Rightarrow> create_thread message w
              | Some t \<Rightarrow> if t = [] then create_thread message w else (Inr t, w)) = (r1, w1)"
    by (cases "(case thread of
                None \<Rightarrow> create_thread message w
              | Some t \<Rightarrow> if t = [] then create_thread message w else (Inr t, w))")
  obtain threadId where r1: "r1 = Inr threadId"
    using assms id s1 by (cases r1) (simp_all add: handleTextMessage_def)
  have c1: "calls_ok w w1 \<and> thread_list w1 = thread_list w
    \<and> (truthy thread
       \<or> (\<exists>cid t w1 chat w2. chatId message = Some cid \<and> cid \<noteq> []
            \<and> threads_create w = (Inr t, w1) \<and> getChatById cid w1 = (Some chat, w2)))"
  proof (cases "truthy thread")
    case True
    then have "w1 = w"
      using s1 by (auto simp: truthy_def split: option.splits if_splits)
    then show ?thesis
      using True by (simp add: calls_ok_def)
  next
    case False
    then have "create_thread message w = (Inr threadId, w1)"
      using s1 r1 by (auto simp: truthy_def split: option.splits if_splits)
    then show ?thesis
      using create_thread_ok by blast
  qed
  obtain r2 w2 where s2: "threads_messages_create threadId (content message) w1 = (r2, w2)"
    by (cases "threads_messages_create threadId (content message) w1")
  obtain u2 where r2: "r2 = Inr u2"
    using assms id s1 r1 s2 by (cases r2) (simp_all add: handleTextMessage_def)
  obtain r3 w3 where s3: "runs_create threadId w2 = (r3, w3)"
    by (cases "runs_create threadId w2")
  obtain rid where r3: "r3 = Inr rid"
    using assms id s1 r1 s2 r2 s3 by (cases r3) (simp_all add: handleTextMessage_def)
  obtain r4 w4 where s4: "runs_retrieve w3 = (r4, w4)"
    by (cases "runs_retrieve w3")
  obtain st where r4: "r4 = Inr st"
    using assms id s1 r1 s2 r2 s3 r3 s4 by (cases r4) (simp_all add: handleTextMessage_def)
  obtain r5 w5 where s5: "poll_run rid (clock w4) st w4 = (r5, w5)"
    by (cases "poll_run rid (clock w4) st w4")
  obtain u5 where r5: "r5 = Inr u5"
    using assms id s1 r1 s2 r2 s3 r3 s4 r4 s5 by (cases r5) (simp_all add: handleTextMessage_def)
  obtain r6 w6 where s6: "threads_messages_list w5 = (r6, w6)"
    by (cases "threads_messages_list w5")
  obtain data where r6: "r6 = Inr data"
    using assms id s1 r1 s2 r2 s3 r3 s4 r4 s5 r5 s6
    by (cases r6) (simp_all add: handleTextMessage_def)
  have fin: "(case data of
               [] \<Rightarrow> (Inl (JsError ''No assistant response found''), w6)
             | m # ms \<Rightarrow>
                 if role m \<noteq> ''assistant''
                 then (Inl (JsError ''No assistant response found''), w6)
                 else (case parts m of
                         [] \<Rightarrow> (Inl TypeError, w6)
                       | (ty, val) # ps \<Rightarrow>
                           if ty \<noteq> ''text''
                           then (Inl (JsError (''Unexpected content type: '' @ ty)), w6)
                           else (Inr val, w6))) = (Inr val, w')"
    using assms id s1 r1 s2 r2 s3 r3 s4 r4 s5 r5 s6 r6 by (simp add: handleTextMessage_def)
  have w': "w' = w6"
    using fin by (auto split: list.splits if_splits prod.splits)
  have tl: "thread_list w5 = thread_list w"
    using c1 openai_calls_frame(2) [OF s2] openai_calls_frame(3) [OF s3]
      openai_calls_frame(4) [OF s4] poll_run_frame [OF s5] by simp
  have "data = take 1 (thread_list w5)"
    using s6 r6
    by (auto simp: threads_messages_list_def split: prod.splits option.splits
        dest: openai_fault_frame)
  then have ans: "\<not> no_answer w"
    using fin tl by (cases "thread_list w") (auto simp: no_answer_def split: list.splits if_splits)
  have "calls_ok w1 w2" "calls_ok w2 w3" "calls_ok w3 w4" "calls_ok w4 w5" "calls_ok w5 w6"
    using openai_calls_ok(2) [of threadId "content message" w1 u2 w2] s2 r2
      openai_calls_ok(3) [of threadId w2 rid w3] s3 r3
      openai_calls_ok(4) [of w3 st w4] s4 r4
      poll_run_ok [of rid "clock w4" st w4 u5 w5] s5 r5
      openai_calls_ok(5) [of w5 data w6] s6 r6
    by simp_all
  then have "calls_ok w w'"
    using c1 w' by (blast intro: calls_ok_trans)
  then show ?thesis
    using id ans c1 by blast
qed


text \<open>The image path returns its answer or "file access error" only when the token, the
  media record and the fetch were obtained and no call of the assistant raised.\<close>

lemma handleImageMessage_try_ok:
  assumes "handleImageMessage_try message mid w = (Inr reply, w')"
  shows "calls_ok w w'
    \<and> (\<exists>tok r w1 ok body ct. file_token w = Inr tok \<and> getMediaRecord mid w = (Some r, w1)
          \<and> fetch w1 (getFileUrl r (media_file r) tok) = Response ok body ct)"
proof -
  obtain tok where tk: "file_token w = Inr tok"
    using assms by (cases "file_token w") (simp_all add: handleImageMessage_try_def getFileToken_def)
  obtain r2 w1 where s2: "getMediaRecord mid w = (r2, w1)"
    by (cases "getMediaRecord mid w")
  obtain r where r2: "r2 = Some r"
    using assms tk s2 by (cases r2) (simp_all add: handleImageMessage_try_def getFileToken_def)
  note fr = getMediaRecord_frame [OF s2]
  obtain ok body ct where ft: "fetch w1 (getFileUrl r (media_file r) tok) = Response ok body ct"
    using assms tk s2 r2
    by (cases "fetch w1 (getFileUrl r (media_file r) tok)")
      (simp_all add: handleImageMessage_try_def getFileToken_def)
  have "calls_ok w w'"
  proof (cases ok)
    case False
    then have "w' = w1"
      using assms tk s2 r2 ft by (simp add: handleImageMessage_try_def getFileToken_def)
    then show ?thesis
      using fr by (simp add: calls_ok_def)
  next
    case True
    obtain rc w3 where vc: "chat_completions_create w1 = (rc, w3)"
      by (cases "chat_completions_create w1")
    obtain choices where rc: "rc = Inr choices"
      using assms tk s2 r2 ft True vc
      by (cases rc) (simp_all add: handleImageMessage_try_def getFileToken_def)
    obtain choice cs where ch: "choices = choice # cs"
      using assms tk s2 r2 ft True vc rc
      by (cases choices) (simp_all add: handleImageMessage_try_def getFileToken_def)
    let ?d = "or_else choice VISION_FAILED"
    let ?c = "(if content message \<noteq> []
                then content message @ [CHR 0x0A, CHR 0x0A] @ IMAGE_CONTENT_OPEN @ ?d @ '']''
                else IMAGE_CONTENT_OPEN @ ?d @ '']'')"
    obtain r4 w4 where s4: "handleTextMessage (message\<lparr>content := ?c, msg_type := ''text''\<rparr>) None w3
        = (r4, w4)"
      by (cases "handleTextMessage (message\<lparr>content := ?c, msg_type := ''text''\<rparr>) None w3")
    obtain val where r4: "r4 = Inr val" and w4: "w' = w4"
      using assms tk s2 r2 ft True vc rc ch s4
      by (cases r4) (simp_all add: handleImageMessage_try_def getFileToken_def Let_def)
    have "calls_ok w w1"
      using fr by (simp add: calls_ok_def)
    moreover have "calls_ok w1 w3"
      using openai_calls_ok(6) vc rc by simp
    moreover have "calls_ok w3 w4"
      using handleTextMessage_ok s4 r4 by blast
    ultimately show ?thesis
      using w4 by (blast intro: calls_ok_trans)
  qed
  then show ?thesis
    using tk s2 r2 ft by blast
qed

text \<open>Likewise the audio path; with the audio fetched, it went on only when the conversion
  and the transcription request did not raise.\<close>

lemma handleAudioMessage_try_ok:
  assumes "handleAudioMessage_try message mid w = (Inr reply, w')"
  shows "calls_ok w w'
    \<and> (\<exists>tok r w1 ok buf ct. file_token w = Inr tok \<and> getMediaRecord mid w = (Some r, w1)
          \<and> fetch w1 (getFileUrl r (media_file r) tok) = Response ok buf ct
          \<and> (ok \<longrightarrow> (\<exists>blob okt said.
                 (if msg_source message = ''telegram'' then convertAudioInMemory w1 buf
                  else Inr buf) = Inr blob
                 \<and> transcription w1 blob = TranscriptionResponse okt said)))"
proof -
  obtain tok where tk: "file_token w = Inr tok"
    using assms by (cases "file_token w") (simp_all add: handleAudioMessage_try_def getFileToken_def)
  obtain r2 w1 where s2: "getMediaRecord mid w = (r2, w1)"
    by (cases "getMediaRecord mid w")
  obtain r where r2: "r2 = Some r"
    using assms tk s2 by (cases r2) (simp_all add: handleAudioMessage_try_def getFileToken_def)
  note fr = getMediaRecord_frame [OF s2]
  obtain ok buf ct where ft: "fetch w1 (getFileUrl r (media_file r) tok) = Response ok buf ct"
    using assms tk s2 r2
    by (cases "fetch w1 (getFileUrl r (media_file r) tok)")
      (simp_all add: handleAudioMessage_try_def getFileToken_def)
  have base: "calls_ok w w1"
    using fr by (simp add: calls_ok_def)
  show ?thesis
  proof (cases ok)
    case False
    then have "w' = w1"
      using assms tk s2 r2 ft by (simp add: handleAudioMessage_try_def getFileToken_def)
    then show ?thesis
      using base tk s2 r2 ft False by blast
  next
    case True
    let ?conv = "(if msg_source message = ''telegram'' then convertAudioInMemory w1 buf
                  else Inr buf)"
    obtain blob where cv: "?conv = Inr blob"
      using assms tk s2 r2 ft True
      by (cases ?conv) (simp_all add: handleAudioMessage_try_def getFileToken_def)
    obtain okt said where tr: "transcription w1 blob = TranscriptionResponse okt said"
      using assms tk s2 r2 ft True cv
      by (cases "transcription w1 blob")
        (simp_all add: handleAudioMessage_try_def getFileToken_def)
    have "calls_ok w w'"
    proof (cases "\<not> okt \<or> \<not> truthy said \<or> trim (or_else said []) = []")
      case True
      then have "w' = w1"
        using assms tk s2 r2 ft \<open>ok\<close> cv tr
        by (auto simp: handleAudioMessage_try_def getFileToken_def split: if_splits)
      then show ?thesis
        using base by simp
    next
      case False
      obtain r4 w4 where s4: "handleTextMessage
          (message\<lparr>content := or_else said [], msg_type := ''text''\<rparr>) None w1 = (r4, w4)"
        by (cases "handleTextMessage
          (message\<lparr>content := or_else said [], msg_type := ''text''\<rparr>) None w1")
      obtain val where r4: "r4 = Inr val" and w4: "w' = w4"
        using assms tk s2 r2 ft \<open>ok\<close> cv tr False s4
        by (cases r4) (simp_all add: handleAudioMessage_try_def getFileToken_def Let_def)
      have "calls_ok w1 w4"
        using handleTextMessage_ok s4 r4 by blast
      then show ?thesis
        using base w4 by (blast intro: calls_ok_trans)
    qed
    then show ?thesis
      using tk s2 r2 ft cv tr by blast
  qed
qed


lemma text_path_apology:
  assumes "getAIResponse message thread w = (reply, w')"
    and ty: "msg_type message \<noteq> ''voice''" "msg_type message \<noteq> ''audio''"
      "msg_type message \<noteq> ''image''"
    and bad: "\<not> truthy (OPENAI_ASSISTANT_ID w)
          \<or> raised w w'
          \<or> never_completes w
          \<or> no_answer w
          \<or> (\<not> truthy thread \<and> \<not> truthy (chatId message))
          \<or> (\<not> truthy thread \<and> chatId message = Some cid \<and> pb_faults w = []
              \<and> find (\<lambda>c. chat_id c = Some cid) (chats w) = None)"
  shows "reply = APOLOGY"
proof -
  obtain r1 w1 where ht: "handleTextMessage message thread w = (r1, w1)"
    by (cases "handleTextMessage message thread w")
  show ?thesis
  proof (cases r1)
    case (Inl e)
    then show ?thesis
      using assms(1) ty ht by (simp add: getAIResponse_def)
  next
    case (Inr val)
    then have w': "w' = w1"
      using assms(1) ty ht by (simp add: getAIResponse_def)
    note ok = handleTextMessage_ok [OF ht [unfolded Inr]]
    have "\<not> raised w w'"
      using ok w' by (simp add: calls_ok_not_raised)
    moreover have "\<not> never_completes w"
      using handleTextMessage_never_completes [of w message thread] ht Inr by auto
    moreover have "truthy thread \<or> truthy (chatId message)"
      using ok by (auto simp: truthy_def)
    moreover have "\<not> (\<not> truthy thread \<and> chatId message = Some cid \<and> pb_faults w = []
              \<and> find (\<lambda>c. chat_id c = Some cid) (chats w) = None)"
    proof
      assume a: "\<not> truthy thread \<and> chatId message = Some cid \<and> pb_faults w = []
              \<and> find (\<lambda>c. chat_id c = Some cid) (chats w) = None"
      then obtain t w2 chat w3 where "threads_create w = (Inr t, w2)"
        "getChatById cid w2 = (Some chat, w3)"
        using ok by auto
      moreover have "fst (getChatById cid w2) = None"
        using a threads_create_store [OF calculation(1)] by (intro getChatById_missing) simp_all
      ultimately show False by simp
    qed
    ultimately show ?thesis
      using bad ok by blast
  qed
qed

lemma image_path_failure:
  assumes "getAIResponse message thread w = (reply, w')"
    and ty: "msg_type message = ''image''" "mediaFileId message = Some mid" "mid \<noteq> []"
    and bad: "raised w w'
          \<or> file_token w = Inl e
          \<or> fst (getMediaRecord mid w) = None
          \<or> (file_token w = Inr tok \<and> getMediaRecord mid w = (Some r, w1)
              \<and> fetch w1 (getFileUrl r (media_file r) tok) = FetchThrows)"
  shows "reply = IMAGE_STORE_FAILED"
proof -
  obtain r0 w0 where ht: "handleImageMessage_try message mid w = (r0, w0)"
    by (cases "handleImageMessage_try message mid w")
  show ?thesis
  proof (cases r0)
    case (Inl err)
    then show ?thesis
      using assms(1) ty ht by (simp add: getAIResponse_def handleImageMessage_def)
  next
    case (Inr val)
    then have w': "w' = w0"
      using assms(1) ty ht by (simp add: getAIResponse_def handleImageMessage_def)
    note ok = handleImageMessage_try_ok [OF ht [unfolded Inr]]
    have "\<not> raised w w'"
      using ok w' by (simp add: calls_ok_not_raised)
    then show ?thesis
      using bad ok by auto
  qed
qed

lemma audio_path_failure:
  assumes "getAIResponse message thread w = (reply, w')"
    and ty: "msg_type message = ''voice'' \<or> msg_type message = ''audio''"
      "mediaFileId message = Some mid" "mid \<noteq> []"
    and bad: "raised w w'
          \<or> file_token w = Inl e
          \<or> fst (getMediaRecord mid w) = None
          \<or> (file_token w = Inr tok \<and> getMediaRecord mid w = (Some r, w1)
              \<and> (fetch w1 (getFileUrl r (media_file r) tok) = FetchThrows
                 \<or> (fetch w1 (getFileUrl r (media_file r) tok) = Response True buf ct
                     \<and> ((msg_source message = ''telegram''
                           \<and> convertAudioInMemory w1 buf = Inl e')
                        \<or> ((if msg_source message = ''telegram''
                             then convertAudioInMemory w1 buf else Inr buf) = Inr blob
                            \<and> transcription w1 blob = TranscriptionThrows)))))"
  shows "reply = AUDIO_FAILED"
proof -
  obtain r0 w0 where ht: "handleAudioMessage_try message mid w = (r0, w0)"
    by (cases "handleAudioMessage_try message mid w")
  show ?thesis
  proof (cases r0)
    case (Inl err)
    then show ?thesis
      using assms(1) ty ht by (auto simp: getAIResponse_def handleAudioMessage_def)
  next
    case (Inr val)
    then have w': "w' = w0"
      using assms(1) ty ht by (auto simp: getAIResponse_def handleAudioMessage_def)
    note ok = handleAudioMessage_try_ok [OF ht [unfolded Inr]]
    have "\<not> raised w w'"
      using ok w' by (simp add: calls_ok_not_raised)
    then show ?thesis
      using bad ok by (auto split: if_splits)
  qed
qed

text \<open>
  C5 (as the code has it). \<open>getAIResponse\<close> has no exceptional result: its catch block
  covers its whole body. For a message of the text path the reply is the apology whenever
  a stage fails: no assistant is configured, a call of the assistant raises (thread
  creation, adding the message, run submission, a status request, reading the answer), the
  run never completes, the newest message of the thread is not a text of the assistant, or
  a thread has to be created and the message has no chat or its chat is not in the store.
  For an image with a media reference the reply is the image path's own failure text, not
  the apology, whenever a call of the assistant raises (the vision call or a call of the
  text path), the file token request fails, the media record cannot be read, or the fetch
  throws. For audio with a media reference the reply is the audio path's own failure text
  in these cases and when the conversion or the transcription request throws.
\<close>

theorem getAIResponse_turns_exceptions_into_text:
  assumes "getAIResponse message thread w = (reply, w')"
  shows "(msg_type message \<noteq> ''voice'' \<and> msg_type message \<noteq> ''audio''
       \<and> msg_type message \<noteq> ''image''
       \<and> (\<not> truthy (OPENAI_ASSISTANT_ID w)
          \<or> raised w w'
          \<or> never_completes w
          \<or> no_answer w
          \<or> (\<not> truthy thread \<and> \<not> truthy (chatId message))
          \<or> (\<not> truthy thread \<and> chatId message = Some cid \<and> pb_faults w = []
              \<and> find (\<lambda>c. chat_id c = Some cid) (chats w) = None))
      \<longrightarrow> reply = APOLOGY)
    \<and> (msg_type message = ''image'' \<and> mediaFileId message = Some mid \<and> mid \<noteq> []
       \<and> (raised w w'
          \<or> file_token w = Inl e
          \<or> fst (getMediaRecord mid w) = None
          \<or> (file_token w = Inr tok \<and> getMediaRecord mid w = (Some r, w1)
              \<and> fetch w1 (getFileUrl r (media_file r) tok) = FetchThrows))
      \<longrightarrow> reply = IMAGE_STORE_FAILED)
    \<and> ((msg_type message = ''voice'' \<or> msg_type message = ''audio'')
       \<and> mediaFileId message = Some mid \<and> mid \<noteq> []
       \<and> (raised w w'
          \<or> file_token w = Inl e
          \<or> fst (getMediaRecord mid w) = None
          \<or> (file_token w = Inr tok \<and> getMediaRecord mid w = (Some r, w1)
              \<and> (fetch w1 (getFileUrl r (media_file r) tok) = FetchThrows
                 \<or> (fetch w1 (getFileUrl r (media_file r) tok) = Response True buf ct
                     \<and> ((msg_source message = ''telegram''
                           \<and> convertAudioInMemory w1 buf = Inl e')
                        \<or> ((if msg_source message = ''telegram''
                             then convertAudioInMemory w1 buf else Inr buf) = Inr blob
                            \<and> transcription w1 blob = TranscriptionThrows))))))
      \<longrightarrow> reply = AUDIO_FAILED)"
proof (intro conjI impI; (elim conjE)?)
  assume "msg_type message \<noteq> ''voice''" "msg_type message \<noteq> ''audio''"
    "msg_type message \<noteq> ''image''"
    "\<not> truthy (OPENAI_ASSISTANT_ID w)
          \<or> raised w w'
          \<or> never_completes w
          \<or> no_answer w
          \<or> (\<not> truthy thread \<and> \<not> truthy (chatId message))
          \<or> (\<not> truthy thread \<and> chatId message = Some cid \<and> pb_faults w = []
              \<and> find (\<lambda>c. chat_id c = Some cid) (chats w) = None)"
  then show "reply = APOLOGY"
    by (rule text_path_apology [OF assms])
next
  assume "msg_type message = ''image''" "mediaFileId message = Some mid" "mid \<noteq> []"
    "raised w w'
          \<or> file_token w = Inl e
          \<or> fst (getMediaRecord mid w) = None
          \<or> (file_token w = Inr tok \<and> getMediaRecord mid w = (Some r, w1)
              \<and> fetch w1 (getFileUrl r (media_file r) tok) = FetchThrows)"
  then show "reply = IMAGE_STORE_FAILED"
    by (rule image_path_failure [OF assms])
next
  assume "msg_type message = ''voice'' \<or> msg_type message = ''audio''"
    "mediaFileId message = Some mid" "mid \<noteq> []"
    "raised w w'
          \<or> file_token w = Inl e
          \<or> fst (getMediaRecord mid w) = None
          \<or> (file_token w = Inr tok \<and> getMediaRecord mid w = (Some r, w1)
              \<and> (fetch w1 (getFileUrl r (media_file r) tok) = FetchThrows
                 \<or> (fetch w1 (getFileUrl r (media_file r) tok) = Response True buf ct
                     \<and> ((msg_source message = ''telegram''
                           \<and> convertAudioInMemory w1 buf = Inl e')
                        \<or> ((if msg_source message = ''telegram''
                             then convertAudioInMemory w1 buf else Inr buf) = Inr blob
                            \<and> transcription w1 blob = TranscriptionThrows)))))"
  then show "reply = AUDIO_FAILED"
    by (rule audio_path_failure [OF assms])
qed


text \<open>
  Worlds in which one stage fails: the assistant refuses the first call (thread creation),
  the assistant refuses the third call (run submission), the vision call is refused, the
  transcription request throws.
\<close>

definition assistant_down :: world where
  "assistant_down = quiet\<lparr>openai_faults := [Some (JsError ''connection refused'')]\<rparr>"

definition submission_fails :: world where
  "submission_fails =
     quiet\<lparr>chats := [chat0], openai_faults := [None, None, Some (JsError ''rate limit'')]\<rparr>"

definition vision_down :: world where
  "vision_down = stuck\<lparr>openai_faults := [Some (JsError ''connection refused'')]\<rparr>"

definition deaf :: world where
  "deaf = stuck\<lparr>transcription := (\<lambda>b. TranscriptionThrows)\<rparr>"

theorem getAIResponse_turns_exceptions_into_text_witness:
  "raised assistant_down (snd (getAIResponse text_message None assistant_down))
   \<and> fst (getAIResponse text_message None assistant_down) = APOLOGY
   \<and> raised submission_fails (snd (getAIResponse text_message None submission_fails))
   \<and> thread_count (snd (getAIResponse text_message None submission_fails)) = 1
   \<and> run_count (snd (getAIResponse text_message None submission_fails)) = 0
   \<and> fst (getAIResponse text_message None submission_fails) = APOLOGY
   \<and> never_completes stuck
   \<and> fst (getAIResponse text_message None stuck) = APOLOGY
   \<and> fst (getMediaRecord ''med1'' quiet) = None
   \<and> fst (getAIResponse image_of_chat None quiet) = IMAGE_STORE_FAILED
   \<and> raised vision_down (snd (getAIResponse image_of_chat None vision_down))
   \<and> fst (getAIResponse image_of_chat None vision_down) = IMAGE_STORE_FAILED
   \<and> fst (getAIResponse voice_of_chat None deaf) = AUDIO_FAILED
   \<and> fst (getAIResponse text_message None (quiet\<lparr>chats := [chat0]\<rparr>)) = ''ok''"
proof -
  have ty: "msg_type text_message \<noteq> ''voice''" "msg_type text_message \<noteq> ''audio''"
    "msg_type text_message \<noteq> ''image''"
    "msg_type image_of_chat = ''image''" "mediaFileId image_of_chat = Some ''med1''"
    "msg_type voice_of_chat = ''voice''" "mediaFileId voice_of_chat = Some ''med1''"
    "msg_source voice_of_chat = ''whatsapp''"
    by (simp_all add: text_message_def image_of_chat_def voice_of_chat_def)
  have a1: "raised assistant_down (snd (getAIResponse text_message None assistant_down))"
    by (simp add: raised_def responder_defs store_defs assistant_down_def quiet_def
        text_message_def)
  have a2: "fst (getAIResponse text_message None assistant_down) = APOLOGY"
    using getAIResponse_turns_exceptions_into_text
      [OF prod.collapse [symmetric],
        where message = text_message and thread = None and w = assistant_down] ty a1
    by blast
  have b1: "raised submission_fails (snd (getAIResponse text_message None submission_fails))"
    "thread_count (snd (getAIResponse text_message None submission_fails)) = 1"
    "run_count (snd (getAIResponse text_message None submission_fails)) = 0"
    by (simp_all add: raised_def responder_defs store_defs submission_fails_def quiet_def
        text_message_def chat0_def)
  have b2: "fst (getAIResponse text_message None submission_fails) = APOLOGY"
    using getAIResponse_turns_exceptions_into_text
      [OF prod.collapse [symmetric],
        where message = text_message and thread = None and w = submission_fails] ty b1(1)
    by blast
  have c2: "fst (getAIResponse text_message None stuck) = APOLOGY"
    using getAIResponse_turns_exceptions_into_text
      [OF prod.collapse [symmetric],
        where message = text_message and thread = None and w = stuck] ty never_completes_stuck
    by blast
  have d1: "fst (getMediaRecord ''med1'' quiet) = None"
    by (simp add: store_defs quiet_def)
  have d2: "fst (getAIResponse image_of_chat None quiet) = IMAGE_STORE_FAILED"
    using getAIResponse_turns_exceptions_into_text
      [OF prod.collapse [symmetric],
        where message = image_of_chat and thread = None and w = quiet and mid = "''med1''"] ty d1
    by simp
  have e1: "raised vision_down (snd (getAIResponse image_of_chat None vision_down))"
    by (simp add: raised_def responder_defs store_defs vision_down_def stuck_def quiet_def
        image_of_chat_def text_message_def)
  have e2: "fst (getAIResponse image_of_chat None vision_down) = IMAGE_STORE_FAILED"
    using getAIResponse_turns_exceptions_into_text
      [OF prod.collapse [symmetric],
        where message = image_of_chat and thread = None and w = vision_down
          and mid = "''med1''"] ty e1
    by simp
  have m: "file_token deaf = Inr ''tok''"
    "getMediaRecord ''med1'' deaf
       = (Some \<lparr>media_id = ''med1'', media_file = ''photo.jpg'',
                 media_platform = ''whatsapp'', media_blob = ''bytes''\<rparr>,
          deaf\<lparr>pb_requests := 1\<rparr>)"
    "fetch (deaf\<lparr>pb_requests := 1\<rparr>) url = Response True ''bytes'' (Some ''image/jpeg'')"
    "transcription (deaf\<lparr>pb_requests := 1\<rparr>) ''bytes'' = TranscriptionThrows"
    for url
    by (simp_all add: store_defs deaf_def stuck_def quiet_def)
  have f2: "fst (getAIResponse voice_of_chat None deaf) = AUDIO_FAILED"
    using getAIResponse_turns_exceptions_into_text
      [OF prod.collapse [symmetric],
        where message = voice_of_chat and thread = None and w = deaf and mid = "''med1''"
          and tok = "''tok''" and ?w1.0 = "deaf\<lparr>pb_requests := 1\<rparr>"
          and buf = "''bytes''" and ct = "Some ''image/jpeg''" and blob = "''bytes''"
          and r = "\<lparr>media_id = ''med1'', media_file = ''photo.jpg'',
                 media_platform = ''whatsapp'', media_blob = ''bytes''\<rparr>"]
      ty m
    by simp
  have g: "fst (getAIResponse text_message None (quiet\<lparr>chats := [chat0]\<rparr>)) = ''ok''"
    by (simp add: responder_defs store_defs poll_run.simps quiet_def text_message_def chat0_def)
  show ?thesis
    by (intro conjI a1 a2 b1 b2 never_completes_stuck c2 d1 d2 e1 e2 f2 g)
qed

text \<open>
  C5 as stated fails for the media stages: the image message names a media record that
  the store does not have, media retrieval raises, and the reply is the image path's
  text, not the apology.
\<close>

theorem media_failure_reply_is_not_the_apology:
  "fst (getAIResponse image_of_chat None quiet) = IMAGE_STORE_FAILED
   \<and> fst (getAIResponse voice_of_chat None quiet) = AUDIO_FAILED
   \<and> IMAGE_STORE_FAILED \<noteq> APOLOGY \<and> AUDIO_FAILED \<noteq> APOLOGY"
  by (simp add: responder_defs store_defs quiet_def image_of_chat_def voice_of_chat_def
      text_message_def IMAGE_STORE_FAILED_def AUDIO_FAILED_def APOLOGY_def)

section \<open>The thread handle of a chat\<close>

text \<open>
  A chat in auto mode that already has the thread handle "thread_old", with the image of
  the message stored and reachable.
\<close>

definition chat_with_thread :: Chat where
  "chat_with_thread = chat0\<lparr>autoMode := True, openAIThreadId := Some ''thread_old''\<rparr>"

definition ready :: world where
  "ready = quiet
     \<lparr>chats := [chat_with_thread],
      media := [\<lparr>media_id = ''med1'', media_file = ''photo.jpg'',
                 media_platform = ''whatsapp'', media_blob = ''bytes''\<rparr>],
      fetch := (\<lambda>url. Response True ''bytes'' (Some ''image/jpeg''))\<rparr>"

text \<open>
  C4 at a failing input. A text message of the chat is answered on the chat's thread and
  the handle stays. An image message of the same chat is answered on a new thread
  "thread_0" (\<open>handleImageMessage\<close> calls \<open>handleTextMessage\<close> without the handle it was
  not given), and the new handle replaces "thread_old" on the chat; a voice message does
  the same.
\<close>

theorem image_reply_replaces_thread_handle:
  "map openAIThreadId (chats (snd (getAIResponse text_message (Some ''thread_old'') ready)))
     = [Some ''thread_old'']
   \<and> map fst (thread_inputs (snd (getAIResponse text_message (Some ''thread_old'') ready)))
     = [''thread_old'']
   \<and> map openAIThreadId (chats (snd (getAIResponse image_of_chat (Some ''thread_old'') ready)))
     = [Some ''thread_0'']
   \<and> map fst (thread_inputs (snd (getAIResponse image_of_chat (Some ''thread_old'') ready)))
     = [''thread_0'']
   \<and> map openAIThreadId (chats (snd (getAIResponse voice_of_chat (Some ''thread_old'') ready)))
     = [Some ''thread_0'']"
  by (simp add: responder_defs store_defs poll_run.simps ready_def quiet_def chat0_def
      chat_with_thread_def image_of_chat_def voice_of_chat_def text_message_def
      trim_hello)

section \<open>A missing chat in the bot adapter\<close>

text \<open>A text update of the bot, and a store that answers the next request with status 500.\<close>

definition text_update :: Context where
  "text_update =
     \<lparr>ctx_message = Some \<lparr>message_id = 7, date = 1700000000, tg_text = Some ''hi'',
                          caption = None, photo = None, voice = None\<rparr>,
      ctx_chat_id = Some 42, ctx_from_id = Some 5, ctx_from_first_name = Some ''Ana''\<rparr>"

definition store_down :: world where
  "store_down = quiet\<lparr>pb_faults := [Some (ClientResponseError 500 None)]\<rparr>"

text \<open>
  C7 at a failing input. \<open>findOrCreateChat\<close> returns \<open>null\<close> and does not throw, and the
  aggregator adapter returns at once on \<open>null\<close>. The bot's text handler dereferences the
  \<open>null\<close> chat: it throws a \<open>TypeError\<close>, and the inbound message is not stored.
\<close>

theorem telegram_text_handler_dereferences_null_chat:
  "fst (findOrCreateChat ''42'' ''telegram'' None store_down) = None
   \<and> processBrevoMessage_try ana hola_message ''whatsapp'' True store_down
       = (Inr (), quiet\<lparr>pb_requests := 1\<rparr>)
   \<and> fst (handleTgTextMessage text_update store_down) = Inl TypeError
   \<and> messages (snd (handleTgTextMessage text_update store_down)) = []"
  by (simp add: handleTgTextMessage_def processBrevoMessage_try_def String_opt_def
      string_of_int_def string_of_nat.simps store_defs store_down_def quiet_def
      text_update_def ana_def)

section \<open>Messages of the send endpoint\<close>

text \<open>A send request for the bot channel and one for an aggregator channel, and the
  aggregator's echo of the sent text as an agent message.\<close>

definition send_telegram :: SendRequest where
  "send_telegram =
     \<lparr>req_chatId = Some ''c0'', req_platformChatId = Some ''42'', req_source = Some ''telegram'',
      req_text = Some ''hi'', req_type = None, req_visitorId = None, req_senderName = None\<rparr>"

definition send_whatsapp :: SendRequest where
  "send_whatsapp =
     \<lparr>req_chatId = Some ''c0'', req_platformChatId = Some ''t1'', req_source = Some ''whatsapp'',
      req_text = Some ''hi'', req_type = None, req_visitorId = Some ''v1'', req_senderName = None\<rparr>"

definition echo :: WebhookBody where
  "echo =
     \<lparr>eventName = ''conversationFragment'',
      visitor = Some ana,
      wb_message = None,
      wb_messages = Some [\<lparr>bm_id = ''m9'', bm_type = ''agent'', bm_text = Some ''hi'',
                           bm_file = None, createdAt = 1700000000000,
                           agentId = Some ''agent7'', agentName = Some ''Support''\<rparr>]\<rparr>"

text \<open>
  C9 at a failing input. The send endpoint builds a message with response mode "manual",
  sends the text, and stores nothing: the message collection is as before, for the bot
  channel and for an aggregator channel. When the aggregator then delivers the sent text
  back as an agent message, that delivery is stored as an outbound message with response
  mode "auto".
\<close>

theorem send_endpoint_stores_no_message:
  "responseMode (api_message 0 send_telegram) = ''manual''
   \<and> success (fst (post_api_messages 0 send_telegram quiet))
   \<and> tg_sent (snd (post_api_messages 0 send_telegram quiet)) = [(''42'', ''hi'')]
   \<and> messages (snd (post_api_messages 0 send_telegram quiet)) = []
   \<and> success (fst (post_api_messages 0 send_whatsapp quiet))
   \<and> brevo_sent (snd (post_api_messages 0 send_whatsapp quiet)) = [(''v1'', ''hi'')]
   \<and> messages (snd (post_api_messages 0 send_whatsapp quiet)) = []
   \<and> map (\<lambda>m. (content m, isIncoming m, responseMode m))
        (messages (backend (run [Send 0 send_whatsapp, Webhook 1 echo] server0)))
      = [(''hi'', False, ''auto'')]"
  by (simp add: post_api_messages_def api_message_def sendTelegramMessage_def
      api_sendMessage_def tg_fault_def sendBrevoMessage_def conversationsMessagesPost_def
      brevohook_def first_message_def Map_has_def Map_set_def webhook_dispatch_def
      process_visitor_def processAgentMessage_def processBrevoMessage_def
      processBrevoMessage_try_def store_defs send_telegram_def send_whatsapp_def echo_def
      ana_def server0_def quiet_def)

theorem send_endpoint_stores_no_message_witness:
  "messages (snd (post_api_messages 0 send_telegram quiet)) = messages quiet
   \<and> messages (snd (post_api_messages 0 send_whatsapp quiet)) = messages quiet"
  using send_endpoint_stores_no_message by (simp add: quiet_def)

end
